theory Spec2Isabelle
  imports Complex_Main "HOL-Library.Sublist" "HOL-Library.AList"
begin

section \<open>Exceptions and effects\<close>

text \<open>
  Python exceptions are values.  Every constructor carries the message that \<open>str(e)\<close>
  prints.  \<open>HTTPError\<close> is \<open>requests.HTTPError\<close> and carries the status code of the
  attached response (\<open>None\<close> when no response is attached); \<open>HttpError\<close> is
  \<open>googleapiclient.errors.HttpError\<close>, whose \<open>resp.status\<close> is always present.
  \<open>ConnectionError\<close> and \<open>Timeout\<close> are the network-level failures.  The type covers
  the subclasses of \<open>Exception\<close>, which is what the handlers of the sources catch;
  \<open>KeyboardInterrupt\<close> and \<open>SystemExit\<close> are not modelled.
\<close>

datatype exn =
    HTTPError "int option" string
  | ConnectionError string
  | Timeout string
  | HttpError int string
  | ValueError string
  | YouTubeError string
  | YouTubeAPIError string
  | SMTPAuthenticationError string
  | AttributeError string
  | KeyError string
  | IndexError string
  | TypeError string
  | OverflowError string
  | OtherException string

fun str_exn :: "exn \<Rightarrow> string" where
  "str_exn (HTTPError r m) = m"
| "str_exn (ConnectionError m) = m"
| "str_exn (Timeout m) = m"
| "str_exn (HttpError s m) = m"
| "str_exn (ValueError m) = m"
| "str_exn (YouTubeError m) = m"
| "str_exn (YouTubeAPIError m) = m"
| "str_exn (SMTPAuthenticationError m) = m"
| "str_exn (AttributeError m) = m"
| "str_exn (KeyError m) = m"
| "str_exn (IndexError m) = m"
| "str_exn (TypeError m) = m"
| "str_exn (OverflowError m) = m"
| "str_exn (OtherException m) = m"

text \<open>
  An operation wrapped by a retry decorator acts on the outside world: it maps a world to
  an outcome (an exception or a value) and the world after the call.  The decorator itself
  calls \<open>time.sleep\<close>; the state it runs in records the delays slept, in seconds and in
  order, and the number of times the wrapped operation has been invoked.  \<open>max_retries\<close>
  and \<open>retries\<close> are Python integers.
\<close>

type_synonym ('w, 'a) operation = "'w \<Rightarrow> (exn + 'a) \<times> 'w"

record 'w rstate =
  world :: 'w
  sleeps :: "real list"
  invocations :: nat

definition initial :: "'w \<Rightarrow> 'w rstate" where
  "initial w = \<lparr>world = w, sleeps = [], invocations = 0\<rparr>"

definition invoked :: "'w \<Rightarrow> 'w rstate \<Rightarrow> 'w rstate" where
  "invoked w st = st\<lparr>world := w, invocations := Suc (invocations st)\<rparr>"

text \<open>Sequencing of steps that may raise.\<close>

definition try_bind :: "exn + 'a \<Rightarrow> ('a \<Rightarrow> exn + 'b) \<Rightarrow> exn + 'b" where
  "try_bind r f = (case r of Inl e \<Rightarrow> Inl e | Inr v \<Rightarrow> f v)"

text \<open>
  The \<open>delay\<close> argument is a Python number: the decorators are called with the float \<open>1.0\<close>
  (the default) and with the integer \<open>2\<close>.  A float is modelled by the real number it
  denotes; infinities and NaN are not modelled.

  \<open>times_power delay k\<close> is \<open>delay * (2 ** k)\<close>.  The power is an integer of any size.  The
  product with an integer is exact.  The product with a float converts the power to a
  float first, which raises \<open>OverflowError\<close> from \<open>2 ** 1024\<close> on; below that, multiplying
  a float by a power of two is exact, and a product beyond the range of floats is an
  infinity, which \<open>time.sleep\<close> refuses like any duration that is too long.

  \<open>time_sleep d st\<close> is \<open>time.sleep(d)\<close>.  The duration is first converted to a signed 64-bit
  count of nanoseconds, which raises \<open>OverflowError\<close> outside \<open>sleep_min .. sleep_max\<close>
  seconds; a negative duration then raises \<open>ValueError\<close>; otherwise the duration is slept
  and recorded.
\<close>

datatype pynum = PyInt int | PyFloat real

fun num_value :: "pynum \<Rightarrow> real" where
  "num_value (PyInt i) = of_int i"
| "num_value (PyFloat x) = x"

fun times_power :: "pynum \<Rightarrow> nat \<Rightarrow> exn + pynum" where
  "times_power (PyInt i) k = Inr (PyInt (i * 2 ^ k))"
| "times_power (PyFloat x) k =
     (if 1024 \<le> k then Inl (OverflowError ''int too large to convert to float'')
      else Inr (PyFloat (x * 2 ^ k)))"

definition sleep_max :: real where
  "sleep_max = (2 ^ 63 - 1) / 10 ^ 9"

definition sleep_min :: real where
  "sleep_min = - (2 ^ 63) / 10 ^ 9"

definition time_sleep :: "pynum \<Rightarrow> 'w rstate \<Rightarrow> exn + 'w rstate" where
  "time_sleep d st =
     (if num_value d < sleep_min \<or> sleep_max < num_value d then
        Inl (OverflowError (case d of
                              PyInt i \<Rightarrow> ''timestamp too large to convert to C _PyTime_t''
                            | PyFloat x \<Rightarrow> ''timestamp out of range for platform time_t''))
      else if num_value d < 0 then Inl (ValueError ''sleep length must be non-negative'')
      else Inr (st\<lparr>sleeps := sleeps st @ [num_value d]\<rparr>))"

text \<open>\<open>time.sleep(delay * (2 ** k))\<close>.\<close>

definition backoff_sleep :: "pynum \<Rightarrow> nat \<Rightarrow> 'w rstate \<Rightarrow> exn + 'w rstate" where
  "backoff_sleep delay k st = try_bind (times_power delay k) (\<lambda>d. time_sleep d st)"

section \<open>The retry decorator of communication/core.py\<close>

text \<open>
  An exception raised inside a handler (by the read of \<open>e.response.status_code\<close>, by the
  product or by \<open>time.sleep\<close>) leaves the decorator.
\<close>

function communication_retry_loop ::
  "int \<Rightarrow> pynum \<Rightarrow> ('w, 'a) operation \<Rightarrow> int \<Rightarrow> 'w rstate \<Rightarrow> (exn + 'a) \<times> 'w rstate" where
  "communication_retry_loop max_retries delay func retries st =
     (case func (world st) of (r, w) \<Rightarrow>
        (case r of
           Inr v \<Rightarrow> (Inr v, invoked w st)
         | Inl (HTTPError None m) \<Rightarrow>
             (Inl (AttributeError ([CHR 0x27] @ ''NoneType'' @ [CHR 0x27] @ '' object has no attribute '' @ [CHR 0x27] @ ''status_code'' @ [CHR 0x27])), invoked w st)
         | Inl (HTTPError (Some status_code) m) \<Rightarrow>
             if status_code \<in> {400, 401, 403, 422} then (Inl (HTTPError (Some status_code) m), invoked w st)
             else if retries + 1 > max_retries then (Inl (HTTPError (Some status_code) m), invoked w st)
             else (case backoff_sleep delay (nat (retries + 1 - 1)) (invoked w st) of
                     Inl raised \<Rightarrow> (Inl raised, invoked w st)
                   | Inr slept \<Rightarrow> communication_retry_loop max_retries delay func (retries + 1) slept)
         | Inl (ConnectionError m) \<Rightarrow>
             if retries + 1 > max_retries then (Inl (ConnectionError m), invoked w st)
             else (case backoff_sleep delay (nat (retries + 1 - 1)) (invoked w st) of
                     Inl raised \<Rightarrow> (Inl raised, invoked w st)
                   | Inr slept \<Rightarrow> communication_retry_loop max_retries delay func (retries + 1) slept)
         | Inl (Timeout m) \<Rightarrow>
             if retries + 1 > max_retries then (Inl (Timeout m), invoked w st)
             else (case backoff_sleep delay (nat (retries + 1 - 1)) (invoked w st) of
                     Inl raised \<Rightarrow> (Inl raised, invoked w st)
                   | Inr slept \<Rightarrow> communication_retry_loop max_retries delay func (retries + 1) slept)
         | Inl e \<Rightarrow>
             if retries + 1 > max_retries then (Inl e, invoked w st)
             else (case time_sleep delay (invoked w st) of
                     Inl raised \<Rightarrow> (Inl raised, invoked w st)
                   | Inr slept \<Rightarrow> communication_retry_loop max_retries delay func (retries + 1) slept)))"
  by pat_completeness auto
termination
  by (relation "measure (\<lambda>(max_retries, delay, func, retries, st). nat (max_retries + 1 - retries))") auto

definition communication_with_retry ::
  "int \<Rightarrow> pynum \<Rightarrow> ('w, 'a) operation \<Rightarrow> 'w rstate \<Rightarrow> (exn + 'a) \<times> 'w rstate" where
  "communication_with_retry max_retries delay func st =
     communication_retry_loop max_retries delay func 0 st"

section \<open>The retry decorator of calendar/core.py\<close>

function calendar_retry_loop ::
  "int \<Rightarrow> pynum \<Rightarrow> ('w, 'a) operation \<Rightarrow> int \<Rightarrow> 'w rstate \<Rightarrow> (exn + 'a) \<times> 'w rstate" where
  "calendar_retry_loop max_retries delay func retries st =
     (case func (world st) of (r, w) \<Rightarrow>
        (case r of
           Inr v \<Rightarrow> (Inr v, invoked w st)
         | Inl (HttpError status_code m) \<Rightarrow>
             if status_code \<in> {400, 401, 403, 404} then (Inl (HttpError status_code m), invoked w st)
             else if retries + 1 > max_retries then (Inl (HttpError status_code m), invoked w st)
             else (case backoff_sleep delay (nat (retries + 1 - 1)) (invoked w st) of
                     Inl raised \<Rightarrow> (Inl raised, invoked w st)
                   | Inr slept \<Rightarrow> calendar_retry_loop max_retries delay func (retries + 1) slept)
         | Inl e \<Rightarrow>
             if retries + 1 > max_retries then (Inl e, invoked w st)
             else (case time_sleep delay (invoked w st) of
                     Inl raised \<Rightarrow> (Inl raised, invoked w st)
                   | Inr slept \<Rightarrow> calendar_retry_loop max_retries delay func (retries + 1) slept)))"
  by pat_completeness auto
termination
  by (relation "measure (\<lambda>(max_retries, delay, func, retries, st). nat (max_retries + 1 - retries))") auto

definition calendar_with_retry ::
  "int \<Rightarrow> pynum \<Rightarrow> ('w, 'a) operation \<Rightarrow> 'w rstate \<Rightarrow> (exn + 'a) \<times> 'w rstate" where
  "calendar_with_retry max_retries delay func st =
     calendar_retry_loop max_retries delay func 0 st"

declare communication_retry_loop.simps [simp del]
declare calendar_retry_loop.simps [simp del]

subsection \<open>Describing runs of a wrapped operation\<close>

text \<open>
  \<open>run func n w\<close> lists the outcomes of \<open>n\<close> successive invocations of \<open>func\<close> starting in
  world \<open>w\<close>, with the world they leave.  \<open>scripted\<close> is an operation that replays a
  prepared list of outcomes; it is used to build concrete examples.
\<close>

fun run :: "('w, 'a) operation \<Rightarrow> nat \<Rightarrow> 'w \<Rightarrow> (exn + 'a) list \<times> 'w" where
  "run func 0 w = ([], w)"
| "run func (Suc n) w =
     (case func w of (r, w') \<Rightarrow> (case run func n w' of (rs, w'') \<Rightarrow> (r # rs, w'')))"

fun scripted :: "((exn + 'a) list, 'a) operation" where
  "scripted [] = (Inl (OtherException ''script exhausted''), [])"
| "scripted (r # rs) = (r, rs)"

text \<open>
  The handlers' decisions, per decorator: which exceptions are retried at all, and which
  of the retried ones back off exponentially.  An \<open>HTTPError\<close> without a response is not
  retried: the handler's read of its status code raises.
\<close>

fun communication_retryable :: "exn \<Rightarrow> bool" where
  "communication_retryable (HTTPError None m) = False"
| "communication_retryable (HTTPError (Some status_code) m) = (status_code \<notin> {400, 401, 403, 422})"
| "communication_retryable e = True"

fun communication_exponential :: "exn \<Rightarrow> bool" where
  "communication_exponential (HTTPError r m) = True"
| "communication_exponential (ConnectionError m) = True"
| "communication_exponential (Timeout m) = True"
| "communication_exponential e = False"

fun calendar_retryable :: "exn \<Rightarrow> bool" where
  "calendar_retryable (HttpError status_code m) = (status_code \<notin> {400, 401, 403, 404})"
| "calendar_retryable e = True"

fun calendar_exponential :: "exn \<Rightarrow> bool" where
  "calendar_exponential (HttpError status_code m) = True"
| "calendar_exponential e = False"

text \<open>
  The pause after a retried failure: \<open>time.sleep(delay * (2 ** k))\<close> for the exponential
  class, \<open>time.sleep(delay)\<close> otherwise, where \<open>k + 1\<close> is the number of the failure.
\<close>

definition pause :: "bool \<Rightarrow> pynum \<Rightarrow> nat \<Rightarrow> 'w rstate \<Rightarrow> exn + 'w rstate" where
  "pause exponential delay k st = (if exponential then backoff_sleep delay k st else time_sleep delay st)"

text \<open>The delays slept after the failures \<open>es\<close>, the first of which is failure number \<open>Suc k\<close>.\<close>

fun schedule :: "(exn \<Rightarrow> bool) \<Rightarrow> real \<Rightarrow> nat \<Rightarrow> exn list \<Rightarrow> real list" where
  "schedule exponential delay k [] = []"
| "schedule exponential delay k (e # es) =
     (if exponential e then delay * 2 ^ k else delay) # schedule exponential delay (Suc k) es"

section \<open>Python strings\<close>

text \<open>
  A Python \<open>str\<close> is modelled as a \<open>string\<close>, one \<open>char\<close> per code point; the model
  covers the code points below 256.  \<open>isdigit\<close> and \<open>isspace\<close> are \<open>str.isdigit\<close> and
  \<open>str.isspace\<close> on that range: besides \<open>0\<close> to \<open>9\<close>, the superscripts two, three and
  one (U+00B2, U+00B3, U+00B9) are digits for Python.
\<close>

definition isdigit :: "char \<Rightarrow> bool" where
  "isdigit c = (let n = (of_char c :: nat) in (48 \<le> n \<and> n \<le> 57) \<or> n = 178 \<or> n = 179 \<or> n = 185)"

definition isspace :: "char \<Rightarrow> bool" where
  "isspace c = (let n = (of_char c :: nat) in
     (9 \<le> n \<and> n \<le> 13) \<or> (28 \<le> n \<and> n \<le> 32) \<or> n = 133 \<or> n = 160)"

definition strip :: "string \<Rightarrow> string" where
  "strip s = rev (dropWhile isspace (rev (dropWhile isspace s)))"

text \<open>
  \<open>str_split sep s\<close> is \<open>s.split(sep)\<close> and \<open>str_replace old new s\<close> is
  \<open>s.replace(old, new)\<close>, both scanning from the left for non-overlapping occurrences.
  Every call in the sources passes a non-empty literal as \<open>sep\<close> or \<open>old\<close>; for the empty
  one (where Python raises \<open>ValueError\<close>, or inserts \<open>new\<close> around every character) the
  functions leave the string alone.
\<close>

function str_split_from :: "string \<Rightarrow> string \<Rightarrow> string \<Rightarrow> string list" where
  "str_split_from sep acc [] = [acc]"
| "str_split_from sep acc (c # cs) =
     (if sep \<noteq> [] \<and> prefix sep (c # cs)
      then acc # str_split_from sep [] (drop (length sep) (c # cs))
      else str_split_from sep (acc @ [c]) cs)"
  by pat_completeness auto
termination
  by (relation "measure (\<lambda>(sep, acc, s). length s)") auto

definition str_split :: "string \<Rightarrow> string \<Rightarrow> string list" where
  "str_split sep s = str_split_from sep [] s"

function str_replace :: "string \<Rightarrow> string \<Rightarrow> string \<Rightarrow> string" where
  "str_replace old new [] = []"
| "str_replace old new (c # cs) =
     (if old \<noteq> [] \<and> prefix old (c # cs)
      then new @ str_replace old new (drop (length old) (c # cs))
      else c # str_replace old new cs)"
  by pat_completeness auto
termination
  by (relation "measure (\<lambda>(old, new, s). length s)") auto

fun str_join :: "string \<Rightarrow> string list \<Rightarrow> string" where
  "str_join sep [] = []"
| "str_join sep [x] = x"
| "str_join sep (x # y # xs) = x @ sep @ str_join sep (y # xs)"

text \<open>\<open>sub in s\<close> for strings.\<close>

fun str_contains :: "string \<Rightarrow> string \<Rightarrow> bool" where
  "str_contains sub [] = (sub = [])"
| "str_contains sub (c # cs) = (prefix sub (c # cs) \<or> str_contains sub cs)"

text \<open>\<open>xs[i]\<close> with Python's negative indices; out of range raises \<open>IndexError\<close>.\<close>

definition getitem :: "'a list \<Rightarrow> int \<Rightarrow> exn + 'a" where
  "getitem xs i =
     (if 0 \<le> i \<and> i < int (length xs) then Inr (xs ! nat i)
      else if i < 0 \<and> - int (length xs) \<le> i then Inr (xs ! nat (int (length xs) + i))
      else Inl (IndexError ''list index out of range''))"

text \<open>\<open>str(n)\<close> for a length or a count.\<close>

fun digit_char :: "nat \<Rightarrow> char" where
  "digit_char n = char_of (48 + n)"

function str_nat :: "nat \<Rightarrow> string" where
  "str_nat n = (if n < 10 then [digit_char n] else str_nat (n div 10) @ [digit_char (n mod 10)])"
  by pat_completeness auto
termination
  by (relation "measure id") auto

declare str_nat.simps [simp del]

section \<open>Phone numbers (communication/core.py)\<close>

definition format_phone_number :: "string \<Rightarrow> string" where
  "format_phone_number phone_number =
     (if phone_number = [] then []
      else
        let cleaned = strip phone_number;
            cleaned = foldl (\<lambda>cleaned char. str_replace char [] cleaned) cleaned
                        ['' '', ''-'', ''('', '')'', ''.'', ''/'', [CHR 0x5C], '':''];
            cleaned = (if str_contains '':'' cleaned
                       then strip (last (str_split '':'' cleaned)) else cleaned);
            cleaned = (if prefix ''+'' cleaned then drop 1 cleaned else cleaned);
            digits = filter isdigit cleaned;
            digits = (if prefix ''00'' digits then drop 2 digits else digits)
        in if digits = [] then [] else digits)"

section \<open>Video identifiers (youtube/utils.py)\<close>

definition extract_video_id :: "string \<Rightarrow> exn + string" where
  "extract_video_id url =
     (if url = [] then Inl (YouTubeError ''URL cannot be empty'')
      else if prefix ''https://www.youtube.com/watch?v='' url then
        (case getitem (str_split ''v='' url) 1 of
           Inl e \<Rightarrow> Inl e
         | Inr rest \<Rightarrow> getitem (str_split ''&'' rest) 0)
      else if prefix ''https://youtu.be/'' url then getitem (str_split ''youtu.be/'' url) 1
      else Inr url)"

text \<open>\<open>except YouTubeError\<close> also catches its subclass \<open>YouTubeAPIError\<close>.\<close>

fun is_YouTubeError :: "exn \<Rightarrow> bool" where
  "is_YouTubeError (YouTubeError m) = True"
| "is_YouTubeError (YouTubeAPIError m) = True"
| "is_YouTubeError e = False"

definition validate_video_url :: "string \<Rightarrow> exn + bool" where
  "validate_video_url url =
     (case extract_video_id url of
        Inr video_id \<Rightarrow> Inr True
      | Inl e \<Rightarrow> if is_YouTubeError e then Inr False else Inl e)"

section \<open>Python values\<close>

text \<open>
  Provider responses, event bodies and update requests are Python dictionaries with values
  of any type.  A dictionary is an association list in insertion order with distinct
  keys: \<open>map_of d k\<close> reads \<open>d[k]\<close>, \<open>AList.update k v d\<close> is \<open>d[k] = v\<close>, and the empty
  dictionary is the false one.
\<close>

datatype json =
    JNone
  | JBool bool
  | JInt int
  | JStr string
  | JList "json list"
  | JDict "(string \<times> json) list"

text \<open>Iterating over a value, as a comprehension does.\<close>

fun iterate :: "json \<Rightarrow> exn + json list" where
  "iterate (JList xs) = Inr xs"
| "iterate (JStr s) = Inr (map (\<lambda>c. JStr [c]) s)"
| "iterate (JDict kvs) = Inr (map (\<lambda>kv. JStr (fst kv)) kvs)"
| "iterate v = Inl (TypeError ''object is not iterable'')"

section \<open>The calendar provider (calendar/core.py)\<close>

text \<open>
  The calendar service is outside the program.  It is a transition function on a provider
  state of any type: it answers each call with an exception or a response.
  \<open>Build read_only\<close> stands for \<open>get_calendar_service(read_only)\<close>, which loads or refreshes
  the credentials and builds the client; the other calls are the requests executed on the
  \<open>events()\<close> resource, with the calendar id first.  The world of a calendar function
  keeps, next to the provider state, the log of the calls issued with their answers.
\<close>

datatype call =
    Build bool
  | Events_get string string
  | Events_patch string string "(string \<times> json) list"
  | Events_delete string string

type_synonym 'w service = "call \<Rightarrow> 'w \<Rightarrow> (exn + json) \<times> 'w"

record 'w calendar_world =
  provider :: 'w
  calls :: "(call \<times> (exn + json)) list"

definition execute :: "'w service \<Rightarrow> call \<Rightarrow> ('w calendar_world, json) operation" where
  "execute srv c cw =
     (case srv c (provider cw) of
        (r, w) \<Rightarrow> (r, \<lparr>provider = w, calls = calls cw @ [(c, r)]\<rparr>))"

record calendar_settings =
  calendar_id :: string
  timezone :: string

text \<open>\<open>calendar_id or settings.calendar.calendar_id\<close>: \<open>None\<close> and the empty string are false.\<close>

definition effective_calendar_id :: "calendar_settings \<Rightarrow> string option \<Rightarrow> string" where
  "effective_calendar_id settings cid =
     (case cid of None \<Rightarrow> calendar_id settings
      | Some c \<Rightarrow> if c = [] then calendar_id settings else c)"

text \<open>
  The sparse patch built by \<open>core_update_event\<close> from the \<open>updates\<close> dictionary, one \<open>if\<close>
  after the other.  The comprehension over the attendees raises \<open>TypeError\<close> when the
  value cannot be iterated.
\<close>

definition copy_field :: "string \<Rightarrow> (string \<times> json) list \<Rightarrow> (string \<times> json) list \<Rightarrow> (string \<times> json) list" where
  "copy_field k updates event_body =
     (case map_of updates k of
        Some v \<Rightarrow> AList.update k v event_body
      | None \<Rightarrow> event_body)"

definition copy_time ::
  "calendar_settings \<Rightarrow> string \<Rightarrow> string \<Rightarrow> (string \<times> json) list \<Rightarrow> (string \<times> json) list
     \<Rightarrow> (string \<times> json) list" where
  "copy_time settings k k' updates event_body =
     (case map_of updates k of
        Some v \<Rightarrow> AList.update k' (JDict [(''dateTime'', v), (''timeZone'', JStr (timezone settings))]) event_body
      | None \<Rightarrow> event_body)"

definition event_body_of ::
  "calendar_settings \<Rightarrow> (string \<times> json) list \<Rightarrow> exn + (string \<times> json) list" where
  "event_body_of settings updates =
     (let event_body = [];
          event_body = copy_field ''summary'' updates event_body;
          event_body = copy_field ''description'' updates event_body;
          event_body = copy_field ''location'' updates event_body;
          event_body = copy_time settings ''start_time'' ''start'' updates event_body;
          event_body = copy_time settings ''end_time'' ''end'' updates event_body
      in case map_of updates ''attendees'' of
           None \<Rightarrow> Inr event_body
         | Some JNone \<Rightarrow> Inr event_body
         | Some v \<Rightarrow>
             (case iterate v of
                Inl e \<Rightarrow> Inl e
              | Inr emails \<Rightarrow>
                  Inr (AList.update ''attendees''
                         (JList (map (\<lambda>email. JDict [(''email'', email)]) emails)) event_body)))"

definition not_found_message :: "string \<Rightarrow> string" where
  "not_found_message event_id =
     [CHR 0xC9] @ ''v'' @ [CHR 0xE9] @ ''nement '' @ event_id @ '' non trouv'' @ [CHR 0xE9] @ ''.''"

definition core_update_event_func ::
  "calendar_settings \<Rightarrow> 'w service \<Rightarrow> string \<Rightarrow> string option \<Rightarrow> (string \<times> json) list
     \<Rightarrow> ('w calendar_world, json) operation" where
  "core_update_event_func settings srv event_id cid updates cw =
     (case execute srv (Build False) cw of
        (Inl e, cw1) \<Rightarrow> (Inl e, cw1)
      | (Inr service, cw1) \<Rightarrow>
          (case execute srv (Events_get (effective_calendar_id settings cid) event_id) cw1 of
             (Inl (HttpError status m), cw2) \<Rightarrow>
               if status = 404 then (Inl (ValueError (not_found_message event_id)), cw2)
               else (Inl (HttpError status m), cw2)
           | (Inl e, cw2) \<Rightarrow> (Inl e, cw2)
           | (Inr existing_event, cw2) \<Rightarrow>
               (case event_body_of settings updates of
                  Inl e \<Rightarrow> (Inl e, cw2)
                | Inr event_body \<Rightarrow>
                    if event_body = [] then (Inr existing_event, cw2)
                    else execute srv
                           (Events_patch (effective_calendar_id settings cid) event_id event_body) cw2)))"

text \<open>The decorated function: \<open>@with_retry()\<close>, three retries and a base delay of one second.\<close>

definition core_update_event ::
  "calendar_settings \<Rightarrow> 'w service \<Rightarrow> string \<Rightarrow> string option \<Rightarrow> (string \<times> json) list
     \<Rightarrow> 'w calendar_world rstate \<Rightarrow> (exn + json) \<times> 'w calendar_world rstate" where
  "core_update_event settings srv event_id cid updates =
     calendar_with_retry 3 (PyFloat 1) (core_update_event_func settings srv event_id cid updates)"

definition core_delete_event_func ::
  "calendar_settings \<Rightarrow> 'w service \<Rightarrow> string \<Rightarrow> string option \<Rightarrow> ('w calendar_world, bool) operation" where
  "core_delete_event_func settings srv event_id cid cw =
     (case execute srv (Build False) cw of
        (Inl e, cw1) \<Rightarrow> (Inl e, cw1)
      | (Inr service, cw1) \<Rightarrow>
          (case execute srv (Events_delete (effective_calendar_id settings cid) event_id) cw1 of
             (Inr response, cw2) \<Rightarrow> (Inr True, cw2)
           | (Inl (HttpError status m), cw2) \<Rightarrow>
               if status = 404 then (Inr False, cw2) else (Inl (HttpError status m), cw2)
           | (Inl e, cw2) \<Rightarrow> (Inl e, cw2)))"

definition core_delete_event ::
  "calendar_settings \<Rightarrow> 'w service \<Rightarrow> string \<Rightarrow> string option
     \<Rightarrow> 'w calendar_world rstate \<Rightarrow> (exn + bool) \<times> 'w calendar_world rstate" where
  "core_delete_event settings srv event_id cid =
     calendar_with_retry 3 (PyFloat 1) (core_delete_event_func settings srv event_id cid)"

text \<open>
  A provider for examples: its state is the list of the ids of the events it holds.
  Fetching or patching an event it does not hold, or deleting one, is answered with 404.
\<close>

fun store_service :: "string list service" where
  "store_service (Build read_only) ids = (Inr JNone, ids)"
| "store_service (Events_get c i) ids =
     (if i \<in> set ids then (Inr (JDict [(''id'', JStr i), (''summary'', JStr ''old'')]), ids)
      else (Inl (HttpError 404 ''Not Found''), ids))"
| "store_service (Events_patch c i body) ids =
     (if i \<in> set ids then (Inr (JDict ((''id'', JStr i) # body)), ids)
      else (Inl (HttpError 404 ''Not Found''), ids))"
| "store_service (Events_delete c i) ids =
     (if i \<in> set ids then (Inr JNone, removeAll i ids)
      else (Inl (HttpError 404 ''Not Found''), ids))"

text \<open>
  For stating what a patch holds: the recognised fields of an update request, those of them
  the caller supplied (an \<open>attendees\<close> entry holding \<open>None\<close> does not count), the key each
  field has in the event body, and the patch calls found in a log.
\<close>

definition recognised :: "string list" where
  "recognised = [''summary'', ''description'', ''location'', ''start_time'', ''end_time'', ''attendees'']"

definition supplied :: "(string \<times> json) list \<Rightarrow> string list" where
  "supplied updates =
     filter (\<lambda>k. case map_of updates k of
                    None \<Rightarrow> False
                  | Some v \<Rightarrow> k \<noteq> ''attendees'' \<or> v \<noteq> JNone) recognised"

definition field_name :: "string \<Rightarrow> string" where
  "field_name k = (if k = ''start_time'' then ''start'' else if k = ''end_time'' then ''end'' else k)"

fun is_patch :: "call \<Rightarrow> bool" where
  "is_patch (Events_patch c i body) = True"
| "is_patch c = False"

definition patches :: "'w calendar_world \<Rightarrow> call list" where
  "patches cw = filter is_patch (map fst (calls cw))"

text \<open>
  Two auxiliary notions for the proofs: the event body after the five plain assignments,
  and the one-or-no key an entry of the update request contributes.
\<close>

definition five_fields :: "calendar_settings \<Rightarrow> (string \<times> json) list \<Rightarrow> (string \<times> json) list" where
  "five_fields settings updates =
     copy_time settings ''end_time'' ''end'' updates
       (copy_time settings ''start_time'' ''start'' updates
         (copy_field ''location'' updates
           (copy_field ''description'' updates
             (copy_field ''summary'' updates []))))"

definition present :: "(string \<times> json) list \<Rightarrow> string \<Rightarrow> string \<Rightarrow> string list" where
  "present updates k k' = (case map_of updates k of None \<Rightarrow> [] | Some v \<Rightarrow> [k'])"

text \<open>
  A provider that answers 404 for absent events: it always builds, and it answers every
  delete with a success or with \<open>HttpError\<close> 404.
\<close>

definition answers_delete :: "'w service \<Rightarrow> bool" where
  "answers_delete srv \<longleftrightarrow>
     (\<forall>w. \<exists>s w'. srv (Build False) w = (Inr s, w')) \<and>
     (\<forall>c i w. \<exists>w'. (\<exists>x. srv (Events_delete c i) w = (Inr x, w'))
                 \<or> (\<exists>m. srv (Events_delete c i) w = (Inl (HttpError 404 m), w')))"

definition example_settings :: calendar_settings where
  "example_settings = \<lparr>calendar_id = ''primary'', timezone = ''Europe/Paris''\<rparr>"

section \<open>Retrieved messages (communication/core.py)\<close>

text \<open>
  \<open>str.lower\<close> on the code points below 256: the letters \<open>A\<close> to \<open>Z\<close> and the accented
  capitals U+00C0 to U+00DE, the multiplication sign U+00D7 apart.
\<close>

definition lower_char :: "char \<Rightarrow> char" where
  "lower_char c =
     (let n = (of_char c :: nat)
      in if (65 \<le> n \<and> n \<le> 90) \<or> (192 \<le> n \<and> n \<le> 222 \<and> n \<noteq> 215) then char_of (n + 32) else c)"

definition lower :: "string \<Rightarrow> string" where
  "lower s = map lower_char s"

text \<open>
  A parsed message, as \<open>email.message_from_bytes\<close> builds it: its header lines in order,
  whether it sits in a \<open>multipart/digest\<close> container (its default type is then
  \<open>message/rfc822\<close> instead of \<open>text/plain\<close>), and its payload.  A message is multipart
  when its payload is a list of messages.  For a leaf, the payload field holds the
  outcome of \<open>get_payload(decode=True)\<close> followed by \<open>decode(charset, 'replace')\<close>: the text,
  or the exception raised on the way (an unknown charset, for instance).
\<close>

datatype email_message =
    Leaf "(string \<times> string) list" bool "exn + string"
  | Multipart "(string \<times> string) list" bool "email_message list"

fun msg_headers :: "email_message \<Rightarrow> (string \<times> string) list" where
  "msg_headers (Leaf hs digest text) = hs"
| "msg_headers (Multipart hs digest parts) = hs"

fun get_default_type :: "email_message \<Rightarrow> string" where
  "get_default_type (Leaf hs digest text) = (if digest then ''message/rfc822'' else ''text/plain'')"
| "get_default_type (Multipart hs digest parts) = (if digest then ''message/rfc822'' else ''text/plain'')"

fun is_multipart :: "email_message \<Rightarrow> bool" where
  "is_multipart (Leaf hs digest text) = False"
| "is_multipart (Multipart hs digest parts) = True"

text \<open>\<open>Message.get(name)\<close>: the first header whose name matches, whatever the case.\<close>

definition get_header :: "email_message \<Rightarrow> string \<Rightarrow> string option" where
  "get_header msg name =
     map_option snd (find (\<lambda>kv. lower (fst kv) = lower name) (msg_headers msg))"

definition get_content_type :: "email_message \<Rightarrow> string" where
  "get_content_type msg =
     (case get_header msg ''content-type'' of
        None \<Rightarrow> get_default_type msg
      | Some v \<Rightarrow>
          let ctype = lower (strip (hd (str_split '';'' v)))
          in if length (filter (\<lambda>c. c = CHR ''/'') ctype) \<noteq> 1 then ''text/plain'' else ctype)"

text \<open>\<open>Message.walk\<close>: the message itself, then its parts, depth first.\<close>

fun walk :: "email_message \<Rightarrow> email_message list" where
  "walk (Leaf hs digest text) = [Leaf hs digest text]"
| "walk (Multipart hs digest parts) = Multipart hs digest parts # concat (map walk parts)"

text \<open>
  A message object is true when it has at least one header line: the class defines
  \<open>__len__\<close> as the number of its headers and no \<open>__bool__\<close>.  \<open>None\<close> is false.
\<close>

definition truthy_message :: "email_message option \<Rightarrow> bool" where
  "truthy_message p = (case p of None \<Rightarrow> False | Some m \<Rightarrow> msg_headers m \<noteq> [])"

text \<open>
  Decoding the payload of a part.  For a multipart part \<open>get_payload(decode=True)\<close> is
  \<open>None\<close>, and calling \<open>decode\<close> on it raises \<open>AttributeError\<close>.
\<close>

fun decode_payload :: "email_message \<Rightarrow> exn + string" where
  "decode_payload (Leaf hs digest text) = text"
| "decode_payload (Multipart hs digest parts) =
     Inl (AttributeError ''NoneType object has no attribute decode'')"

text \<open>
  The loop over \<open>walk()\<close>: it stops at the first \<open>text/html\<close> part and remembers the last
  \<open>text/plain\<close> part seen before.
\<close>

fun select_parts ::
  "email_message list \<Rightarrow> email_message option \<Rightarrow> email_message option \<times> email_message option" where
  "select_parts [] plain_part = (None, plain_part)"
| "select_parts (part # rest) plain_part =
     (if get_content_type part = ''text/html'' then (Some part, plain_part)
      else if get_content_type part = ''text/plain'' then select_parts rest (Some part)
      else select_parts rest plain_part)"

text \<open>\<open>_get_email_body\<close>.  A decoding error is logged and leaves the body empty.\<close>

definition get_email_body :: "email_message \<Rightarrow> string" where
  "get_email_body msg_part =
     (let content_type = get_content_type msg_part;
          body_content = []
      in if is_multipart msg_part then
           (case select_parts (walk msg_part) None of
              (html_part, plain_part) \<Rightarrow>
                let target_part = (if truthy_message html_part then html_part else plain_part)
                in (case target_part of
                      None \<Rightarrow> body_content
                    | Some part \<Rightarrow>
                        if msg_headers part \<noteq> [] then
                          (case decode_payload part of
                             Inr text \<Rightarrow> text
                           | Inl e \<Rightarrow> body_content)
                        else body_content))
         else if content_type \<in> {''text/plain'', ''text/html''} then
           (case decode_payload msg_part of
              Inr text \<Rightarrow> text
            | Inl e \<Rightarrow> body_content)
         else body_content)"

text \<open>
  For stating what is selected: the content of a part as the body shows it, the first
  \<open>text/html\<close> part of a walk and the last \<open>text/plain\<close> part of a walk.
\<close>

definition content_of :: "email_message \<Rightarrow> string" where
  "content_of p = (case decode_payload p of Inr text \<Rightarrow> text | Inl e \<Rightarrow> [])"

definition first_html :: "email_message \<Rightarrow> email_message option" where
  "first_html msg = find (\<lambda>p. get_content_type p = ''text/html'') (walk msg)"

definition last_plain :: "email_message \<Rightarrow> email_message option" where
  "last_plain msg = find (\<lambda>p. get_content_type p = ''text/plain'') (rev (walk msg))"

section \<open>Sending mail (communication/core.py)\<close>

text \<open>
  The outgoing message: its header lines in the order they are set, and the parts attached.
  \<open>MIMEText body subtype\<close> is the body part; \<open>MIMEApplication data name disposition\<close> is an
  attachment with its \<open>Name\<close> parameter and its \<open>Content-Disposition\<close> header.
\<close>

datatype mime_part =
    MIMEText string string
  | MIMEApplication string string string

record outgoing =
  out_headers :: "(string \<times> string) list"
  out_parts :: "mime_part list"

text \<open>\<open>MIMEMultipart()\<close> comes with two header lines of its own.\<close>

definition MIMEMultipart :: outgoing where
  "MIMEMultipart = \<lparr>out_headers = [(''Content-Type'', ''multipart/mixed''), (''MIME-Version'', ''1.0'')],
                    out_parts = []\<rparr>"

definition set_header :: "string \<Rightarrow> string \<Rightarrow> outgoing \<Rightarrow> outgoing" where
  "set_header name v msg = msg\<lparr>out_headers := out_headers msg @ [(name, v)]\<rparr>"

definition attach :: "mime_part \<Rightarrow> outgoing \<Rightarrow> outgoing" where
  "attach part msg = msg\<lparr>out_parts := out_parts msg @ [part]\<rparr>"

record email_client =
  username :: string
  password :: string
  smtp_host :: string
  smtp_port :: int
  imap_host :: string
  imap_port :: int
  sender_name :: "string option"
  use_tls :: bool

text \<open>
  The file system and the SMTP server are outside the program.  As for the calendar, the
  world keeps the state of the outside and the log of the calls with their answers.
  \<open>Path_exists\<close> is \<open>os.path.exists\<close>, answered by a boolean; \<open>Read_file\<close> opens and reads a
  file, answered by its content; \<open>Connect_SSL\<close> and \<open>Connect\<close> open \<open>smtplib.SMTP_SSL\<close> and
  \<open>smtplib.SMTP\<close>; \<open>Quit\<close> is what leaving the \<open>with\<close> block does.
\<close>

datatype mail_call =
    Path_exists string
  | Read_file string
  | Connect_SSL string int
  | Connect string int
  | Starttls
  | Login string string
  | Send_message outgoing string "string list"
  | Quit

type_synonym 'w mail_service = "mail_call \<Rightarrow> 'w \<Rightarrow> (exn + json) \<times> 'w"

record 'w mail_world =
  server :: 'w
  mail_calls :: "(mail_call \<times> (exn + json)) list"

definition perform :: "'w mail_service \<Rightarrow> mail_call \<Rightarrow> ('w mail_world, json) operation" where
  "perform srv c mw =
     (case srv c (server mw) of
        (r, w) \<Rightarrow> (r, \<lparr>server = w, mail_calls = mail_calls mw @ [(c, r)]\<rparr>))"

text \<open>
  \<open>formataddr\<close> of \<open>email.utils\<close> is a parameter: it quotes and encodes the display name.
\<close>

definition get_formatted_sender :: "(string \<Rightarrow> string \<Rightarrow> string) \<Rightarrow> email_client \<Rightarrow> string" where
  "get_formatted_sender formataddr client =
     (case sender_name client of
        None \<Rightarrow> username client
      | Some name \<Rightarrow> if name = [] then username client else formataddr name (username client))"

definition basename :: "string \<Rightarrow> string" where
  "basename file_path = last (str_split ''/'' file_path)"

text \<open>\<open>x or []\<close> for an optional list.\<close>

definition or_empty :: "'a list option \<Rightarrow> 'a list" where
  "or_empty xs = (case xs of None \<Rightarrow> [] | Some ys \<Rightarrow> ys)"

text \<open>
  The loop over the attachment paths.  A path that does not exist is skipped; so is a file
  whose reading fails.
\<close>

fun attach_files ::
  "'w mail_service \<Rightarrow> string list \<Rightarrow> outgoing \<Rightarrow> 'w mail_world \<Rightarrow> outgoing \<times> 'w mail_world" where
  "attach_files srv [] msg mw = (msg, mw)"
| "attach_files srv (file_path # rest) msg mw =
     (case perform srv (Path_exists file_path) mw of
        (Inr (JBool True), mw1) \<Rightarrow>
          (case perform srv (Read_file file_path) mw1 of
             (Inr (JStr data), mw2) \<Rightarrow>
               attach_files srv rest
                 (attach (MIMEApplication data (basename file_path)
                            (''attachment; filename='' @ [CHR 0x22] @ basename file_path @ [CHR 0x22])) msg)
                 mw2
           | (r, mw2) \<Rightarrow> attach_files srv rest msg mw2)
      | (r, mw1) \<Rightarrow> attach_files srv rest msg mw1)"

text \<open>
  The first half of \<open>send_email\<close>: the message with its headers, its body part and its
  attachments.  The \<open>bcc\<close> argument is not among the things it reads.
\<close>

definition build_message ::
  "(string \<Rightarrow> string \<Rightarrow> string) \<Rightarrow> 'w mail_service \<Rightarrow> email_client \<Rightarrow> string list \<Rightarrow> string
     \<Rightarrow> string \<Rightarrow> string list option \<Rightarrow> string list option \<Rightarrow> 'w mail_world
     \<Rightarrow> outgoing \<times> 'w mail_world" where
  "build_message formataddr srv client to subject body cc attachments mw =
     (let msg = MIMEMultipart;
          msg = set_header ''From'' (get_formatted_sender formataddr client) msg;
          msg = set_header ''To'' (str_join '', '' to) msg;
          msg = set_header ''Subject'' subject msg;
          msg = (if or_empty cc \<noteq> [] then set_header ''Cc'' (str_join '', '' (or_empty cc)) msg else msg);
          body_type = (if list_ex (\<lambda>tag. str_contains tag (lower body))
                            [''<html'', ''<body'', ''<div'', ''<br''] then ''html'' else ''plain'');
          msg = attach (MIMEText body body_type) msg
      in attach_files srv (or_empty attachments) msg mw)"

text \<open>
  The SMTP session.  Leaving a \<open>with\<close> block quits the session, also when the block raised;
  an exception raised by the quit replaces the outcome of the block.
\<close>

definition smtp_block ::
  "'w mail_service \<Rightarrow> email_client \<Rightarrow> outgoing \<Rightarrow> string list \<Rightarrow> ('w mail_world, json) operation" where
  "smtp_block srv client msg all_recipients mw =
     (case (if smtp_port client \<noteq> 465 \<and> use_tls client then perform srv Starttls mw else (Inr JNone, mw)) of
        (Inl e, mw1) \<Rightarrow> (Inl e, mw1)
      | (Inr r, mw1) \<Rightarrow>
          (case perform srv (Login (username client) (password client)) mw1 of
             (Inl e, mw2) \<Rightarrow> (Inl e, mw2)
           | (Inr r, mw2) \<Rightarrow> perform srv (Send_message msg (username client) all_recipients) mw2))"

definition smtp_session ::
  "'w mail_service \<Rightarrow> email_client \<Rightarrow> outgoing \<Rightarrow> string list \<Rightarrow> ('w mail_world, json) operation" where
  "smtp_session srv client msg all_recipients mw =
     (case perform srv (if smtp_port client = 465
                        then Connect_SSL (smtp_host client) (smtp_port client)
                        else Connect (smtp_host client) (smtp_port client)) mw of
        (Inl e, mw1) \<Rightarrow> (Inl e, mw1)
      | (Inr connection, mw1) \<Rightarrow>
          (case smtp_block srv client msg all_recipients mw1 of
             (r, mw2) \<Rightarrow>
               (case perform srv Quit mw2 of
                  (Inl e, mw3) \<Rightarrow> (Inl e, mw3)
                | (Inr q, mw3) \<Rightarrow> (r, mw3))))"

text \<open>
  The result dictionary of \<open>send_email\<close> has one of two shapes, told apart by its
  \<open>success\<close> entry: the fields of \<open>Success\<close> are the entries \<open>to\<close>, \<open>cc\<close>, \<open>bcc\<close>, \<open>subject\<close>
  and \<open>attachment_count\<close>, the field of \<open>Failure\<close> is the entry \<open>error\<close>.
\<close>

datatype send_result =
    Success "string list" "string list" "string list" string nat
  | Failure string

fun attachment_count :: "send_result \<Rightarrow> nat option" where
  "attachment_count (Success to cc bcc subject n) = Some n"
| "attachment_count (Failure error) = None"

fun is_success :: "send_result \<Rightarrow> bool" where
  "is_success (Success to cc bcc subject n) = True"
| "is_success (Failure error) = False"

definition send_email_func ::
  "(string \<Rightarrow> string \<Rightarrow> string) \<Rightarrow> 'w mail_service \<Rightarrow> email_client \<Rightarrow> string list \<Rightarrow> string
     \<Rightarrow> string \<Rightarrow> string list option \<Rightarrow> string list option \<Rightarrow> string list option
     \<Rightarrow> ('w mail_world, send_result) operation" where
  "send_email_func formataddr srv client to subject body cc bcc attachments mw =
     (if to = [] then (Inr (Failure (''Aucun destinataire sp'' @ [CHR 0xE9] @ ''cifi'' @ [CHR 0xE9])), mw)
      else
        (case build_message formataddr srv client to subject body cc attachments mw of
           (msg, mw1) \<Rightarrow>
             let all_recipients = to @ or_empty cc @ or_empty bcc
             in (case smtp_session srv client msg all_recipients mw1 of
                   (Inr sent, mw2) \<Rightarrow>
                     (Inr (Success to (or_empty cc) (or_empty bcc) subject
                             (length (or_empty attachments))), mw2)
                 | (Inl (SMTPAuthenticationError m), mw2) \<Rightarrow>
                     (Inr (Failure (''Authentification SMTP '' @ [CHR 0xE9] @ ''chou'' @ [CHR 0xE9] @ ''e pour '' @ username client @ '': '' @ m)), mw2)
                 | (Inl e, mw2) \<Rightarrow>
                     (Inr (Failure (''Erreur SMTP lors de l'' @ [CHR 0x27] @ ''envoi: '' @ str_exn e)), mw2))))"

text \<open>The decorated method: \<open>@with_retry(max_retries=2, delay=2)\<close>.\<close>

definition send_email ::
  "(string \<Rightarrow> string \<Rightarrow> string) \<Rightarrow> 'w mail_service \<Rightarrow> email_client \<Rightarrow> string list \<Rightarrow> string
     \<Rightarrow> string \<Rightarrow> string list option \<Rightarrow> string list option \<Rightarrow> string list option
     \<Rightarrow> 'w mail_world rstate \<Rightarrow> (exn + send_result) \<times> 'w mail_world rstate" where
  "send_email formataddr srv client to subject body cc bcc attachments =
     communication_with_retry 2 (PyInt 2)
       (send_email_func formataddr srv client to subject body cc bcc attachments)"

text \<open>
  For the statements: the calls a run has added to the log, and the parts of a message
  that are attachments.
\<close>

definition issued :: "'w mail_world \<Rightarrow> 'w mail_world \<Rightarrow> (mail_call \<times> (exn + json)) list" where
  "issued mw mw' = drop (length (mail_calls mw)) (mail_calls mw')"

fun is_attachment :: "mime_part \<Rightarrow> bool" where
  "is_attachment (MIMEApplication data name disposition) = True"
| "is_attachment (MIMEText body subtype) = False"

text \<open>
  An outside for examples: the server state is the list of the paths of the files that
  exist; every file holds \<open>data\<close>, and the SMTP server accepts everything.
\<close>

fun file_service :: "string list mail_service" where
  "file_service (Path_exists p) files = (Inr (JBool (p \<in> set files)), files)"
| "file_service (Read_file p) files =
     (if p \<in> set files then (Inr (JStr ''data''), files)
      else (Inl (OtherException ''No such file or directory''), files))"
| "file_service c files = (Inr JNone, files)"

text \<open>Another outside for examples: an SMTP server that refuses the login.\<close>

fun refusing_service :: "unit mail_service" where
  "refusing_service (Login user secret) s = (Inl (SMTPAuthenticationError ''535 denied''), s)"
| "refusing_service c s = (Inr JNone, s)"

definition example_client :: email_client where
  "example_client = \<lparr>username = ''me@example.org'', password = ''secret'',
     smtp_host = ''smtp.example.org'', smtp_port = 465,
     imap_host = ''imap.example.org'', imap_port = 993,
     sender_name = None, use_tls = True\<rparr>"

fun is_send :: "mail_call \<Rightarrow> bool" where
  "is_send (Send_message msg from_addr to_addrs) = True"
| "is_send c = False"

text \<open>The header lines \<open>send_email\<close> gives a message.\<close>

definition expected_headers ::
  "(string \<Rightarrow> string \<Rightarrow> string) \<Rightarrow> email_client \<Rightarrow> string list \<Rightarrow> string \<Rightarrow> string list option
     \<Rightarrow> (string \<times> string) list" where
  "expected_headers formataddr client to subject cc =
     [(''Content-Type'', ''multipart/mixed''), (''MIME-Version'', ''1.0''),
      (''From'', get_formatted_sender formataddr client),
      (''To'', str_join '', '' to),
      (''Subject'', subject)] @
     (if or_empty cc \<noteq> [] then [(''Cc'', str_join '', '' (or_empty cc))] else [])"

section \<open>The tool boundary\<close>

text \<open>
  The tools call the core functions inside a \<open>try\<close> block.  \<open>catch body handler\<close> is
  \<open>try: return body() except Exception as e: return handler(e)\<close>; a handler with several
  \<open>except\<close> clauses is a function defined by cases on the exception.  The core functions
  are parameters of the tools: operations on a world of any type, with any outcome.
\<close>

definition catch :: "('w, 'a) operation \<Rightarrow> (exn \<Rightarrow> 'a) \<Rightarrow> ('w, 'a) operation" where
  "catch body handler w =
     (case body w of
        (Inr v, w') \<Rightarrow> (Inr v, w')
      | (Inl e, w') \<Rightarrow> (Inr (handler e), w'))"

text \<open>
  Operations of the interpreter on values of any type.  The messages of the errors the
  interpreter raises are given schematically.  \<open>fmt\<close>, a parameter of the tools below, is
  the built-in \<open>str\<close> on values, as an f-string applies it.
\<close>

fun truthy :: "json \<Rightarrow> bool" where
  "truthy JNone = False"
| "truthy (JBool b) = b"
| "truthy (JInt i) = (i \<noteq> 0)"
| "truthy (JStr s) = (s \<noteq> [])"
| "truthy (JList xs) = (xs \<noteq> [])"
| "truthy (JDict d) = (d \<noteq> [])"

fun dict_get :: "json \<Rightarrow> string \<Rightarrow> json \<Rightarrow> exn + json" where
  "dict_get (JDict d) k fallback = Inr (case map_of d k of Some v \<Rightarrow> v | None \<Rightarrow> fallback)"
| "dict_get v k fallback = Inl (AttributeError ''object has no attribute get'')"

fun subscript :: "json \<Rightarrow> string \<Rightarrow> exn + json" where
  "subscript (JDict d) k =
     (case map_of d k of Some v \<Rightarrow> Inr v | None \<Rightarrow> Inl (KeyError ([CHR 0x27] @ k @ [CHR 0x27])))"
| "subscript v k = Inl (TypeError ''indices must be integers or object is not subscriptable'')"

fun contains :: "string \<Rightarrow> json \<Rightarrow> exn + bool" where
  "contains k (JDict d) = Inr (map_of d k \<noteq> None)"
| "contains k (JList xs) = Inr (JStr k \<in> set xs)"
| "contains k (JStr s) = Inr (str_contains k s)"
| "contains k v = Inl (TypeError ''argument is not iterable'')"

fun py_len :: "json \<Rightarrow> exn + nat" where
  "py_len (JStr s) = Inr (length s)"
| "py_len (JList xs) = Inr (length xs)"
| "py_len (JDict d) = Inr (length d)"
| "py_len v = Inl (TypeError ''object has no len()'')"

fun slice_to :: "nat \<Rightarrow> json \<Rightarrow> exn + json" where
  "slice_to n (JStr s) = Inr (JStr (take n s))"
| "slice_to n (JList xs) = Inr (JList (take n xs))"
| "slice_to n v = Inl (TypeError ''object is not subscriptable'')"

subsection \<open>communication/tool.py\<close>

text \<open>\<open>settings.whatsapp.account_id\<close> and the optional arguments are false when absent or empty.\<close>

definition given :: "string option \<Rightarrow> bool" where
  "given x = (case x of None \<Rightarrow> False | Some s \<Rightarrow> s \<noteq> [])"

definition envoyer_message_whatsapp_try ::
  "(json \<Rightarrow> string) \<Rightarrow> ('w, 'c) operation \<Rightarrow> ('c \<Rightarrow> string \<Rightarrow> string \<Rightarrow> ('w, json) operation)
     \<Rightarrow> string \<Rightarrow> string \<Rightarrow> ('w, string) operation" where
  "envoyer_message_whatsapp_try fmt get_whatsapp_client send_message cleaned_phone message w =
     (case get_whatsapp_client w of
        (Inl e, w1) \<Rightarrow> (Inl e, w1)
      | (Inr client, w1) \<Rightarrow>
          (case send_message client cleaned_phone message w1 of
             (Inl e, w2) \<Rightarrow> (Inl e, w2)
           | (Inr result, w2) \<Rightarrow>
               (try_bind (dict_get result ''chat_id'' JNone) (\<lambda>chat_id.
                  if truthy chat_id
                  then Inr ((''Message WhatsApp envoy'' @ [CHR 0xE9] @ '' '' @ [CHR 0xE0] @ '' '') @ cleaned_phone @ (''. ID du Chat: '') @ fmt chat_id)
                  else Inr ((''Message WhatsApp envoy'' @ [CHR 0xE9] @ '', mais aucun ID de chat retourn'' @ [CHR 0xE9] @ ''.''))), w2)))"

fun envoyer_message_whatsapp_except :: "exn \<Rightarrow> string" where
  "envoyer_message_whatsapp_except (ValueError m) = (''Erreur de configuration WhatsApp: '') @ m"
| "envoyer_message_whatsapp_except e = (''Erreur lors de l'' @ [CHR 0x27] @ ''envoi du message WhatsApp: '') @ str_exn e"

definition envoyer_message_whatsapp ::
  "string option \<Rightarrow> (json \<Rightarrow> string) \<Rightarrow> ('w, 'c) operation
     \<Rightarrow> ('c \<Rightarrow> string \<Rightarrow> string \<Rightarrow> ('w, json) operation)
     \<Rightarrow> string \<Rightarrow> string \<Rightarrow> string option \<Rightarrow> ('w, string) operation" where
  "envoyer_message_whatsapp settings_account_id fmt get_whatsapp_client send_message
       phone_number message account_id w =
     (if \<not> given settings_account_id \<and> \<not> given account_id
      then (Inr ((''Erreur: Aucun ID de compte WhatsApp configur'' @ [CHR 0xE9] @ '' par d'' @ [CHR 0xE9] @ ''faut ou fourni.'')), w)
      else if phone_number = [] \<or> message = []
      then (Inr ((''Erreur: Le num'' @ [CHR 0xE9] @ ''ro de t'' @ [CHR 0xE9] @ ''l'' @ [CHR 0xE9] @ ''phone et le message sont requis.'')), w)
      else
        let cleaned_phone = format_phone_number phone_number
        in if cleaned_phone = [] \<or> length cleaned_phone < 8
           then (Inr ((''Erreur: Num'' @ [CHR 0xE9] @ ''ro de t'' @ [CHR 0xE9] @ ''l'' @ [CHR 0xE9] @ ''phone '' @ [CHR 0x27]) @ phone_number @ ([CHR 0x27] @ '' invalide apr'' @ [CHR 0xE8] @ ''s formatage: '' @ [CHR 0x27])
                        @ cleaned_phone @ ([CHR 0x27] @ ''.'')), w)
           else catch (envoyer_message_whatsapp_try fmt get_whatsapp_client send_message cleaned_phone message)
                  envoyer_message_whatsapp_except w)"

definition repondre_chat_whatsapp_try ::
  "(json \<Rightarrow> string) \<Rightarrow> ('w, 'c) operation \<Rightarrow> ('c \<Rightarrow> string \<Rightarrow> string \<Rightarrow> ('w, json) operation)
     \<Rightarrow> string \<Rightarrow> string \<Rightarrow> ('w, string) operation" where
  "repondre_chat_whatsapp_try fmt get_whatsapp_client send_message_to_existing_chat chat_id message w =
     (case get_whatsapp_client w of
        (Inl e, w1) \<Rightarrow> (Inl e, w1)
      | (Inr client, w1) \<Rightarrow>
          (case send_message_to_existing_chat client chat_id message w1 of
             (Inl e, w2) \<Rightarrow> (Inl e, w2)
           | (Inr result, w2) \<Rightarrow>
               (try_bind (dict_get result ''id'' JNone) (\<lambda>msg_id.
                  if truthy msg_id
                  then Inr ((''R'' @ [CHR 0xE9] @ ''ponse envoy'' @ [CHR 0xE9] @ ''e au chat WhatsApp '') @ chat_id @ (''. ID du Message: '') @ fmt msg_id)
                  else Inr ((''R'' @ [CHR 0xE9] @ ''ponse WhatsApp envoy'' @ [CHR 0xE9] @ ''e, mais aucun ID de message retourn'' @ [CHR 0xE9] @ ''.''))), w2)))"

fun repondre_chat_whatsapp_except :: "exn \<Rightarrow> string" where
  "repondre_chat_whatsapp_except (ValueError m) = (''Erreur de configuration WhatsApp: '') @ m"
| "repondre_chat_whatsapp_except e = (''Erreur lors de la r'' @ [CHR 0xE9] @ ''ponse au chat WhatsApp: '') @ str_exn e"

definition repondre_chat_whatsapp ::
  "string option \<Rightarrow> (json \<Rightarrow> string) \<Rightarrow> ('w, 'c) operation
     \<Rightarrow> ('c \<Rightarrow> string \<Rightarrow> string \<Rightarrow> ('w, json) operation)
     \<Rightarrow> string \<Rightarrow> string \<Rightarrow> ('w, string) operation" where
  "repondre_chat_whatsapp settings_account_id fmt get_whatsapp_client send_message_to_existing_chat
       chat_id message w =
     (if \<not> given settings_account_id
      then (Inr ((''Erreur: Aucun ID de compte WhatsApp configur'' @ [CHR 0xE9] @ '' par d'' @ [CHR 0xE9] @ ''faut.'')), w)
      else if chat_id = [] \<or> message = []
      then (Inr ((''Erreur: L'' @ [CHR 0x27] @ ''ID du chat et le message sont requis.'')), w)
      else catch (repondre_chat_whatsapp_try fmt get_whatsapp_client send_message_to_existing_chat
                    chat_id message)
             repondre_chat_whatsapp_except w)"

text \<open>
  \<open>envoyer_email\<close>.  The client's \<open>send_email\<close> is the parameter \<open>send\<close>; its result has the
  two shapes of \<open>send_result\<close>.
\<close>

definition envoyer_email_try ::
  "('w, 'c) operation
     \<Rightarrow> ('c \<Rightarrow> string list \<Rightarrow> string \<Rightarrow> string \<Rightarrow> string list option \<Rightarrow> string list option
          \<Rightarrow> string list option \<Rightarrow> ('w, send_result) operation)
     \<Rightarrow> string list \<Rightarrow> string \<Rightarrow> string \<Rightarrow> string list option \<Rightarrow> string list option
     \<Rightarrow> string list option \<Rightarrow> ('w, string) operation" where
  "envoyer_email_try get_email_client send to subject body cc bcc attachments w =
     (case get_email_client w of
        (Inl e, w1) \<Rightarrow> (Inl e, w1)
      | (Inr client, w1) \<Rightarrow>
          (case send client to subject body cc bcc attachments w1 of
             (Inl e, w2) \<Rightarrow> (Inl e, w2)
           | (Inr (Success rto rcc rbcc rsubject n), w2) \<Rightarrow>
               let attach_info = (if n > 0 then ('' avec '') @ str_nat n @ ('' pi'' @ [CHR 0xE8] @ ''ce(s) jointe(s)'') else [])
               in (Inr ((''Email envoy'' @ [CHR 0xE9] @ '' '' @ [CHR 0xE0] @ '' '') @ str_nat (length (rto @ rcc @ rbcc)) @ ('' destinataire(s)'')
                          @ attach_info @ (''. Sujet: '') @ subject), w2)
           | (Inr (Failure error), w2) \<Rightarrow>
               (Inr (([CHR 0xC9] @ ''chec de l'' @ [CHR 0x27] @ ''envoi de l'' @ [CHR 0x27] @ ''email: '') @ error), w2)))"

fun envoyer_email_except :: "exn \<Rightarrow> string" where
  "envoyer_email_except (ValueError m) = (''Erreur de configuration Email: '') @ m"
| "envoyer_email_except e = (''Erreur lors de l'' @ [CHR 0x27] @ ''envoi de l'' @ [CHR 0x27] @ ''email: '') @ str_exn e"

definition envoyer_email ::
  "('w, 'c) operation
     \<Rightarrow> ('c \<Rightarrow> string list \<Rightarrow> string \<Rightarrow> string \<Rightarrow> string list option \<Rightarrow> string list option
          \<Rightarrow> string list option \<Rightarrow> ('w, send_result) operation)
     \<Rightarrow> string list \<Rightarrow> string \<Rightarrow> string \<Rightarrow> string list option \<Rightarrow> string list option
     \<Rightarrow> string list option \<Rightarrow> ('w, string) operation" where
  "envoyer_email get_email_client send to subject body cc bcc attachments w =
     (if to = [] then (Inr ((''Erreur: Au moins un destinataire (to) est requis.'')), w)
      else if subject = [] \<or> body = []
      then (Inr ((''Erreur: Le sujet et le corps du message sont requis.'')), w)
      else catch (envoyer_email_try get_email_client send to subject body cc bcc attachments)
             envoyer_email_except w)"

text \<open>
  \<open>recuperer_emails\<close>.  The dictionaries that \<open>retrieve_emails\<close> builds have fixed keys; the
  \<open>date\<close> entry is \<open>None\<close> for a message without a \<open>Date\<close> header.
\<close>

record email_data =
  mail_id :: string
  mail_from :: string
  mail_to :: string
  mail_cc :: string
  mail_subject :: string
  mail_date :: "string option"
  mail_body :: string
  mail_has_attachments :: bool
  mail_attachments :: "string list"

definition format_mail :: "nat \<Rightarrow> email_data \<Rightarrow> string" where
  "format_mail i mail =
     (''--- Email '') @ str_nat i @ ('' ---'' @ [CHR 0x0A])
     @ (''ID: '') @ mail_id mail @ ([CHR 0x0A])
     @ (''De: '') @ mail_from mail @ ([CHR 0x0A])
     @ ([CHR 0xC0] @ '': '') @ mail_to mail @ ([CHR 0x0A])
     @ (if mail_cc mail \<noteq> [] then (''Cc: '') @ mail_cc mail @ ([CHR 0x0A]) else [])
     @ (''Sujet: '') @ mail_subject mail @ ([CHR 0x0A])
     @ (''Date: '') @ (case mail_date mail of None \<Rightarrow> ''None'' | Some d \<Rightarrow> d) @ ([CHR 0x0A])
     @ (if mail_has_attachments mail \<and> mail_attachments mail \<noteq> []
        then (''Pi'' @ [CHR 0xE8] @ ''ces jointes: '') @ str_join '', '' (mail_attachments mail) @ ([CHR 0x0A]) else [])
     @ (''Extrait du corps:'' @ [CHR 0x0A])
     @ (take 250 (mail_body mail) @ (if length (mail_body mail) > 250 then ''...'' else []))
     @ ([CHR 0x0A, CHR 0x0A])"

definition recuperer_emails_try ::
  "('w, 'c) operation
     \<Rightarrow> ('c \<Rightarrow> string \<Rightarrow> int \<Rightarrow> bool \<Rightarrow> string option \<Rightarrow> ('w, email_data list) operation)
     \<Rightarrow> string \<Rightarrow> int \<Rightarrow> bool \<Rightarrow> string option \<Rightarrow> ('w, string) operation" where
  "recuperer_emails_try get_email_client retrieve_emails folder limit unread_only search_query w =
     (case get_email_client w of
        (Inl e, w1) \<Rightarrow> (Inl e, w1)
      | (Inr client, w1) \<Rightarrow>
          (case retrieve_emails client folder limit unread_only search_query w1 of
             (Inl e, w2) \<Rightarrow> (Inl e, w2)
           | (Inr emails, w2) \<Rightarrow>
               if emails = []
               then (Inr ((''Aucun email trouv'' @ [CHR 0xE9] @ '' dans le dossier '' @ [CHR 0x27]) @ folder
                            @ ([CHR 0x27] @ '' avec les crit'' @ [CHR 0xE8] @ ''res sp'' @ [CHR 0xE9] @ ''cifi'' @ [CHR 0xE9] @ ''s.'')), w2)
               else (Inr (strip ((''Emails r'' @ [CHR 0xE9] @ ''cup'' @ [CHR 0xE9] @ ''r'' @ [CHR 0xE9] @ ''s de '' @ [CHR 0x27]) @ folder @ ([CHR 0x27] @ '' ('') @ str_nat (length emails)
                                   @ (''):'' @ [CHR 0x0A, CHR 0x0A])
                                   @ concat (map (\<lambda>(i, mail). format_mail i mail) (enumerate 1 emails)))),
                     w2)))"

fun recuperer_emails_except :: "exn \<Rightarrow> string" where
  "recuperer_emails_except (ValueError m) = (''Erreur de configuration Email: '') @ m"
| "recuperer_emails_except e = (''Erreur lors de la r'' @ [CHR 0xE9] @ ''cup'' @ [CHR 0xE9] @ ''ration des emails: '') @ str_exn e"

definition recuperer_emails ::
  "('w, 'c) operation
     \<Rightarrow> ('c \<Rightarrow> string \<Rightarrow> int \<Rightarrow> bool \<Rightarrow> string option \<Rightarrow> ('w, email_data list) operation)
     \<Rightarrow> string \<Rightarrow> int \<Rightarrow> bool \<Rightarrow> string option \<Rightarrow> ('w, string) operation" where
  "recuperer_emails get_email_client retrieve_emails folder limit unread_only search_query =
     catch (recuperer_emails_try get_email_client retrieve_emails folder limit unread_only search_query)
       recuperer_emails_except"

subsection \<open>calendar/tool.py\<close>

text \<open>
  \<open>_format_datetime\<close>.  Parsing an ISO string and printing it in a format are the library's
  \<open>datetime.fromisoformat\<close> and \<open>strftime\<close>; together they are the parameter \<open>strf\<close>.
\<close>

definition format_datetime :: "(string \<Rightarrow> string \<Rightarrow> exn + string) \<Rightarrow> json \<Rightarrow> exn + string" where
  "format_datetime strf dt_str =
     try_bind (contains ''T'' dt_str) (\<lambda>has_t.
       case dt_str of
         JStr s \<Rightarrow>
           if has_t then strf (str_replace ''Z'' ''+00:00'' s) ''%d/%m/%Y %H:%M %Z''
           else strf s ''%d/%m/%Y''
       | v \<Rightarrow>
           if has_t then Inl (AttributeError ''object has no attribute replace'')
           else Inl (TypeError ''fromisoformat: argument must be str''))"

text \<open>\<open>event.get(k, {}).get('dateTime', event.get(k, {}).get('date'))\<close>.\<close>

definition event_time :: "json \<Rightarrow> string \<Rightarrow> exn + json" where
  "event_time event k =
     try_bind (dict_get event k (JDict [])) (\<lambda>outer.
     try_bind (dict_get event k (JDict [])) (\<lambda>inner.
     try_bind (dict_get inner ''date'' JNone) (\<lambda>date.
     dict_get outer ''dateTime'' date)))"

definition format_event ::
  "(json \<Rightarrow> string) \<Rightarrow> (string \<Rightarrow> string \<Rightarrow> exn + string) \<Rightarrow> json \<Rightarrow> exn + string" where
  "format_event fmt strf event =
     try_bind (event_time event ''start'') (\<lambda>start.
     try_bind (event_time event ''end'') (\<lambda>end_time.
     try_bind (dict_get event ''summary'' (JStr ''Sans titre'')) (\<lambda>summary.
     let output = (''  - '') @ fmt summary @ ([CHR 0x0A]) in
     try_bind (if truthy start
               then try_bind (format_datetime strf start) (\<lambda>s. Inr (output @ (''    D'' @ [CHR 0xE9] @ ''but: '') @ s @ ([CHR 0x0A])))
               else Inr output) (\<lambda>output.
     try_bind (if truthy end_time
               then try_bind (format_datetime strf end_time) (\<lambda>s. Inr (output @ (''    Fin:   '') @ s @ ([CHR 0x0A])))
               else Inr output) (\<lambda>output.
     try_bind (dict_get event ''location'' JNone) (\<lambda>location.
     let output = (if truthy location then output @ (''    Lieu:  '') @ fmt location @ ([CHR 0x0A]) else output) in
     try_bind (dict_get event ''description'' JNone) (\<lambda>description.
     try_bind (if truthy description
               then try_bind (slice_to 50 description) (\<lambda>d. Inr (output @ (''    Desc:  '') @ fmt d @ (''...'' @ [CHR 0x0A])))
               else Inr output) (\<lambda>output.
     try_bind (dict_get event ''id'' JNone) (\<lambda>event_id.
     Inr (output @ (''    ID:    '') @ fmt event_id @ ([CHR 0x0A, CHR 0x0A])))))))))))"

fun format_events ::
  "(json \<Rightarrow> string) \<Rightarrow> (string \<Rightarrow> string \<Rightarrow> exn + string) \<Rightarrow> json list \<Rightarrow> exn + string" where
  "format_events fmt strf [] = Inr []"
| "format_events fmt strf (event # events) =
     try_bind (format_event fmt strf event) (\<lambda>s.
     try_bind (format_events fmt strf events) (\<lambda>rest. Inr (s @ rest)))"

definition lister_evenements_calendrier_try ::
  "(json \<Rightarrow> string) \<Rightarrow> (string \<Rightarrow> string \<Rightarrow> exn + string)
     \<Rightarrow> (int \<Rightarrow> string option \<Rightarrow> ('w, json) operation)
     \<Rightarrow> int \<Rightarrow> string option \<Rightarrow> ('w, string) operation" where
  "lister_evenements_calendrier_try fmt strf core_list count cid w =
     (case core_list count cid w of
        (Inl e, w1) \<Rightarrow> (Inl e, w1)
      | (Inr events, w1) \<Rightarrow>
          (if \<not> truthy events then Inr ((''Aucun '' @ [CHR 0xE9] @ ''v'' @ [CHR 0xE9] @ ''nement '' @ [CHR 0xE0] @ '' venir trouv'' @ [CHR 0xE9] @ ''.''))
           else
             try_bind (py_len events) (\<lambda>n.
             try_bind (iterate events) (\<lambda>items.
             try_bind (format_events fmt strf items) (\<lambda>listing.
             Inr (strip ((''Prochains '' @ [CHR 0xE9] @ ''v'' @ [CHR 0xE9] @ ''nements ('') @ str_nat n @ (''):'' @ [CHR 0x0A]) @ listing))))), w1))"

definition lister_evenements_calendrier_except :: "exn \<Rightarrow> string" where
  "lister_evenements_calendrier_except e =
     (''Erreur lors de la r'' @ [CHR 0xE9] @ ''cup'' @ [CHR 0xE9] @ ''ration des '' @ [CHR 0xE9] @ ''v'' @ [CHR 0xE9] @ ''nements: '') @ str_exn e"

definition lister_evenements_calendrier ::
  "(json \<Rightarrow> string) \<Rightarrow> (string \<Rightarrow> string \<Rightarrow> exn + string)
     \<Rightarrow> (int \<Rightarrow> string option \<Rightarrow> ('w, json) operation)
     \<Rightarrow> int \<Rightarrow> string option \<Rightarrow> ('w, string) operation" where
  "lister_evenements_calendrier fmt strf core_list count cid =
     catch (lister_evenements_calendrier_try fmt strf core_list count cid)
       lister_evenements_calendrier_except"

definition creer_evenement_calendrier_try ::
  "(json \<Rightarrow> string)
     \<Rightarrow> (string \<Rightarrow> string \<Rightarrow> string \<Rightarrow> string option \<Rightarrow> string option \<Rightarrow> string list option
          \<Rightarrow> string option \<Rightarrow> ('w, json) operation)
     \<Rightarrow> string \<Rightarrow> string \<Rightarrow> string \<Rightarrow> string option \<Rightarrow> string option \<Rightarrow> string list option
     \<Rightarrow> string option \<Rightarrow> ('w, string) operation" where
  "creer_evenement_calendrier_try fmt core_create summary start_time end_time description location
       attendees cid w =
     (case core_create summary start_time end_time description location attendees cid w of
        (Inl e, w1) \<Rightarrow> (Inl e, w1)
      | (Inr created_event, w1) \<Rightarrow>
          (try_bind (dict_get created_event ''summary'' JNone) (\<lambda>s.
           try_bind (dict_get created_event ''id'' JNone) (\<lambda>i.
           Inr (([CHR 0xC9] @ ''v'' @ [CHR 0xE9] @ ''nement '' @ [CHR 0x27]) @ fmt s @ ([CHR 0x27] @ '' cr'' @ [CHR 0xE9, CHR 0xE9] @ '' avec succ'' @ [CHR 0xE8] @ ''s. ID: '') @ fmt i))), w1))"

definition creer_evenement_calendrier_except :: "exn \<Rightarrow> string" where
  "creer_evenement_calendrier_except e = (''Erreur lors de la cr'' @ [CHR 0xE9] @ ''ation de l'' @ [CHR 0x27, CHR 0xE9] @ ''v'' @ [CHR 0xE9] @ ''nement: '') @ str_exn e"

definition creer_evenement_calendrier ::
  "(json \<Rightarrow> string)
     \<Rightarrow> (string \<Rightarrow> string \<Rightarrow> string \<Rightarrow> string option \<Rightarrow> string option \<Rightarrow> string list option
          \<Rightarrow> string option \<Rightarrow> ('w, json) operation)
     \<Rightarrow> string \<Rightarrow> string \<Rightarrow> string \<Rightarrow> string option \<Rightarrow> string option \<Rightarrow> string list option
     \<Rightarrow> string option \<Rightarrow> ('w, string) operation" where
  "creer_evenement_calendrier fmt core_create summary start_time end_time description location
       attendees cid =
     catch (creer_evenement_calendrier_try fmt core_create summary start_time end_time description
              location attendees cid)
       creer_evenement_calendrier_except"

text \<open>The update request of the tool: the arguments that are not \<open>None\<close>, in this order.\<close>

definition update_request ::
  "string option \<Rightarrow> string option \<Rightarrow> string option \<Rightarrow> string option \<Rightarrow> string option
     \<Rightarrow> string list option \<Rightarrow> (string \<times> json) list" where
  "update_request summary start_time end_time description location attendees =
     List.map_filter (\<lambda>kv. map_option (Pair (fst kv)) (snd kv))
       [(''summary'', map_option JStr summary),
        (''start_time'', map_option JStr start_time),
        (''end_time'', map_option JStr end_time),
        (''description'', map_option JStr description),
        (''location'', map_option JStr location),
        (''attendees'', map_option (\<lambda>emails. JList (map JStr emails)) attendees)]"

definition mettre_a_jour_evenement_calendrier_try ::
  "(json \<Rightarrow> string) \<Rightarrow> (string \<Rightarrow> string option \<Rightarrow> (string \<times> json) list \<Rightarrow> ('w, json) operation)
     \<Rightarrow> string \<Rightarrow> string option \<Rightarrow> (string \<times> json) list \<Rightarrow> ('w, string) operation" where
  "mettre_a_jour_evenement_calendrier_try fmt core_update event_id cid updates w =
     (case core_update event_id cid updates w of
        (Inl e, w1) \<Rightarrow> (Inl e, w1)
      | (Inr updated_event, w1) \<Rightarrow>
          (try_bind (dict_get updated_event ''summary'' JNone) (\<lambda>s.
           Inr (([CHR 0xC9] @ ''v'' @ [CHR 0xE9] @ ''nement '' @ [CHR 0x27]) @ fmt s @ ([CHR 0x27] @ '' (ID: '') @ event_id @ ('') mis '' @ [CHR 0xE0] @ '' jour avec succ'' @ [CHR 0xE8] @ ''s.''))), w1))"

fun mettre_a_jour_evenement_calendrier_except :: "string \<Rightarrow> exn \<Rightarrow> string" where
  "mettre_a_jour_evenement_calendrier_except event_id (ValueError m) = m"
| "mettre_a_jour_evenement_calendrier_except event_id e =
     (''Erreur lors de la mise '' @ [CHR 0xE0] @ '' jour de l'' @ [CHR 0x27, CHR 0xE9] @ ''v'' @ [CHR 0xE9] @ ''nement '') @ event_id @ '': '' @ str_exn e"

definition mettre_a_jour_evenement_calendrier ::
  "(json \<Rightarrow> string) \<Rightarrow> (string \<Rightarrow> string option \<Rightarrow> (string \<times> json) list \<Rightarrow> ('w, json) operation)
     \<Rightarrow> string \<Rightarrow> string option \<Rightarrow> string option \<Rightarrow> string option \<Rightarrow> string option
     \<Rightarrow> string option \<Rightarrow> string option \<Rightarrow> string list option \<Rightarrow> ('w, string) operation" where
  "mettre_a_jour_evenement_calendrier fmt core_update event_id cid summary start_time end_time
       description location attendees w =
     (let updates = update_request summary start_time end_time description location attendees
      in if updates = [] then (Inr ((''Aucune information de mise '' @ [CHR 0xE0] @ '' jour fournie.'')), w)
         else catch (mettre_a_jour_evenement_calendrier_try fmt core_update event_id cid updates)
                (mettre_a_jour_evenement_calendrier_except event_id) w)"

definition supprimer_evenement_calendrier_try ::
  "(string \<Rightarrow> string option \<Rightarrow> ('w, bool) operation) \<Rightarrow> string \<Rightarrow> string option
     \<Rightarrow> ('w, string) operation" where
  "supprimer_evenement_calendrier_try core_delete event_id cid w =
     (case core_delete event_id cid w of
        (Inl e, w1) \<Rightarrow> (Inl e, w1)
      | (Inr deleted, w1) \<Rightarrow>
          (if deleted then Inr (([CHR 0xC9] @ ''v'' @ [CHR 0xE9] @ ''nement '') @ event_id @ ('' supprim'' @ [CHR 0xE9] @ '' avec succ'' @ [CHR 0xE8] @ ''s.''))
           else Inr (([CHR 0xC9] @ ''v'' @ [CHR 0xE9] @ ''nement '') @ event_id @ ('' non trouv'' @ [CHR 0xE9] @ '' ou d'' @ [CHR 0xE9] @ ''j'' @ [CHR 0xE0] @ '' supprim'' @ [CHR 0xE9] @ ''.'')), w1))"

definition supprimer_evenement_calendrier_except :: "string \<Rightarrow> exn \<Rightarrow> string" where
  "supprimer_evenement_calendrier_except event_id e =
     (''Erreur lors de la suppression de l'' @ [CHR 0x27, CHR 0xE9] @ ''v'' @ [CHR 0xE9] @ ''nement '') @ event_id @ '': '' @ str_exn e"

definition supprimer_evenement_calendrier ::
  "(string \<Rightarrow> string option \<Rightarrow> ('w, bool) operation) \<Rightarrow> string \<Rightarrow> string option
     \<Rightarrow> ('w, string) operation" where
  "supprimer_evenement_calendrier core_delete event_id cid =
     catch (supprimer_evenement_calendrier_try core_delete event_id cid)
       (supprimer_evenement_calendrier_except event_id)"

subsection \<open>youtube/utils.py, youtube/core.py and youtube/tool.py\<close>

text \<open>\<open>format_transcript\<close>: the \<open>text\<close> entries of the segments, joined with single spaces.\<close>

fun collect :: "(exn + 'a) list \<Rightarrow> exn + 'a list" where
  "collect [] = Inr []"
| "collect (r # rs) = try_bind r (\<lambda>v. try_bind (collect rs) (\<lambda>vs. Inr (v # vs)))"

fun as_str :: "json \<Rightarrow> exn + string" where
  "as_str (JStr s) = Inr s"
| "as_str v = Inl (TypeError ''sequence item: expected str instance'')"

definition format_transcript :: "json \<Rightarrow> exn + string" where
  "format_transcript transcript_data =
     (if \<not> truthy transcript_data then Inr []
      else
        try_bind (iterate transcript_data) (\<lambda>segments.
        try_bind (collect (map (\<lambda>segment. subscript segment ''text'') segments)) (\<lambda>texts.
        try_bind (collect (map as_str texts)) (\<lambda>strs.
        Inr (str_join '' '' strs)))))"

text \<open>
  \<open>YouTubeCore.get_transcript\<close>.  \<open>_make_api_request\<close> is a parameter.  The first \<open>except\<close>
  clause, for \<open>YouTubeError\<close>, also catches the subclass \<open>YouTubeAPIError\<close>, so the second
  clause is never reached.
\<close>

definition get_transcript_try ::
  "(string \<Rightarrow> (string \<times> string) list \<Rightarrow> ('w, json) operation) \<Rightarrow> string \<Rightarrow> ('w, string) operation" where
  "get_transcript_try make_api_request video_url w =
     (case extract_video_id video_url of
        Inl e \<Rightarrow> (Inl e, w)
      | Inr video_id \<Rightarrow>
          (case make_api_request ''video/subtitles'' [(''video_id'', video_id)] w of
             (Inl e, w1) \<Rightarrow> (Inl e, w1)
           | (Inr data, w1) \<Rightarrow>
               (try_bind (contains ''subtitles'' data) (\<lambda>present.
                try_bind (if present
                          then try_bind (subscript data ''subtitles'') (\<lambda>v. Inr (\<not> truthy v))
                          else Inr True) (\<lambda>missing.
                if missing then Inr ((''Aucune transcription disponible pour cette vid'' @ [CHR 0xE9] @ ''o''))
                else try_bind (subscript data ''subtitles'') format_transcript)), w1)))"

fun get_transcript_except :: "exn \<Rightarrow> string" where
  "get_transcript_except (YouTubeError m) = ''Erreur: '' @ m"
| "get_transcript_except (YouTubeAPIError m) = ''Erreur: '' @ m"
| "get_transcript_except e = ''Erreur inattendue: '' @ str_exn e"

definition get_transcript ::
  "(string \<Rightarrow> (string \<times> string) list \<Rightarrow> ('w, json) operation) \<Rightarrow> string \<Rightarrow> ('w, string) operation" where
  "get_transcript make_api_request video_url =
     catch (get_transcript_try make_api_request video_url) get_transcript_except"

record TranscriptResponse =
  resp_success :: bool
  resp_transcript :: "string option"
  resp_error :: "string option"

definition get_video_transcript_try ::
  "(string \<Rightarrow> (string \<times> string) list \<Rightarrow> ('w, json) operation) \<Rightarrow> string
     \<Rightarrow> ('w, TranscriptResponse) operation" where
  "get_video_transcript_try make_api_request url w =
     (case get_transcript make_api_request url w of
        (Inl e, w1) \<Rightarrow> (Inl e, w1)
      | (Inr text, w1) \<Rightarrow>
          (if prefix ''Erreur'' text
           then Inr \<lparr>resp_success = False, resp_transcript = None, resp_error = Some text\<rparr>
           else Inr \<lparr>resp_success = True, resp_transcript = Some text, resp_error = None\<rparr>, w1))"

fun get_video_transcript_except :: "exn \<Rightarrow> TranscriptResponse" where
  "get_video_transcript_except (YouTubeError m) =
     \<lparr>resp_success = False, resp_transcript = None, resp_error = Some m\<rparr>"
| "get_video_transcript_except (YouTubeAPIError m) =
     \<lparr>resp_success = False, resp_transcript = None, resp_error = Some m\<rparr>"
| "get_video_transcript_except e =
     \<lparr>resp_success = False, resp_transcript = None,
      resp_error = Some (''Erreur inattendue: '' @ str_exn e)\<rparr>"

definition get_video_transcript ::
  "(string \<Rightarrow> (string \<times> string) list \<Rightarrow> ('w, json) operation) \<Rightarrow> string
     \<Rightarrow> ('w, TranscriptResponse) operation" where
  "get_video_transcript make_api_request url =
     catch (get_video_transcript_try make_api_request url) get_video_transcript_except"

text \<open>The error marker: the prefix that \<open>get_video_transcript\<close> itself tests for.\<close>

definition error_marker :: string where
  "error_marker = ''Erreur''"

definition has_error_marker :: "string \<Rightarrow> bool" where
  "has_error_marker text = prefix error_marker text"

text \<open>A rendering of values for examples.\<close>

fun example_fmt :: "json \<Rightarrow> string" where
  "example_fmt (JStr s) = s"
| "example_fmt JNone = ''None''"
| "example_fmt (JBool b) = (if b then ''True'' else ''False'')"
| "example_fmt v = ''...''"

section \<open>Properties of the retry decorators\<close>

subsection \<open>One pass of the loop\<close>

lemma communication_loop_retry:
  assumes "func (world st) = (Inl e, w)" and "communication_retryable e"
    and "retries + 1 \<le> max_retries"
  shows "communication_retry_loop max_retries delay func retries st =
         (case pause (communication_exponential e) delay (nat retries) (invoked w st) of
            Inl raised \<Rightarrow> (Inl raised, invoked w st)
          | Inr slept \<Rightarrow> communication_retry_loop max_retries delay func (retries + 1) slept)"
  using assms
  by (subst communication_retry_loop.simps)
     (cases e rule: communication_retryable.cases, auto simp: pause_def)


lemma calendar_loop_retry:
  assumes "func (world st) = (Inl e, w)" and "calendar_retryable e"
    and "retries + 1 \<le> max_retries"
  shows "calendar_retry_loop max_retries delay func retries st =
         (case pause (calendar_exponential e) delay (nat retries) (invoked w st) of
            Inl raised \<Rightarrow> (Inl raised, invoked w st)
          | Inr slept \<Rightarrow> calendar_retry_loop max_retries delay func (retries + 1) slept)"
  using assms
  by (subst calendar_retry_loop.simps)
     (cases e rule: calendar_retryable.cases, auto simp: pause_def)

lemma calendar_loop_stop:
  assumes "func (world st) = (r, w)"
    and "r = Inr v \<or> (\<exists>e. r = Inl e \<and> (\<not> calendar_retryable e \<or> retries + 1 > max_retries))"
  shows "calendar_retry_loop max_retries delay func retries st = (r, invoked w st)"
  using assms
  apply (subst calendar_retry_loop.simps)
  apply (cases r)
  subgoal for e by (cases e rule: calendar_retryable.cases) auto
  by auto

subsection \<open>Pauses that are slept\<close>

lemma sleep_range: "sleep_min < 0" "0 < sleep_max"
  by (simp_all add: sleep_min_def sleep_max_def)

lemma time_sleep_accepted:
  assumes "0 \<le> num_value d" and "num_value d \<le> sleep_max"
  shows "time_sleep d st = Inr (st\<lparr>sleeps := sleeps st @ [num_value d]\<rparr>)"
  using assms sleep_range(1) by (simp add: time_sleep_def)

lemma backoff_sleep_accepted:
  assumes "0 \<le> num_value D" and "num_value D * 2 ^ k \<le> sleep_max" and "k < 1024"
  shows "backoff_sleep D k st = Inr (st\<lparr>sleeps := sleeps st @ [num_value D * 2 ^ k]\<rparr>)"
proof (cases D)
  case (PyInt i)
  with assms show ?thesis
    by (simp add: backoff_sleep_def try_bind_def time_sleep_accepted)
next
  case (PyFloat x)
  with assms show ?thesis
    by (simp add: backoff_sleep_def try_bind_def time_sleep_accepted)
qed

lemma pause_accepted:
  assumes "0 \<le> num_value D" and "num_value D * 2 ^ k \<le> sleep_max" and "k < 1024"
  shows "pause b D k st =
         Inr (st\<lparr>sleeps := sleeps st @ [if b then num_value D * 2 ^ k else num_value D]\<rparr>)"
proof -
  have "num_value D * 1 \<le> num_value D * 2 ^ k"
    using assms(1) by (intro mult_left_mono) simp_all
  then have "num_value D \<le> sleep_max"
    using assms(2) by simp
  then show ?thesis
    using assms by (simp add: pause_def backoff_sleep_accepted time_sleep_accepted)
qed

lemma power_range:
  fixes x :: real
  assumes "0 \<le> x" and "x * 2 ^ m \<le> c" and "k \<le> m"
  shows "x * 2 ^ k \<le> c"
proof -
  have "(2::real) ^ k \<le> 2 ^ m"
    using assms(3) by (intro power_increasing) simp_all
  then have "x * 2 ^ k \<le> x * 2 ^ m"
    using assms(1) by (intro mult_left_mono)
  with assms(2) show ?thesis by simp
qed

subsection \<open>Non-retryable status codes\<close>

text \<open>
  Claim C1.  When the wrapped operation fails with an HTTP error whose status code is in
  the decorator's non-retryable set (communication: 400, 401, 403, 422; calendar: 400, 401,
  403, 404), the loop re-raises that error at once, whatever the number of retries already
  used: the operation has been invoked once more and nothing is slept.  From the initial
  state the operation is therefore invoked exactly once and the list of sleeps is empty.
\<close>

theorem non_retryable_status_reraised:
  "(func (world st) = (Inl (HTTPError (Some status_code) m), w) \<and> status_code \<in> {400, 401, 403, 422} \<longrightarrow>
      communication_retry_loop max_retries delay func retries st =
        (Inl (HTTPError (Some status_code) m),
         st\<lparr>world := w, invocations := Suc (invocations st)\<rparr>))
   \<and> (func w0 = (Inl (HTTPError (Some status_code) m), w) \<and> status_code \<in> {400, 401, 403, 422} \<longrightarrow>
      communication_with_retry max_retries delay func (initial w0) =
        (Inl (HTTPError (Some status_code) m), \<lparr>world = w, sleeps = [], invocations = 1\<rparr>))
   \<and> (func (world st) = (Inl (HttpError status_code m), w) \<and> status_code \<in> {400, 401, 403, 404} \<longrightarrow>
      calendar_retry_loop max_retries delay func retries st =
        (Inl (HttpError status_code m), st\<lparr>world := w, invocations := Suc (invocations st)\<rparr>))
   \<and> (func w0 = (Inl (HttpError status_code m), w) \<and> status_code \<in> {400, 401, 403, 404} \<longrightarrow>
      calendar_with_retry max_retries delay func (initial w0) =
        (Inl (HttpError status_code m), \<lparr>world = w, sleeps = [], invocations = 1\<rparr>))"
proof (intro conjI impI)
  assume "func (world st) = (Inl (HTTPError (Some status_code) m), w) \<and> status_code \<in> {400, 401, 403, 422}"
  then show "communication_retry_loop max_retries delay func retries st =
        (Inl (HTTPError (Some status_code) m), st\<lparr>world := w, invocations := Suc (invocations st)\<rparr>)"
    by (subst communication_retry_loop.simps) (auto simp: invoked_def)
next
  assume "func w0 = (Inl (HTTPError (Some status_code) m), w) \<and> status_code \<in> {400, 401, 403, 422}"
  then show "communication_with_retry max_retries delay func (initial w0) =
        (Inl (HTTPError (Some status_code) m), \<lparr>world = w, sleeps = [], invocations = 1\<rparr>)"
    unfolding communication_with_retry_def
    by (subst communication_retry_loop.simps) (auto simp: invoked_def initial_def)
next
  assume "func (world st) = (Inl (HttpError status_code m), w) \<and> status_code \<in> {400, 401, 403, 404}"
  then show "calendar_retry_loop max_retries delay func retries st =
        (Inl (HttpError status_code m), st\<lparr>world := w, invocations := Suc (invocations st)\<rparr>)"
    by (subst calendar_retry_loop.simps) (auto simp: invoked_def)
next
  assume "func w0 = (Inl (HttpError status_code m), w) \<and> status_code \<in> {400, 401, 403, 404}"
  then show "calendar_with_retry max_retries delay func (initial w0) =
        (Inl (HttpError status_code m), \<lparr>world = w, sleeps = [], invocations = 1\<rparr>)"
    unfolding calendar_with_retry_def
    by (subst calendar_retry_loop.simps) (auto simp: invoked_def initial_def)
qed

theorem non_retryable_status_reraised_witness:
  "communication_retry_loop 3 (PyFloat 1) scripted 2
       \<lparr>world = [Inl (HTTPError (Some 422) ''Unprocessable''), Inr ()], sleeps = [1, 2], invocations = 2\<rparr> =
     (Inl (HTTPError (Some 422) ''Unprocessable''), \<lparr>world = [Inr ()], sleeps = [1, 2], invocations = 3\<rparr>)
   \<and> communication_with_retry 3 (PyFloat 1) scripted (initial [Inl (HTTPError (Some 422) ''Unprocessable''), Inr ()]) =
     (Inl (HTTPError (Some 422) ''Unprocessable''), \<lparr>world = [Inr ()], sleeps = [], invocations = 1\<rparr>)
   \<and> calendar_retry_loop 3 (PyFloat 1) scripted 2
       \<lparr>world = [Inl (HttpError 404 ''Not Found''), Inr ()], sleeps = [1, 2], invocations = 2\<rparr> =
     (Inl (HttpError 404 ''Not Found''), \<lparr>world = [Inr ()], sleeps = [1, 2], invocations = 3\<rparr>)
   \<and> calendar_with_retry 3 (PyFloat 1) scripted (initial [Inl (HttpError 404 ''Not Found''), Inr ()]) =
     (Inl (HttpError 404 ''Not Found''), \<lparr>world = [Inr ()], sleeps = [], invocations = 1\<rparr>)"
  using non_retryable_status_reraised [of scripted
      "\<lparr>world = [Inl (HTTPError (Some 422) ''Unprocessable''), Inr ()], sleeps = [1, 2], invocations = 2\<rparr>"
      422 "''Unprocessable''" "[Inr ()]" 3 "PyFloat 1" 2 "[Inl (HTTPError (Some 422) ''Unprocessable''), Inr ()]"]
    non_retryable_status_reraised [of scripted
      "\<lparr>world = [Inl (HttpError 404 ''Not Found''), Inr ()], sleeps = [1, 2], invocations = 2\<rparr>"
      404 "''Not Found''" "[Inr ()]" 3 "PyFloat 1" 2 "[Inl (HttpError 404 ''Not Found''), Inr ()]"]
  by simp

subsection \<open>The backoff schedule\<close>



lemma communication_loop_run:
  assumes "run func n (world st) = (map Inl es, w')"
    and "\<forall>e\<in>set es. communication_retryable e" and "0 \<le> r" and "r + int n \<le> R"
    and "0 \<le> num_value D" and "\<forall>k < nat r + n. num_value D * 2 ^ k \<le> sleep_max"
    and "nat r + n \<le> 1024"
  shows "communication_retry_loop R D func r st =
         communication_retry_loop R D func (r + int n)
           \<lparr>world = w', sleeps = sleeps st @ schedule communication_exponential (num_value D) (nat r) es,
            invocations = invocations st + n\<rparr>"
  using assms
proof (induction n arbitrary: es st r)
  case 0
  then show ?case by (cases st) simp
next
  case (Suc n)
  obtain x w1 where f: "func (world st) = (x, w1)" by (cases "func (world st)")
  obtain rs w2 where rn: "run func n w1 = (rs, w2)" by (cases "run func n w1")
  from Suc.prems(1) f rn have "map Inl es = x # rs" and w2: "w2 = w'" by auto
  then obtain e es' where es: "es = e # es'" and x: "x = Inl e" and rs: "rs = map Inl es'"
    by (cases es) auto
  let ?st1 = "(invoked w1 st)\<lparr>sleeps := sleeps (invoked w1 st) @
      [if communication_exponential e then num_value D * 2 ^ nat r else num_value D]\<rparr>"
  have "pause (communication_exponential e) D (nat r) (invoked w1 st) = Inr ?st1"
    using Suc.prems(5,6,7) by (intro pause_accepted) auto
  moreover have "communication_retry_loop R D func r st =
         (case pause (communication_exponential e) D (nat r) (invoked w1 st) of
            Inl raised \<Rightarrow> (Inl raised, invoked w1 st)
          | Inr slept \<Rightarrow> communication_retry_loop R D func (r + 1) slept)"
    using f x Suc.prems es by (intro communication_loop_retry) auto
  ultimately have step:
    "communication_retry_loop R D func r st = communication_retry_loop R D func (r + 1) ?st1"
    by simp
  have "communication_retry_loop R D func (r + 1) ?st1 =
         communication_retry_loop R D func (r + 1 + int n)
           \<lparr>world = w', sleeps = sleeps ?st1 @ schedule communication_exponential (num_value D) (nat (r + 1)) es',
            invocations = invocations ?st1 + n\<rparr>"
    using Suc.prems es rn rs w2
    by (intro Suc.IH) (auto simp: invoked_def nat_add_distrib)
  with step show ?case
    using Suc.prems(3) by (simp add: es invoked_def nat_add_distrib algebra_simps)
qed




subsection \<open>Pauses that are refused\<close>

text \<open>
  A failure that would be retried, followed by a pause that raises: the exception of the
  pause leaves the decorator, the operation is not invoked again and nothing is slept.
\<close>

lemma communication_pause_raises:
  assumes "func (world st) = (Inl e, w)" and "communication_retryable e"
    and "retries + 1 \<le> max_retries"
    and "pause (communication_exponential e) delay (nat retries) (invoked w st) = Inl raised"
  shows "communication_retry_loop max_retries delay func retries st = (Inl raised, invoked w st)"
  using communication_loop_retry [of func st e w retries max_retries delay] assms by simp

lemma calendar_pause_raises:
  assumes "func (world st) = (Inl e, w)" and "calendar_retryable e"
    and "retries + 1 \<le> max_retries"
    and "pause (calendar_exponential e) delay (nat retries) (invoked w st) = Inl raised"
  shows "calendar_retry_loop max_retries delay func retries st = (Inl raised, invoked w st)"
  using calendar_loop_retry [of func st e w retries max_retries delay] assms by simp

lemma pause_negative:
  assumes "num_value D < 0" and "sleep_min \<le> num_value D"
  shows "pause False D k st = Inl (ValueError ''sleep length must be non-negative'')"
  using assms sleep_range(2) by (simp add: pause_def time_sleep_def)

lemma pause_float_overflow:
  "1024 \<le> k \<Longrightarrow> pause True (PyFloat x) k st = Inl (OverflowError ''int too large to convert to float'')"
  by (simp add: pause_def backoff_sleep_def try_bind_def)



text \<open>
  A negative base delay: after the first failure that would be retried, \<open>time.sleep\<close> raises
  \<open>ValueError\<close>, which leaves the decorator after one invocation and no sleep.
\<close>

lemma negative_delay_example:
  "communication_with_retry 3 (PyFloat (- 1)) scripted
       (initial [Inl (ConnectionError ''reset''), Inr ()]) =
     (Inl (ValueError ''sleep length must be non-negative''),
      \<lparr>world = [Inr ()], sleeps = [], invocations = 1\<rparr>)
   \<and> calendar_with_retry 3 (PyFloat (- 1)) scripted
       (initial [Inl (ConnectionError ''reset''), Inr ()]) =
     (Inl (ValueError ''sleep length must be non-negative''),
      \<lparr>world = [Inr ()], sleeps = [], invocations = 1\<rparr>)"
  by (simp add: calendar_with_retry_def calendar_retry_loop.simps
      communication_with_retry_def communication_retry_loop.simps
      initial_def invoked_def backoff_sleep_def try_bind_def time_sleep_def
      sleep_min_def sleep_max_def)

text \<open>
  A float base delay and more than 1024 retries: the product of retry 1025 raises
  \<open>OverflowError\<close>, whatever the delay, after 1025 invocations and 1024 sleeps.
\<close>

lemma float_overflow_at_retry_1025:
  assumes "run func 1024 w = (map Inl es, w1)" and "func w1 = (Inl e, w')"
    and "\<forall>e\<in>set es. communication_retryable e"
    and "communication_retryable e" and "communication_exponential e" and "1024 < R"
    and "0 \<le> x" and "x * 2 ^ 1023 \<le> sleep_max"
  shows "communication_with_retry R (PyFloat x) func (initial w) =
           (Inl (OverflowError ''int too large to convert to float''),
            \<lparr>world = w', sleeps = schedule communication_exponential x 0 es,
             invocations = 1025\<rparr>)"
proof -
  let ?st = "\<lparr>world = w1, sleeps = sleeps (initial w) @ schedule communication_exponential (num_value (PyFloat x)) (nat 0) es,
           invocations = invocations (initial w) + 1024\<rparr>"
  have range: "\<forall>k < nat 0 + 1024. num_value (PyFloat x) * 2 ^ k \<le> sleep_max"
    using assms(7,8) by (auto intro: power_range [where m = 1023])
  have "communication_retry_loop R (PyFloat x) func 0 (initial w) =
        communication_retry_loop R (PyFloat x) func (0 + int 1024) ?st"
    using assms(1,3,6,7) range by (intro communication_loop_run) (auto simp: initial_def)
  also have "\<dots> = (Inl (OverflowError ''int too large to convert to float''), invoked w' ?st)"
    using assms(2,4,5,6) by (intro communication_pause_raises [where e = e]) (auto simp: pause_float_overflow)
  finally show ?thesis
    by (simp add: communication_with_retry_def initial_def invoked_def)
qed

subsection \<open>The schedule of the two decorators\<close>




section \<open>Properties of the phone number normaliser\<close>

lemma str_replace_char: "str_replace [c] [] s = filter (\<lambda>x. x \<noteq> c) s"
  by (induction s) auto

lemma str_contains_char: "str_contains [c] s = (c \<in> set s)"
  by (induction s) auto

lemma filter_dropWhile_disjoint:
  "(\<And>x. Q x \<Longrightarrow> \<not> P x) \<Longrightarrow> filter P (dropWhile Q xs) = filter P xs"
  by (induction xs) auto

lemma isspace_not_isdigit: "isspace c \<Longrightarrow> \<not> isdigit c"
  by (auto simp: isspace_def isdigit_def Let_def)

lemma filter_isdigit_strip: "filter isdigit (strip s) = filter isdigit s"
  by (simp add: strip_def rev_filter [symmetric] filter_dropWhile_disjoint isspace_not_isdigit)

lemma separators_not_digits:
  "\<not> isdigit CHR '' ''" "\<not> isdigit CHR ''-''" "\<not> isdigit CHR ''(''" "\<not> isdigit CHR '')''"
  "\<not> isdigit CHR ''.''" "\<not> isdigit CHR ''/''" "\<not> isdigit (CHR 0x5C)" "\<not> isdigit CHR '':''"
  "\<not> isdigit CHR ''+''"
  by (simp_all add: isdigit_def)

lemma filter_isdigit_drop_plus:
  "filter isdigit (if prefix ''+'' s then drop 1 s else s) = filter isdigit s"
  by (cases s) (auto simp: separators_not_digits)

text \<open>
  The separator loop deletes every colon, so the test \<open>":" in cleaned\<close> that follows it is
  never true and the split at the last colon never runs.
\<close>

lemma colon_split_unreachable:
  "\<not> str_contains '':'' (foldl (\<lambda>cleaned char. str_replace char [] cleaned) (strip s)
      ['' '', ''-'', ''('', '')'', ''.'', ''/'', [CHR 0x5C], '':''])"
  by (simp add: str_replace_char str_contains_char)

text \<open>
  Hence the result is always the digits of the whole input, in order, less one leading
  \<open>00\<close>; it is empty when the input has no digit.
\<close>

lemma format_phone_number_digits:
  "format_phone_number s =
     (let digits = filter isdigit s in if prefix ''00'' digits then drop 2 digits else digits)"
proof (cases "s = []")
  case True
  then show ?thesis by (simp add: format_phone_number_def)
next
  case False
  define cleaned where "cleaned = foldl (\<lambda>cleaned char. str_replace char [] cleaned) (strip s)
                        ['' '', ''-'', ''('', '')'', ''.'', ''/'', [CHR 0x5C], '':'']"
  have colon: "\<not> str_contains '':'' cleaned"
    unfolding cleaned_def by (rule colon_split_unreachable)
  have "filter isdigit cleaned = filter isdigit (strip s)"
    by (auto simp: cleaned_def str_replace_char separators_not_digits intro!: filter_cong)
  then have digits: "filter isdigit cleaned = filter isdigit s"
    by (simp add: filter_isdigit_strip)
  show ?thesis
    using False colon digits filter_isdigit_drop_plus [of cleaned]
    unfolding format_phone_number_def cleaned_def [symmetric] Let_def
    by (simp split: if_splits)
qed

lemma format_phone_number_examples:
  "format_phone_number ''06 12 34 56 78'' = ''0612345678''"
  "format_phone_number ''+33612345678'' = ''33612345678''"
  "format_phone_number ''0033612345678'' = ''33612345678''"
  "format_phone_number ''no digits here'' = []"
  by (simp_all add: format_phone_number_digits isdigit_def)

text \<open>
  Claim C3.  The claim has the normaliser keep only what follows the last colon, so that
  \<open>+33 (0)6-12.34:56 78\<close> becomes \<open>5678\<close>.  The function does contain that split, but it can
  never run (\<open>colon_split_unreachable\<close>): on the worked example it returns all twelve
  digits, \<open>330612345678\<close>.
\<close>

theorem format_phone_number_colon_example:
  "format_phone_number ''+33 (0)6-12.34:56 78'' = ''330612345678''
   \<and> format_phone_number ''+33 (0)6-12.34:56 78'' \<noteq> ''5678''"
  by (simp add: format_phone_number_def strip_def isspace_def isdigit_def Let_def)

section \<open>Properties of the video identifier extraction\<close>

lemma str_split_from_nonempty: "str_split_from sep acc s \<noteq> []"
  by (induction sep acc s rule: str_split_from.induct) auto

lemma str_split_from_two:
  "sep \<noteq> [] \<Longrightarrow> 2 \<le> length (str_split_from sep acc (a @ sep @ b))"
proof (induction a arbitrary: acc)
  case Nil
  then obtain c cs where "sep @ b = c # cs" by (cases sep) auto
  moreover from this have "prefix sep (c # cs)" by (metis prefixI)
  ultimately show ?case
    using Nil str_split_from_nonempty [of sep "[]" "drop (length sep) (c # cs)"]
    by (cases "str_split_from sep [] (drop (length sep) (c # cs))") auto
next
  case (Cons x a)
  then show ?case
    using str_split_from_nonempty [of sep "[]" "drop (length sep) (x # a @ sep @ b)"]
    by (cases "str_split_from sep [] (drop (length sep) (x # a @ sep @ b))") auto
qed

lemma getitem_ok: "0 \<le> i \<Longrightarrow> nat i < length xs \<Longrightarrow> \<exists>x. getitem xs i = Inr x"
  by (auto simp: getitem_def Let_def)

text \<open>On a non-empty string the extraction returns: no index is out of range.\<close>

lemma extract_video_id_returns:
  assumes "url \<noteq> []" shows "\<exists>video_id. extract_video_id url = Inr video_id"
proof -
  have a: "\<exists>x. getitem (str_split ''v='' url) 1 = Inr x"
    if "prefix ''https://www.youtube.com/watch?v='' url"
  proof -
    from that obtain b where "url = ''https://www.youtube.com/watch?'' @ ''v='' @ b"
      by (auto simp: prefix_def)
    then have "2 \<le> length (str_split ''v='' url)"
      unfolding str_split_def using str_split_from_two [of "''v=''"] by (metis list.discI)
    then show ?thesis by (intro getitem_ok) auto
  qed
  have b: "\<exists>x. getitem (str_split ''youtu.be/'' url) 1 = Inr x"
    if "prefix ''https://youtu.be/'' url"
  proof -
    from that obtain b where "url = ''https://'' @ ''youtu.be/'' @ b"
      by (auto simp: prefix_def)
    then have "2 \<le> length (str_split ''youtu.be/'' url)"
      unfolding str_split_def using str_split_from_two [of "''youtu.be/''"] by (metis list.discI)
    then show ?thesis by (intro getitem_ok) auto
  qed
  have c: "\<exists>x. getitem (str_split ''&'' rest) 0 = Inr x" for rest
    using str_split_from_nonempty [of "''&''" "[]" rest]
    by (intro getitem_ok) (auto simp: str_split_def)
  show ?thesis
    using assms a b c unfolding extract_video_id_def
    by (auto split: sum.splits)
qed

text \<open>
  Claim C7, as stated, fails on the empty string: it matches neither URL shape, yet it is
  not returned unchanged.  The extraction raises \<open>YouTubeError\<close>, and the validity check
  answers \<open>False\<close>.
\<close>

theorem extract_video_id_counterexample:
  "\<not> prefix ''https://www.youtube.com/watch?v='' ''''
   \<and> \<not> prefix ''https://youtu.be/'' ''''
   \<and> extract_video_id '''' \<noteq> Inr ''''
   \<and> extract_video_id '''' = Inl (YouTubeError ''URL cannot be empty'')
   \<and> validate_video_url '''' = Inr False"
  by (simp add: extract_video_id_def validate_video_url_def)

text \<open>
  Claim C7, amended.  The two example URLs both give \<open>abc123\<close>.  Every non-empty string
  that starts with neither \<open>https://www.youtube.com/watch?v=\<close> nor \<open>https://youtu.be/\<close> is
  returned unchanged; the empty string raises \<open>YouTubeError\<close>.  \<open>validate_video_url\<close> runs
  the same extraction and answers \<open>True\<close> exactly for the non-empty strings.
\<close>

theorem extract_video_id_shapes:
  "extract_video_id ''https://www.youtube.com/watch?v=abc123&t=5'' = Inr ''abc123''
   \<and> extract_video_id ''https://youtu.be/abc123'' = Inr ''abc123''
   \<and> (url \<noteq> [] \<and> \<not> prefix ''https://www.youtube.com/watch?v='' url
        \<and> \<not> prefix ''https://youtu.be/'' url \<longrightarrow> extract_video_id url = Inr url)
   \<and> extract_video_id [] = Inl (YouTubeError ''URL cannot be empty'')
   \<and> validate_video_url url = Inr (url \<noteq> [])"
proof (intro conjI impI)
  show "extract_video_id ''https://www.youtube.com/watch?v=abc123&t=5'' = Inr ''abc123''"
    by (simp add: extract_video_id_def str_split_def getitem_def)
  show "extract_video_id ''https://youtu.be/abc123'' = Inr ''abc123''"
    by (simp add: extract_video_id_def str_split_def getitem_def)
  show "extract_video_id [] = Inl (YouTubeError ''URL cannot be empty'')"
    by (simp add: extract_video_id_def)
  show "validate_video_url url = Inr (url \<noteq> [])"
  proof (cases "url = []")
    case True
    then show ?thesis by (simp add: validate_video_url_def extract_video_id_def)
  next
    case False
    then show ?thesis
      using extract_video_id_returns [of url] by (auto simp: validate_video_url_def)
  qed
next
  assume "url \<noteq> [] \<and> \<not> prefix ''https://www.youtube.com/watch?v='' url
        \<and> \<not> prefix ''https://youtu.be/'' url"
  then show "extract_video_id url = Inr url"
    by (simp add: extract_video_id_def)
qed

theorem extract_video_id_shapes_witness:
  "''abc123'' \<noteq> [] \<and> \<not> prefix ''https://www.youtube.com/watch?v='' ''abc123''
   \<and> \<not> prefix ''https://youtu.be/'' ''abc123''
   \<and> extract_video_id ''abc123'' = Inr ''abc123''
   \<and> validate_video_url ''abc123'' = Inr True"
  using extract_video_id_shapes [of "''abc123''"] by simp

section \<open>Properties of the calendar functions\<close>

subsection \<open>The fields of the sparse patch\<close>

lemma update_new: "k \<notin> fst ` set xs \<Longrightarrow> AList.update k v xs = xs @ [(k, v)]"
  by (induction xs) auto

lemma present_notin: "k'' \<noteq> k' \<Longrightarrow> k'' \<notin> set (present u k k')"
  by (simp add: present_def split: option.splits)

lemma map_present: "map f (present u k k') = present u k (f k')"
  by (simp add: present_def split: option.splits)

lemma keys_copy_field:
  "k \<notin> set ks \<Longrightarrow> map fst b = ks \<Longrightarrow> map fst (copy_field k u b) = ks @ present u k k"
  by (auto simp: copy_field_def present_def update_new split: option.splits)

lemma keys_copy_time:
  "k' \<notin> set ks \<Longrightarrow> map fst b = ks \<Longrightarrow> map fst (copy_time s k k' u b) = ks @ present u k k'"
  by (auto simp: copy_time_def present_def update_new split: option.splits)

lemma keys_five_fields:
  "map fst (five_fields settings u) =
     ((((present u ''summary'' ''summary'' @ present u ''description'' ''description'') @
      present u ''location'' ''location'') @ present u ''start_time'' ''start'') @
      present u ''end_time'' ''end'')"
  unfolding five_fields_def
  apply (rule keys_copy_time)
   apply (simp add: present_notin)
  apply (rule keys_copy_time)
   apply (simp add: present_notin)
  apply (rule keys_copy_field)
   apply (simp add: present_notin)
  apply (rule keys_copy_field)
   apply (simp add: present_notin)
  apply (rule keys_copy_field [of _ "[]" "[]", simplified])
  done

lemma event_body_of_five_fields:
  "event_body_of settings updates =
     (case map_of updates ''attendees'' of
           None \<Rightarrow> Inr (five_fields settings updates)
         | Some JNone \<Rightarrow> Inr (five_fields settings updates)
         | Some v \<Rightarrow>
             (case iterate v of
                Inl e \<Rightarrow> Inl e
              | Inr emails \<Rightarrow>
                  Inr (AList.update ''attendees''
                         (JList (map (\<lambda>email. JDict [(''email'', email)]) emails)) (five_fields settings updates))))"
  unfolding event_body_of_def five_fields_def Let_def ..

lemma attendees_not_in_five_fields: "''attendees'' \<notin> fst ` set (five_fields settings updates)"
proof -
  have "''attendees'' \<notin> set (map fst (five_fields settings updates))"
    unfolding keys_five_fields by (simp add: present_notin)
  then show ?thesis by simp
qed

lemma filter6:
  "filter P [a, b, c, d, e, f] =
     ((((filter P [a] @ filter P [b]) @ filter P [c]) @ filter P [d]) @ filter P [e]) @ filter P [f]"
  by simp

lemma supplied_present:
  "supplied u =
     ((((present u ''summary'' ''summary'' @ present u ''description'' ''description'') @
      present u ''location'' ''location'') @ present u ''start_time'' ''start_time'') @
      present u ''end_time'' ''end_time'') @
     (case map_of u ''attendees'' of None \<Rightarrow> [] | Some v \<Rightarrow> if v = JNone then [] else [''attendees''])"
proof -
  let ?P = "\<lambda>k. case map_of u k of None \<Rightarrow> False | Some v \<Rightarrow> k \<noteq> ''attendees'' \<or> v \<noteq> JNone"
  have 1: "filter ?P [k] = present u k k" if "k \<noteq> ''attendees''" for k
    using that by (simp add: present_def split: option.splits)
  have 2: "filter ?P [''attendees''] =
      (case map_of u ''attendees'' of None \<Rightarrow> [] | Some v \<Rightarrow> if v = JNone then [] else [''attendees''])"
    by (simp split: option.splits)
  have "supplied u = ((((filter ?P [''summary''] @ filter ?P [''description'']) @ filter ?P [''location''])
      @ filter ?P [''start_time'']) @ filter ?P [''end_time'']) @ filter ?P [''attendees'']"
    unfolding supplied_def recognised_def by (rule filter6)
  also have "filter ?P [''summary''] = present u ''summary'' ''summary''" by (rule 1) simp
  also have "filter ?P [''description''] = present u ''description'' ''description''" by (rule 1) simp
  also have "filter ?P [''location''] = present u ''location'' ''location''" by (rule 1) simp
  also have "filter ?P [''start_time''] = present u ''start_time'' ''start_time''" by (rule 1) simp
  also have "filter ?P [''end_time''] = present u ''end_time'' ''end_time''" by (rule 1) simp
  also note 2
  finally show ?thesis .
qed

lemma event_body_keys:
  assumes "event_body_of settings updates = Inr body"
  shows "map fst body = map field_name (supplied updates)"
proof -
  have five: "map fst (five_fields settings updates) = map field_name
     ((((present updates ''summary'' ''summary'' @ present updates ''description'' ''description'') @
      present updates ''location'' ''location'') @ present updates ''start_time'' ''start_time'') @
      present updates ''end_time'' ''end_time'')"
    unfolding keys_five_fields by (simp add: map_present field_name_def)
  show ?thesis
  proof (cases "map_of updates ''attendees''")
    case None
    with assms five show ?thesis
      by (simp add: event_body_of_five_fields supplied_present)
  next
    case (Some v)
    show ?thesis
    proof (cases "v = JNone")
      case True
      with Some assms five show ?thesis
        by (simp add: event_body_of_five_fields supplied_present)
    next
      case False
      with Some assms obtain x where
        "body = AList.update ''attendees'' x (five_fields settings updates)"
        by (cases v) (auto simp: event_body_of_five_fields split: sum.splits)
      with False Some five show ?thesis
        by (simp add: update_new [OF attendees_not_in_five_fields] supplied_present field_name_def)
    qed
  qed
qed

lemma event_body_empty:
  assumes "supplied updates = []" shows "event_body_of settings updates = Inr []"
proof -
  from assms have "map fst (five_fields settings updates) = []"
    unfolding keys_five_fields supplied_present by (simp add: present_def split: option.splits)
  with assms show ?thesis
    unfolding supplied_present event_body_of_five_fields
    by (simp split: option.splits if_splits)
qed

lemma event_body_nonempty:
  "supplied updates \<noteq> [] \<Longrightarrow> event_body_of settings updates = Inr body \<Longrightarrow> body \<noteq> []"
  using event_body_keys [of settings updates body] by auto

subsection \<open>Invariants of the retry loop\<close>

lemma world_invoked [simp]: "world (invoked w st) = w"
  by (simp add: invoked_def)

lemma time_sleep_world: "time_sleep d st = Inr slept \<Longrightarrow> world slept = world st"
  by (auto simp: time_sleep_def split: if_splits)

lemma pause_world: "pause b D k st = Inr slept \<Longrightarrow> world slept = world st"
  by (auto simp: pause_def backoff_sleep_def try_bind_def dest: time_sleep_world
      split: if_splits sum.splits)

lemma calendar_loop_cases:
  assumes "func (world st) = (x, w)"
  obtains (stop) "calendar_retry_loop R D func k st = (x, invoked w st)"
  | (raised) e raised where "x = Inl e"
      "calendar_retry_loop R D func k st = (Inl raised, invoked w st)"
  | (retry) e slept where "x = Inl e" "k + 1 \<le> R" "world slept = w"
      "calendar_retry_loop R D func k st = calendar_retry_loop R D func (k + 1) slept"
proof (cases "\<exists>e. x = Inl e \<and> calendar_retryable e \<and> k + 1 \<le> R")
  case True
  then obtain e where e: "x = Inl e" "calendar_retryable e" "k + 1 \<le> R" by blast
  have loop: "calendar_retry_loop R D func k st =
         (case pause (calendar_exponential e) D (nat k) (invoked w st) of
            Inl raised \<Rightarrow> (Inl raised, invoked w st)
          | Inr slept \<Rightarrow> calendar_retry_loop R D func (k + 1) slept)"
    using assms e calendar_loop_retry [of func st e w k R D] by simp
  show ?thesis
  proof (cases "pause (calendar_exponential e) D (nat k) (invoked w st)")
    case (Inl raised)
    with loop e show ?thesis by (intro raised [of e raised]) auto
  next
    case (Inr slept)
    with loop e pause_world [OF Inr] show ?thesis by (intro retry [of e slept]) auto
  qed
next
  case False
  then have "x = Inr (projr x) \<or> (\<exists>e. x = Inl e \<and> (\<not> calendar_retryable e \<or> k + 1 > R))"
    by (cases x) auto
  with assms show ?thesis
    by (intro stop calendar_loop_stop [where v = "projr x"]) auto
qed

lemma calendar_retry_loop_invariant:
  assumes step: "\<And>w x w'. P w \<Longrightarrow> func w = (x, w') \<Longrightarrow> P w' \<and> (\<forall>v. x = Inr v \<longrightarrow> Q v w')"
    and "P (world st)" and "calendar_retry_loop R D func k st = (r, st')"
  shows "P (world st') \<and> (\<forall>v. r = Inr v \<longrightarrow> Q v (world st'))"
  using assms(2,3)
proof (induction "nat (R - k)" arbitrary: k st)
  case 0
  obtain x w where f: "func (world st) = (x, w)" by (cases "func (world st)")
  from f show ?case
  proof (cases rule: calendar_loop_cases [where R = R and D = D and k = k])
    case stop
    with step [OF "0.prems"(1) f] "0.prems"(2) show ?thesis by auto
  next
    case (raised e raised)
    with step [OF "0.prems"(1) f] "0.prems"(2) show ?thesis by auto
  next
    case (retry e slept)
    with 0 show ?thesis by simp
  qed
next
  case (Suc n)
  obtain x w where f: "func (world st) = (x, w)" by (cases "func (world st)")
  from f show ?case
  proof (cases rule: calendar_loop_cases [where R = R and D = D and k = k])
    case stop
    with step [OF Suc.prems(1) f] Suc.prems(2) show ?thesis by auto
  next
    case (raised e raised)
    with step [OF Suc.prems(1) f] Suc.prems(2) show ?thesis by auto
  next
    case (retry e slept)
    have "n = nat (R - (k + 1))" using Suc.hyps(2) by simp
    moreover have "P (world slept)"
      using step [OF Suc.prems(1) f] retry(3) by simp
    ultimately show ?thesis
      using Suc.hyps(1) Suc.prems(2) retry(4) by metis
  qed
qed

lemma last_calls_execute:
  "execute srv c cw = (r, cw') \<Longrightarrow> calls cw' = calls cw @ [(c, r)]"
  by (auto simp: execute_def split: prod.splits)

lemma patches_execute:
  "execute srv c cw = (r, cw') \<Longrightarrow> patches cw' = patches cw @ (if is_patch c then [c] else [])"
  by (auto simp: execute_def patches_def split: prod.splits)

lemma update_noop:
  assumes "event_body_of settings updates = Inr []"
    and "core_update_event_func settings srv event_id cid updates cw = (r, cw')"
  shows "patches cw' = patches cw \<and>
         (\<forall>ev. r = Inr ev \<longrightarrow> calls cw' \<noteq> [] \<and>
            last (calls cw') = (Events_get (effective_calendar_id settings cid) event_id, Inr ev))"
proof -
  obtain r1 cw1 where b: "execute srv (Build False) cw = (r1, cw1)"
    by (cases "execute srv (Build False) cw")
  obtain r2 cw2 where g: "execute srv (Events_get (effective_calendar_id settings cid) event_id) cw1 = (r2, cw2)"
    by (cases "execute srv (Events_get (effective_calendar_id settings cid) event_id) cw1")
  show ?thesis
    using assms b g patches_execute [OF b] patches_execute [OF g] last_calls_execute [OF g]
    unfolding core_update_event_func_def
    by (auto split: sum.splits exn.splits if_splits)
qed

lemma update_patch:
  assumes "event_body_of settings updates = Inr body" and "body \<noteq> []"
    and "core_update_event_func settings srv event_id cid updates cw = (Inr ev, cw')"
  shows "calls cw' \<noteq> [] \<and>
         last (calls cw') = (Events_patch (effective_calendar_id settings cid) event_id body, Inr ev)"
proof -
  obtain r1 cw1 where b: "execute srv (Build False) cw = (r1, cw1)"
    by (cases "execute srv (Build False) cw")
  obtain r2 cw2 where g: "execute srv (Events_get (effective_calendar_id settings cid) event_id) cw1 = (r2, cw2)"
    by (cases "execute srv (Events_get (effective_calendar_id settings cid) event_id) cw1")
  obtain r3 cw3 where p: "execute srv (Events_patch (effective_calendar_id settings cid) event_id body) cw2 = (r3, cw3)"
    by (cases "execute srv (Events_patch (effective_calendar_id settings cid) event_id body) cw2")
  show ?thesis
    using assms b g p last_calls_execute [OF p]
    unfolding core_update_event_func_def
    by (auto split: sum.splits exn.splits if_splits)
qed

lemma update_error:
  assumes "event_body_of settings updates = Inl e"
  shows "\<exists>e' cw'. core_update_event_func settings srv event_id cid updates cw = (Inl e', cw')"
proof -
  obtain r1 cw1 where b: "execute srv (Build False) cw = (r1, cw1)"
    by (cases "execute srv (Build False) cw")
  obtain r2 cw2 where g: "execute srv (Events_get (effective_calendar_id settings cid) event_id) cw1 = (r2, cw2)"
    by (cases "execute srv (Events_get (effective_calendar_id settings cid) event_id) cw1")
  show ?thesis
    using assms b g unfolding core_update_event_func_def
    by (auto split: sum.splits exn.splits if_splits)
qed

lemma update_patch_supplied:
  assumes "supplied updates \<noteq> []"
    and "core_update_event_func settings srv event_id cid updates cw = (Inr ev, cw')"
  shows "\<exists>body. event_body_of settings updates = Inr body
           \<and> map fst body = map field_name (supplied updates)
           \<and> calls cw' \<noteq> []
           \<and> last (calls cw') = (Events_patch (effective_calendar_id settings cid) event_id body, Inr ev)"
proof (cases "event_body_of settings updates")
  case (Inl e)
  from update_error [OF this, of srv event_id cid cw] assms(2) show ?thesis by auto
next
  case (Inr body)
  with assms(1) have "body \<noteq> []" by (rule event_body_nonempty)
  with Inr assms(2) show ?thesis
    using update_patch [of settings updates body srv event_id cid cw ev cw'] event_body_keys [OF Inr]
    by auto
qed

lemma update_first_attempt:
  assumes "srv (Build False) (provider cw) = (Inr s, w1)"
    and "srv (Events_get (effective_calendar_id settings cid) event_id) w1 = (Inr existing, w2)"
    and "event_body_of settings updates = Inr body"
  shows "core_update_event_func settings srv event_id cid updates cw =
     (if body = []
      then (Inr existing,
            \<lparr>provider = w2,
             calls = calls cw @ [(Build False, Inr s),
                                 (Events_get (effective_calendar_id settings cid) event_id, Inr existing)]\<rparr>)
      else (case srv (Events_patch (effective_calendar_id settings cid) event_id body) w2 of
              (r, w3) \<Rightarrow>
                (r, \<lparr>provider = w3,
                     calls = calls cw @ [(Build False, Inr s),
                                 (Events_get (effective_calendar_id settings cid) event_id, Inr existing),
                                 (Events_patch (effective_calendar_id settings cid) event_id body, r)]\<rparr>)))"
  using assms
  by (auto simp: core_update_event_func_def execute_def split: prod.splits)

lemma calendar_first_success:
  "func w = (Inr v, w') \<Longrightarrow>
   calendar_with_retry R D func (initial w) = (Inr v, \<lparr>world = w', sleeps = [], invocations = 1\<rparr>)"
  unfolding calendar_with_retry_def
  by (subst calendar_retry_loop.simps) (simp add: initial_def invoked_def)

subsection \<open>Updating an event\<close>

text \<open>
  Claim C4, as stated, fails in its second half: a request may hold a recognised field and
  still cause no patch.  An \<open>attendees\<close> entry holding \<open>None\<close> is skipped on purpose, so a
  request made of that entry alone leaves the event body empty and the fetched event is
  returned after the two calls \<open>Build\<close> and \<open>Events_get\<close>.
\<close>

theorem core_update_event_counterexample:
  "''attendees'' \<in> set recognised
   \<and> map_of [(''attendees'', JNone)] ''attendees'' = Some JNone
   \<and> core_update_event example_settings store_service ''e1'' None [(''attendees'', JNone)]
       (initial \<lparr>provider = [''e1''], calls = []\<rparr>) =
     (Inr (JDict [(''id'', JStr ''e1''), (''summary'', JStr ''old'')]),
      \<lparr>world = \<lparr>provider = [''e1''],
                 calls = [(Build False, Inr JNone),
                          (Events_get ''primary'' ''e1'',
                           Inr (JDict [(''id'', JStr ''e1''), (''summary'', JStr ''old'')]))]\<rparr>,
       sleeps = [], invocations = 1\<rparr>)"
  by (simp add: recognised_def core_update_event_def calendar_with_retry_def
      calendar_retry_loop.simps core_update_event_func_def execute_def event_body_of_def
      copy_field_def copy_time_def effective_calendar_id_def example_settings_def
      initial_def invoked_def)

text \<open>
  Claim C4, amended.  The caller-supplied fields are the recognised fields present in the
  request, except an \<open>attendees\<close> entry holding \<open>None\<close>.
  \<^item> When no field is supplied, no run of \<open>core_update_event\<close> adds a patch call to the log,
    whatever the provider answers and however often the call is retried; a returned
    event is the answer to the last call, which is the fetch.
  \<^item> When a field is supplied, a returned event is the provider's answer to the last call,
    which is a patch of that event whose body has exactly the keys of the supplied
    fields (\<open>start_time\<close> and \<open>end_time\<close> stored under \<open>start\<close> and \<open>end\<close>).
  \<^item> When the provider builds the service and answers the fetch, the function returns at
    the first attempt without sleeping: the fetched event after two calls when no field
    is supplied, and the provider's answer to the patch after three calls when a field is
    supplied and the patch succeeds.
\<close>

theorem core_update_event_patch:
  assumes "core_update_event settings srv event_id cid updates (initial cw) = (r, st')"
  shows "(supplied updates = [] \<longrightarrow>
            patches (world st') = patches cw
            \<and> (\<forall>ev. r = Inr ev \<longrightarrow> calls (world st') \<noteq> [] \<and>
                 last (calls (world st')) =
                   (Events_get (effective_calendar_id settings cid) event_id, Inr ev)))
       \<and> (supplied updates \<noteq> [] \<longrightarrow>
            (\<forall>ev. r = Inr ev \<longrightarrow>
               (\<exists>body. event_body_of settings updates = Inr body
                  \<and> map fst body = map field_name (supplied updates)
                  \<and> calls (world st') \<noteq> []
                  \<and> last (calls (world st')) =
                      (Events_patch (effective_calendar_id settings cid) event_id body, Inr ev))))
       \<and> (srv (Build False) (provider cw) = (Inr s, w1)
            \<and> srv (Events_get (effective_calendar_id settings cid) event_id) w1 = (Inr existing, w2)
            \<and> supplied updates = [] \<longrightarrow>
            r = Inr existing
            \<and> st' = \<lparr>world = \<lparr>provider = w2,
                   calls = calls cw @ [(Build False, Inr s),
                     (Events_get (effective_calendar_id settings cid) event_id, Inr existing)]\<rparr>,
                 sleeps = [], invocations = 1\<rparr>)
       \<and> (srv (Build False) (provider cw) = (Inr s, w1)
            \<and> srv (Events_get (effective_calendar_id settings cid) event_id) w1 = (Inr existing, w2)
            \<and> supplied updates \<noteq> [] \<and> event_body_of settings updates = Inr body
            \<and> srv (Events_patch (effective_calendar_id settings cid) event_id body) w2 = (Inr updated, w3) \<longrightarrow>
            r = Inr updated
            \<and> st' = \<lparr>world = \<lparr>provider = w3,
                   calls = calls cw @ [(Build False, Inr s),
                     (Events_get (effective_calendar_id settings cid) event_id, Inr existing),
                     (Events_patch (effective_calendar_id settings cid) event_id body, Inr updated)]\<rparr>,
                 sleeps = [], invocations = 1\<rparr>)"
proof (intro conjI impI)
  let ?f = "core_update_event_func settings srv event_id cid updates"
  have loop: "calendar_retry_loop 3 (PyFloat 1) ?f 0 (initial cw) = (r, st')"
    using assms by (simp add: core_update_event_def calendar_with_retry_def)
  {
    assume s: "supplied updates = []"
    have "patches (world st') = patches cw \<and>
        (\<forall>ev. r = Inr ev \<longrightarrow> calls (world st') \<noteq> [] \<and> last (calls (world st')) =
                   (Events_get (effective_calendar_id settings cid) event_id, Inr ev))"
    proof (rule calendar_retry_loop_invariant [where P = "\<lambda>w. patches w = patches cw"
          and Q = "\<lambda>ev w. calls w \<noteq> [] \<and> last (calls w) =
                   (Events_get (effective_calendar_id settings cid) event_id, Inr ev)", OF _ _ loop])
      fix w x w' assume "patches w = patches cw" "?f w = (x, w')"
      then show "patches w' = patches cw \<and> (\<forall>v. x = Inr v \<longrightarrow> calls w' \<noteq> [] \<and> last (calls w') =
                   (Events_get (effective_calendar_id settings cid) event_id, Inr v))"
        using update_noop [OF event_body_empty [OF s], of settings srv event_id cid w x w'] by simp
    qed (simp add: initial_def)
    then show "patches (world st') = patches cw"
      and "\<forall>ev. r = Inr ev \<longrightarrow> calls (world st') \<noteq> [] \<and> last (calls (world st')) =
                   (Events_get (effective_calendar_id settings cid) event_id, Inr ev)"
      by simp_all
  }
  {
    assume s: "supplied updates \<noteq> []"
    have "True \<and> (\<forall>ev. r = Inr ev \<longrightarrow>
               (\<exists>body. event_body_of settings updates = Inr body
                  \<and> map fst body = map field_name (supplied updates)
                  \<and> calls (world st') \<noteq> []
                  \<and> last (calls (world st')) =
                      (Events_patch (effective_calendar_id settings cid) event_id body, Inr ev)))"
    proof (rule calendar_retry_loop_invariant [where P = "\<lambda>w. True"
          and Q = "\<lambda>ev w. \<exists>body. event_body_of settings updates = Inr body
                  \<and> map fst body = map field_name (supplied updates)
                  \<and> calls w \<noteq> []
                  \<and> last (calls w) =
                      (Events_patch (effective_calendar_id settings cid) event_id body, Inr ev)", OF _ _ loop])
      fix w x w' assume "?f w = (x, w')"
      then show "True \<and> (\<forall>v. x = Inr v \<longrightarrow> (\<exists>body. event_body_of settings updates = Inr body
                  \<and> map fst body = map field_name (supplied updates)
                  \<and> calls w' \<noteq> []
                  \<and> last (calls w') =
                      (Events_patch (effective_calendar_id settings cid) event_id body, Inr v)))"
        using update_patch_supplied [OF s, of settings srv event_id cid w _ w'] by simp
    qed simp
    then show "\<forall>ev. r = Inr ev \<longrightarrow>
               (\<exists>body. event_body_of settings updates = Inr body
                  \<and> map fst body = map field_name (supplied updates)
                  \<and> calls (world st') \<noteq> []
                  \<and> last (calls (world st')) =
                      (Events_patch (effective_calendar_id settings cid) event_id body, Inr ev))"
      by simp
  }
  {
    assume a: "srv (Build False) (provider cw) = (Inr s, w1)
            \<and> srv (Events_get (effective_calendar_id settings cid) event_id) w1 = (Inr existing, w2)
            \<and> supplied updates = []"
    then have "?f cw = (Inr existing, \<lparr>provider = w2,
             calls = calls cw @ [(Build False, Inr s),
                                 (Events_get (effective_calendar_id settings cid) event_id, Inr existing)]\<rparr>)"
      using update_first_attempt [of srv cw s w1 settings cid event_id existing w2 updates "[]"]
        event_body_empty [of updates settings] by simp
    from calendar_first_success [of ?f cw, OF this, of 3 "PyFloat 1"] assms
    have "r = Inr existing
      \<and> st' = \<lparr>world = \<lparr>provider = w2,
                   calls = calls cw @ [(Build False, Inr s),
                     (Events_get (effective_calendar_id settings cid) event_id, Inr existing)]\<rparr>,
                 sleeps = [], invocations = 1\<rparr>"
      by (auto simp: core_update_event_def)
    then show "r = Inr existing"
      and "st' = \<lparr>world = \<lparr>provider = w2,
                   calls = calls cw @ [(Build False, Inr s),
                     (Events_get (effective_calendar_id settings cid) event_id, Inr existing)]\<rparr>,
                 sleeps = [], invocations = 1\<rparr>"
      by simp_all
  }
  {
    assume a: "srv (Build False) (provider cw) = (Inr s, w1)
            \<and> srv (Events_get (effective_calendar_id settings cid) event_id) w1 = (Inr existing, w2)
            \<and> supplied updates \<noteq> [] \<and> event_body_of settings updates = Inr body
            \<and> srv (Events_patch (effective_calendar_id settings cid) event_id body) w2 = (Inr updated, w3)"
    then have "body \<noteq> []" using event_body_nonempty by blast
    with a have "?f cw = (Inr updated, \<lparr>provider = w3,
                   calls = calls cw @ [(Build False, Inr s),
                     (Events_get (effective_calendar_id settings cid) event_id, Inr existing),
                     (Events_patch (effective_calendar_id settings cid) event_id body, Inr updated)]\<rparr>)"
      using update_first_attempt [of srv cw s w1 settings cid event_id existing w2 updates body]
      by simp
    from calendar_first_success [of ?f cw, OF this, of 3 "PyFloat 1"] assms
    have "r = Inr updated
      \<and> st' = \<lparr>world = \<lparr>provider = w3,
                   calls = calls cw @ [(Build False, Inr s),
                     (Events_get (effective_calendar_id settings cid) event_id, Inr existing),
                     (Events_patch (effective_calendar_id settings cid) event_id body, Inr updated)]\<rparr>,
                 sleeps = [], invocations = 1\<rparr>"
      by (auto simp: core_update_event_def)
    then show "r = Inr updated"
      and "st' = \<lparr>world = \<lparr>provider = w3,
                   calls = calls cw @ [(Build False, Inr s),
                     (Events_get (effective_calendar_id settings cid) event_id, Inr existing),
                     (Events_patch (effective_calendar_id settings cid) event_id body, Inr updated)]\<rparr>,
                 sleeps = [], invocations = 1\<rparr>"
      by simp_all
  }
qed

theorem core_update_event_patch_witness:
  "supplied [(''colorId'', JStr ''5'')] = []
   \<and> core_update_event example_settings store_service ''e1'' None [(''colorId'', JStr ''5'')]
        (initial \<lparr>provider = [''e1''], calls = []\<rparr>) =
      (Inr (JDict [(''id'', JStr ''e1''), (''summary'', JStr ''old'')]),
       \<lparr>world = \<lparr>provider = [''e1''],
                  calls = [(Build False, Inr JNone),
                           (Events_get ''primary'' ''e1'',
                            Inr (JDict [(''id'', JStr ''e1''), (''summary'', JStr ''old'')]))]\<rparr>,
        sleeps = [], invocations = 1\<rparr>)
   \<and> supplied [(''summary'', JStr ''new''), (''start_time'', JStr ''2024-07-01T10:00:00'')] =
        [''summary'', ''start_time'']
   \<and> core_update_event example_settings store_service ''e1'' None
        [(''summary'', JStr ''new''), (''start_time'', JStr ''2024-07-01T10:00:00'')]
        (initial \<lparr>provider = [''e1''], calls = []\<rparr>) =
      (Inr (JDict [(''id'', JStr ''e1''), (''summary'', JStr ''new''),
                   (''start'', JDict [(''dateTime'', JStr ''2024-07-01T10:00:00''),
                                      (''timeZone'', JStr ''Europe/Paris'')])]),
       \<lparr>world = \<lparr>provider = [''e1''],
                  calls = [(Build False, Inr JNone),
                           (Events_get ''primary'' ''e1'',
                            Inr (JDict [(''id'', JStr ''e1''), (''summary'', JStr ''old'')])),
                           (Events_patch ''primary'' ''e1''
                              [(''summary'', JStr ''new''),
                               (''start'', JDict [(''dateTime'', JStr ''2024-07-01T10:00:00''),
                                                  (''timeZone'', JStr ''Europe/Paris'')])],
                            Inr (JDict [(''id'', JStr ''e1''), (''summary'', JStr ''new''),
                               (''start'', JDict [(''dateTime'', JStr ''2024-07-01T10:00:00''),
                                                  (''timeZone'', JStr ''Europe/Paris'')])]))]\<rparr>,
        sleeps = [], invocations = 1\<rparr>)"
proof -
  let ?cw = "\<lparr>provider = [''e1''], calls = []\<rparr> :: string list calendar_world"
  let ?A = "core_update_event example_settings store_service ''e1'' None [(''colorId'', JStr ''5'')]
        (initial ?cw)"
  let ?u = "[(''summary'', JStr ''new''), (''start_time'', JStr ''2024-07-01T10:00:00'')]"
  let ?B = "core_update_event example_settings store_service ''e1'' None ?u (initial ?cw)"
  let ?body = "[(''summary'', JStr ''new''),
                (''start'', JDict [(''dateTime'', JStr ''2024-07-01T10:00:00''),
                                   (''timeZone'', JStr ''Europe/Paris'')])]"
  have sA: "supplied [(''colorId'', JStr ''5'')] = []"
    by (simp add: supplied_def recognised_def)
  have sB: "supplied ?u = [''summary'', ''start_time'']"
    by (simp add: supplied_def recognised_def)
  have bB: "event_body_of example_settings ?u = Inr ?body"
    by (simp add: event_body_of_def copy_field_def copy_time_def example_settings_def)
  have A: "?A = (fst ?A, snd ?A)" and B: "?B = (fst ?B, snd ?B)" by simp_all
  note tA = core_update_event_patch [OF A, where s = JNone and ?w1.0 = "[''e1'']"
        and existing = "JDict [(''id'', JStr ''e1''), (''summary'', JStr ''old'')]" and ?w2.0 = "[''e1'']"]
  note tB = core_update_event_patch [OF B, where s = JNone and ?w1.0 = "[''e1'']"
        and existing = "JDict [(''id'', JStr ''e1''), (''summary'', JStr ''old'')]" and ?w2.0 = "[''e1'']"
        and body = ?body and updated = "JDict ((''id'', JStr ''e1'') # ?body)" and ?w3.0 = "[''e1'']"]
  have "fst ?A = Inr (JDict [(''id'', JStr ''e1''), (''summary'', JStr ''old'')])
      \<and> snd ?A = \<lparr>world = \<lparr>provider = [''e1''],
                  calls = [(Build False, Inr JNone),
                           (Events_get ''primary'' ''e1'',
                            Inr (JDict [(''id'', JStr ''e1''), (''summary'', JStr ''old'')]))]\<rparr>,
        sleeps = [], invocations = 1\<rparr>"
    using tA sA by (simp add: effective_calendar_id_def example_settings_def)
  then have rA: "?A = (Inr (JDict [(''id'', JStr ''e1''), (''summary'', JStr ''old'')]),
       \<lparr>world = \<lparr>provider = [''e1''],
                  calls = [(Build False, Inr JNone),
                           (Events_get ''primary'' ''e1'',
                            Inr (JDict [(''id'', JStr ''e1''), (''summary'', JStr ''old'')]))]\<rparr>,
        sleeps = [], invocations = 1\<rparr>)"
    by (simp add: prod_eq_iff)
  have "fst ?B = Inr (JDict ((''id'', JStr ''e1'') # ?body))
      \<and> snd ?B = \<lparr>world = \<lparr>provider = [''e1''],
                  calls = [(Build False, Inr JNone),
                           (Events_get ''primary'' ''e1'',
                            Inr (JDict [(''id'', JStr ''e1''), (''summary'', JStr ''old'')])),
                           (Events_patch ''primary'' ''e1'' ?body,
                            Inr (JDict ((''id'', JStr ''e1'') # ?body)))]\<rparr>,
        sleeps = [], invocations = 1\<rparr>"
    using tB sB bB by (simp add: effective_calendar_id_def example_settings_def)
  then have rB: "?B = (Inr (JDict ((''id'', JStr ''e1'') # ?body)),
       \<lparr>world = \<lparr>provider = [''e1''],
                  calls = [(Build False, Inr JNone),
                           (Events_get ''primary'' ''e1'',
                            Inr (JDict [(''id'', JStr ''e1''), (''summary'', JStr ''old'')])),
                           (Events_patch ''primary'' ''e1'' ?body,
                            Inr (JDict ((''id'', JStr ''e1'') # ?body)))]\<rparr>,
        sleeps = [], invocations = 1\<rparr>)"
    by (simp add: prod_eq_iff)
  show ?thesis
    using sA sB rA rB by simp
qed

subsection \<open>Deleting an event\<close>

lemma delete_first_attempt:
  assumes "srv (Build False) (provider cw) = (Inr s, w1)"
    and "srv (Events_delete (effective_calendar_id settings cid) event_id) w1 = (x, w2)"
  shows "core_delete_event_func settings srv event_id cid cw =
     (case x of
        Inr response \<Rightarrow> Inr True
      | Inl (HttpError status m) \<Rightarrow> if status = 404 then Inr False else Inl (HttpError status m)
      | Inl e \<Rightarrow> Inl e,
      \<lparr>provider = w2,
       calls = calls cw @ [(Build False, Inr s),
                           (Events_delete (effective_calendar_id settings cid) event_id, x)]\<rparr>)"
  using assms
  by (auto simp: core_delete_event_func_def execute_def split: sum.splits exn.splits)

lemma delete_answers:
  assumes "answers_delete srv"
  shows "\<exists>b cw'. core_delete_event_func settings srv event_id cid cw = (Inr b, cw')"
proof -
  from assms obtain s w1 where b: "srv (Build False) (provider cw) = (Inr s, w1)"
    unfolding answers_delete_def by blast
  from assms obtain w2 where
    "(\<exists>x. srv (Events_delete (effective_calendar_id settings cid) event_id) w1 = (Inr x, w2))
     \<or> (\<exists>m. srv (Events_delete (effective_calendar_id settings cid) event_id) w1 = (Inl (HttpError 404 m), w2))"
    unfolding answers_delete_def by blast
  then show ?thesis
    using b by (auto simp: delete_first_attempt [of srv cw s w1])
qed

text \<open>
  Claim C6.  Once the service is built, \<open>core_delete_event\<close> answers a 404 of the provider
  with the value \<open>False\<close> and a successful delete with \<open>True\<close>; in both cases it returns at
  the first attempt, nothing is raised and nothing is slept.  Deleting is idempotent in
  this sense: against a provider that answers every delete with a success or a 404, a
  delete and its repetition both return a boolean.
\<close>

theorem core_delete_event_not_found:
  "(srv (Build False) (provider cw) = (Inr s, w1)
      \<and> srv (Events_delete (effective_calendar_id settings cid) event_id) w1 = (Inl (HttpError 404 m), w2) \<longrightarrow>
    core_delete_event settings srv event_id cid (initial cw) =
      (Inr False,
       \<lparr>world = \<lparr>provider = w2,
                  calls = calls cw @ [(Build False, Inr s),
                    (Events_delete (effective_calendar_id settings cid) event_id, Inl (HttpError 404 m))]\<rparr>,
        sleeps = [], invocations = 1\<rparr>))
   \<and> (srv (Build False) (provider cw) = (Inr s, w1)
      \<and> srv (Events_delete (effective_calendar_id settings cid) event_id) w1 = (Inr x, w2) \<longrightarrow>
    core_delete_event settings srv event_id cid (initial cw) =
      (Inr True,
       \<lparr>world = \<lparr>provider = w2,
                  calls = calls cw @ [(Build False, Inr s),
                    (Events_delete (effective_calendar_id settings cid) event_id, Inr x)]\<rparr>,
        sleeps = [], invocations = 1\<rparr>))
   \<and> (answers_delete srv \<longrightarrow>
        (\<exists>b1 st1 b2 st2.
           core_delete_event settings srv event_id cid (initial cw) = (Inr b1, st1)
           \<and> core_delete_event settings srv event_id cid (initial (world st1)) = (Inr b2, st2)))"
proof (intro conjI impI)
  let ?f = "core_delete_event_func settings srv event_id cid"
  {
    assume "srv (Build False) (provider cw) = (Inr s, w1)
      \<and> srv (Events_delete (effective_calendar_id settings cid) event_id) w1 = (Inl (HttpError 404 m), w2)"
    then show "core_delete_event settings srv event_id cid (initial cw) =
      (Inr False,
       \<lparr>world = \<lparr>provider = w2,
                  calls = calls cw @ [(Build False, Inr s),
                    (Events_delete (effective_calendar_id settings cid) event_id, Inl (HttpError 404 m))]\<rparr>,
        sleeps = [], invocations = 1\<rparr>)"
      unfolding core_delete_event_def
      by (intro calendar_first_success) (simp add: delete_first_attempt)
  }
  {
    assume "srv (Build False) (provider cw) = (Inr s, w1)
      \<and> srv (Events_delete (effective_calendar_id settings cid) event_id) w1 = (Inr x, w2)"
    then show "core_delete_event settings srv event_id cid (initial cw) =
      (Inr True,
       \<lparr>world = \<lparr>provider = w2,
                  calls = calls cw @ [(Build False, Inr s),
                    (Events_delete (effective_calendar_id settings cid) event_id, Inr x)]\<rparr>,
        sleeps = [], invocations = 1\<rparr>)"
      unfolding core_delete_event_def
      by (intro calendar_first_success) (simp add: delete_first_attempt)
  }
  {
    assume a: "answers_delete srv"
    from delete_answers [OF a] obtain b1 cw1 where 1: "?f cw = (Inr b1, cw1)" by blast
    from delete_answers [OF a] obtain b2 cw2 where 2: "?f cw1 = (Inr b2, cw2)" by blast
    show "\<exists>b1 st1 b2 st2.
           core_delete_event settings srv event_id cid (initial cw) = (Inr b1, st1)
           \<and> core_delete_event settings srv event_id cid (initial (world st1)) = (Inr b2, st2)"
      unfolding core_delete_event_def
      using calendar_first_success [of ?f cw, OF 1, of 3 "PyFloat 1"] calendar_first_success [of ?f cw1, OF 2, of 3 "PyFloat 1"]
      by auto
  }
qed

lemma answers_delete_store: "answers_delete store_service"
  by (auto simp: answers_delete_def)

theorem core_delete_event_not_found_witness:
  "core_delete_event example_settings store_service ''e1'' None (initial \<lparr>provider = [], calls = []\<rparr>) =
      (Inr False,
       \<lparr>world = \<lparr>provider = [],
                  calls = [(Build False, Inr JNone),
                    (Events_delete ''primary'' ''e1'', Inl (HttpError 404 ''Not Found''))]\<rparr>,
        sleeps = [], invocations = 1\<rparr>)
   \<and> core_delete_event example_settings store_service ''e1'' None
        (initial \<lparr>provider = [''e1''], calls = []\<rparr>) =
      (Inr True,
       \<lparr>world = \<lparr>provider = [],
                  calls = [(Build False, Inr JNone), (Events_delete ''primary'' ''e1'', Inr JNone)]\<rparr>,
        sleeps = [], invocations = 1\<rparr>)
   \<and> answers_delete store_service
   \<and> (\<exists>b1 st1 b2 st2.
         core_delete_event example_settings store_service ''e1'' None
           (initial \<lparr>provider = [''e1''], calls = []\<rparr>) = (Inr b1, st1)
         \<and> core_delete_event example_settings store_service ''e1'' None (initial (world st1)) = (Inr b2, st2))"
proof -
  note absent = core_delete_event_not_found [where srv = store_service and settings = example_settings
      and cid = None and event_id = "''e1''" and cw = "\<lparr>provider = [], calls = []\<rparr>"
      and s = JNone and ?w1.0 = "[]" and ?w2.0 = "[]" and m = "''Not Found''"]
  note held = core_delete_event_not_found [where srv = store_service and settings = example_settings
      and cid = None and event_id = "''e1''" and cw = "\<lparr>provider = [''e1''], calls = []\<rparr>"
      and s = JNone and ?w1.0 = "[''e1'']" and ?w2.0 = "[]" and x = JNone]
  have 1: "core_delete_event example_settings store_service ''e1'' None (initial \<lparr>provider = [], calls = []\<rparr>) =
      (Inr False,
       \<lparr>world = \<lparr>provider = [],
                  calls = [(Build False, Inr JNone),
                    (Events_delete ''primary'' ''e1'', Inl (HttpError 404 ''Not Found''))]\<rparr>,
        sleeps = [], invocations = 1\<rparr>)"
    using absent by (simp add: effective_calendar_id_def example_settings_def)
  have 2: "core_delete_event example_settings store_service ''e1'' None
        (initial \<lparr>provider = [''e1''], calls = []\<rparr>) =
      (Inr True,
       \<lparr>world = \<lparr>provider = [],
                  calls = [(Build False, Inr JNone), (Events_delete ''primary'' ''e1'', Inr JNone)]\<rparr>,
        sleeps = [], invocations = 1\<rparr>)"
    using held by (simp add: effective_calendar_id_def example_settings_def)
  have 3: "\<exists>b1 st1 b2 st2.
         core_delete_event example_settings store_service ''e1'' None
           (initial \<lparr>provider = [''e1''], calls = []\<rparr>) = (Inr b1, st1)
         \<and> core_delete_event example_settings store_service ''e1'' None (initial (world st1)) = (Inr b2, st2)"
    using held answers_delete_store by blast
  show ?thesis
    using 1 2 3 answers_delete_store by blast
qed

section \<open>Properties of the body selection\<close>

lemma select_parts_html:
  "fst (select_parts ps pl) = find (\<lambda>p. get_content_type p = ''text/html'') ps"
  by (induction ps arbitrary: pl) auto

lemma find_append_cases:
  "find P (xs @ ys) = (case find P xs of None \<Rightarrow> find P ys | Some x \<Rightarrow> Some x)"
  by (induction xs) auto

lemma select_parts_plain:
  "find (\<lambda>p. get_content_type p = ''text/html'') ps = None \<Longrightarrow>
   snd (select_parts ps pl) =
     (case find (\<lambda>p. get_content_type p = ''text/plain'') (rev ps) of Some p \<Rightarrow> Some p | None \<Rightarrow> pl)"
proof (induction ps arbitrary: pl)
  case Nil
  then show ?case by simp
next
  case (Cons a ps)
  then show ?case
    by (auto simp: find_append_cases split: option.splits if_splits)
qed

lemma html_has_header: "get_content_type p = ''text/html'' \<Longrightarrow> msg_headers p \<noteq> []"
  by (cases p) (auto simp: get_content_type_def get_header_def split: if_splits)

text \<open>
  What the selection does.  In a multipart message with a \<open>text/html\<close> part, the body is
  the content of the first such part of the walk (a part of that type has a
  \<open>Content-Type\<close> header, so it is a true object).  Without a \<open>text/html\<close> part, the body is
  the content of the last \<open>text/plain\<close> part of the walk, provided that part has at least
  one header line.  A message that is not multipart gives its content when its type is
  \<open>text/plain\<close> or \<open>text/html\<close>, and the empty string otherwise.
\<close>

lemma body_html:
  assumes "is_multipart m" and "first_html m = Some h"
  shows "get_email_body m = content_of h"
proof -
  obtain a b where s: "select_parts (walk m) None = (a, b)" by (cases "select_parts (walk m) None")
  with select_parts_html [of "walk m" None] assms(2) have a: "a = Some h"
    by (simp add: first_html_def)
  from assms(2) have "get_content_type h = ''text/html''"
    unfolding first_html_def by (auto dest: find_Some_iff [THEN iffD1])
  then have "msg_headers h \<noteq> []" by (rule html_has_header)
  with assms(1) s a show ?thesis
    by (simp add: get_email_body_def truthy_message_def content_of_def)
qed

lemma body_plain:
  assumes "is_multipart m" and "first_html m = None" and "last_plain m = Some p"
  shows "get_email_body m = (if msg_headers p = [] then [] else content_of p)"
proof -
  obtain a b where s: "select_parts (walk m) None = (a, b)" by (cases "select_parts (walk m) None")
  with select_parts_html [of "walk m" None] assms(2) have a: "a = None"
    by (simp add: first_html_def)
  from select_parts_plain [of "walk m" None] assms(2,3) s have b: "b = Some p"
    by (simp add: first_html_def last_plain_def)
  from assms(1) s a b show ?thesis
    by (simp add: get_email_body_def truthy_message_def content_of_def)
qed

lemma body_none:
  assumes "is_multipart m" and "first_html m = None" and "last_plain m = None"
  shows "get_email_body m = []"
proof -
  obtain a b where s: "select_parts (walk m) None = (a, b)" by (cases "select_parts (walk m) None")
  with select_parts_html [of "walk m" None] assms(2) have a: "a = None"
    by (simp add: first_html_def)
  from select_parts_plain [of "walk m" None] assms(2,3) s have b: "b = None"
    by (simp add: first_html_def last_plain_def)
  from assms(1) s a b show ?thesis
    by (simp add: get_email_body_def truthy_message_def)
qed

lemma body_single:
  "\<not> is_multipart m \<Longrightarrow>
   get_email_body m =
     (if get_content_type m = ''text/plain'' \<or> get_content_type m = ''text/html''
      then content_of m else [])"
  by (auto simp: get_email_body_def content_of_def)

text \<open>
  Claim C5.  The claim gives, for a multipart message with \<open>text/plain\<close> parts only, the
  content of the last such part.  The function tests the selected part with \<open>if target_part\<close>,
  and a part without any header line (its type is then the default, \<open>text/plain\<close>) is a
  false object: the body stays empty although the part holds \<open>hello\<close>.
\<close>

theorem get_email_body_headerless_part:
  "is_multipart (Multipart [(''Content-Type'', ''multipart/mixed; boundary=b'')] False
                   [Leaf [] False (Inr ''hello'')])
   \<and> first_html (Multipart [(''Content-Type'', ''multipart/mixed; boundary=b'')] False
                   [Leaf [] False (Inr ''hello'')]) = None
   \<and> last_plain (Multipart [(''Content-Type'', ''multipart/mixed; boundary=b'')] False
                   [Leaf [] False (Inr ''hello'')]) = Some (Leaf [] False (Inr ''hello''))
   \<and> content_of (Leaf [] False (Inr ''hello'')) = ''hello''
   \<and> get_email_body (Multipart [(''Content-Type'', ''multipart/mixed; boundary=b'')] False
                   [Leaf [] False (Inr ''hello'')]) = []"
  by code_simp

section \<open>Properties of sending mail\<close>

lemma perform_calls:
  "perform srv c mw = (r, mw') \<Longrightarrow> mail_calls mw' = mail_calls mw @ [(c, r)]"
  by (auto simp: perform_def split: prod.splits)

lemma attach_files_log:
  "attach_files srv fs msg mw = (msg', mw') \<Longrightarrow>
   \<exists>cs. mail_calls mw' = mail_calls mw @ cs \<and> (\<forall>ca\<in>set cs. \<not> is_send (fst ca))
      \<and> out_headers msg' = out_headers msg
      \<and> length (filter is_attachment (out_parts msg')) \<le> length (filter is_attachment (out_parts msg)) + length fs"
proof (induction fs arbitrary: msg mw)
  case Nil
  then show ?case by simp
next
  case (Cons f fs)
  obtain r1 mw1 where e: "perform srv (Path_exists f) mw = (r1, mw1)"
    by (cases "perform srv (Path_exists f) mw")
  obtain r2 mw2 where rd: "perform srv (Read_file f) mw1 = (r2, mw2)"
    by (cases "perform srv (Read_file f) mw1")
  note c1 = perform_calls [OF e] and c2 = perform_calls [OF rd]
  consider (skip) "attach_files srv fs msg mw1 = (msg', mw')"
    | (unread) "attach_files srv fs msg mw2 = (msg', mw')"
    | (read) data where "attach_files srv fs
                 (attach (MIMEApplication data (basename f)
                            (''attachment; filename='' @ [CHR 0x22] @ basename f @ [CHR 0x22])) msg)
                 mw2 = (msg', mw')"
    using Cons.prems e rd
    by (auto split: sum.splits json.splits bool.splits if_splits)
  then show ?case
  proof cases
    case skip
    from Cons.IH [OF this] c1 show ?thesis by auto
  next
    case unread
    from Cons.IH [OF this] c1 c2 show ?thesis by auto
  next
    case (read data)
    from Cons.IH [OF this] c1 c2 show ?thesis by (auto simp: attach_def)
  qed
qed

lemma build_message_log:
  assumes "build_message formataddr srv client to subject body cc attachments mw = (msg, mw')"
  shows "\<exists>cs. mail_calls mw' = mail_calls mw @ cs \<and> (\<forall>ca\<in>set cs. \<not> is_send (fst ca))
      \<and> out_headers msg = expected_headers formataddr client to subject cc
      \<and> length (filter is_attachment (out_parts msg)) \<le> length (or_empty attachments)"
  using attach_files_log [OF assms [unfolded build_message_def Let_def]]
  by (auto simp: expected_headers_def MIMEMultipart_def set_header_def attach_def)

lemma smtp_block_log:
  assumes "smtp_block srv client msg rcpts mw = (r, mw')"
  shows "\<exists>cs. mail_calls mw' = mail_calls mw @ cs
      \<and> (\<forall>ca\<in>set cs. is_send (fst ca) \<longrightarrow> fst ca = Send_message msg (username client) rcpts)
      \<and> (\<forall>x. r = Inr x \<longrightarrow> (Send_message msg (username client) rcpts, Inr x) \<in> set cs)"
proof -
  obtain r0 mw0 where t: "perform srv Starttls mw = (r0, mw0)" by (cases "perform srv Starttls mw")
  define mw1 where "mw1 = (if smtp_port client \<noteq> 465 \<and> use_tls client then mw0 else mw)"
  obtain r2 mw2 where l: "perform srv (Login (username client) (password client)) mw1 = (r2, mw2)"
    by (cases "perform srv (Login (username client) (password client)) mw1")
  obtain r3 mw3 where s: "perform srv (Send_message msg (username client) rcpts) mw2 = (r3, mw3)"
    by (cases "perform srv (Send_message msg (username client) rcpts) mw2")
  note c = perform_calls [OF t] perform_calls [OF l] perform_calls [OF s]
  show ?thesis
    using assms t l s c unfolding smtp_block_def mw1_def
    by (auto split: if_splits sum.splits)
qed

lemma smtp_session_log:
  assumes "smtp_session srv client msg rcpts mw = (r, mw')"
  shows "\<exists>cs. mail_calls mw' = mail_calls mw @ cs
      \<and> (\<forall>ca\<in>set cs. is_send (fst ca) \<longrightarrow> fst ca = Send_message msg (username client) rcpts)
      \<and> (\<forall>x. r = Inr x \<longrightarrow> (Send_message msg (username client) rcpts, Inr x) \<in> set cs)"
proof -
  let ?c = "if smtp_port client = 465
                        then Connect_SSL (smtp_host client) (smtp_port client)
                        else Connect (smtp_host client) (smtp_port client)"
  obtain r1 mw1 where o: "perform srv ?c mw = (r1, mw1)" by (cases "perform srv ?c mw")
  obtain r2 mw2 where b: "smtp_block srv client msg rcpts mw1 = (r2, mw2)"
    by (cases "smtp_block srv client msg rcpts mw1")
  obtain r3 mw3 where q: "perform srv Quit mw2 = (r3, mw3)" by (cases "perform srv Quit mw2")
  have nc: "\<not> is_send ?c" by simp
  from smtp_block_log [OF b] obtain cs where cs: "mail_calls mw2 = mail_calls mw1 @ cs"
      "\<forall>ca\<in>set cs. is_send (fst ca) \<longrightarrow> fst ca = Send_message msg (username client) rcpts"
      "\<forall>x. r2 = Inr x \<longrightarrow> (Send_message msg (username client) rcpts, Inr x) \<in> set cs"
    by blast
  show ?thesis
  proof (cases r1)
    case (Inl e)
    with assms o have "mw' = mw1" "r = Inl e" by (auto simp: smtp_session_def)
    with perform_calls [OF o] nc show ?thesis by auto
  next
    case (Inr x)
    show ?thesis
    proof (cases r3)
      case (Inl e)
      with Inr assms o b q have "mw' = mw3" "r = Inl e" by (auto simp: smtp_session_def)
      with perform_calls [OF o] perform_calls [OF q] cs nc show ?thesis by auto
    next
      case Inr3: (Inr y)
      with Inr assms o b q have "mw' = mw3" "r = r2" by (auto simp: smtp_session_def)
      with perform_calls [OF o] perform_calls [OF q] cs nc show ?thesis by auto
    qed
  qed
qed

lemma communication_first_success:
  "func w = (Inr v, w') \<Longrightarrow>
   communication_with_retry R D func (initial w) = (Inr v, \<lparr>world = w', sleeps = [], invocations = 1\<rparr>)"
  unfolding communication_with_retry_def
  by (subst communication_retry_loop.simps) (simp add: initial_def invoked_def)

lemma send_email_func_returns:
  "\<exists>res mw'. send_email_func formataddr srv client to subject body cc bcc attachments mw = (Inr res, mw')"
proof -
  obtain msg mw1 where b: "build_message formataddr srv client to subject body cc attachments mw = (msg, mw1)"
    by (cases "build_message formataddr srv client to subject body cc attachments mw")
  obtain r mw2 where s: "smtp_session srv client msg (to @ or_empty cc @ or_empty bcc) mw1 = (r, mw2)"
    by (cases "smtp_session srv client msg (to @ or_empty cc @ or_empty bcc) mw1")
  show ?thesis
    using b s unfolding send_email_func_def
    by (auto split: sum.splits exn.splits)
qed

lemma send_email_func_log:
  assumes "send_email_func formataddr srv client to subject body cc bcc attachments mw = (r, mw')"
  shows "\<exists>cs msg. mail_calls mw' = mail_calls mw @ cs
      \<and> msg = fst (build_message formataddr srv client to subject body cc attachments mw)
      \<and> out_headers msg = expected_headers formataddr client to subject cc
      \<and> length (filter is_attachment (out_parts msg)) \<le> length (or_empty attachments)
      \<and> (\<forall>ca\<in>set cs. is_send (fst ca) \<longrightarrow>
            fst ca = Send_message msg (username client) (to @ or_empty cc @ or_empty bcc))
      \<and> (\<forall>res. r = Inr res \<and> is_success res \<longrightarrow>
            attachment_count res = Some (length (or_empty attachments))
            \<and> (\<exists>x. (Send_message msg (username client) (to @ or_empty cc @ or_empty bcc), Inr x) \<in> set cs))"
proof -
  obtain msg mw1 where b: "build_message formataddr srv client to subject body cc attachments mw = (msg, mw1)"
    by (cases "build_message formataddr srv client to subject body cc attachments mw")
  obtain r2 mw2 where s: "smtp_session srv client msg (to @ or_empty cc @ or_empty bcc) mw1 = (r2, mw2)"
    by (cases "smtp_session srv client msg (to @ or_empty cc @ or_empty bcc) mw1")
  from build_message_log [OF b] obtain cs1 where cs1: "mail_calls mw1 = mail_calls mw @ cs1"
    "\<forall>ca\<in>set cs1. \<not> is_send (fst ca)"
    "out_headers msg = expected_headers formataddr client to subject cc"
    "length (filter is_attachment (out_parts msg)) \<le> length (or_empty attachments)"
    by blast
  from smtp_session_log [OF s] obtain cs2 where cs2: "mail_calls mw2 = mail_calls mw1 @ cs2"
    "\<forall>ca\<in>set cs2. is_send (fst ca) \<longrightarrow>
        fst ca = Send_message msg (username client) (to @ or_empty cc @ or_empty bcc)"
    "\<forall>x. r2 = Inr x \<longrightarrow>
        (Send_message msg (username client) (to @ or_empty cc @ or_empty bcc), Inr x) \<in> set cs2"
    by blast
  show ?thesis
  proof (cases "to = []")
    case True
    with assms have "mw' = mw" "r = Inr (Failure (''Aucun destinataire sp'' @ [CHR 0xE9] @ ''cifi'' @ [CHR 0xE9]))"
      by (auto simp: send_email_func_def)
    with b cs1 show ?thesis by (intro exI [of _ "[]"] exI [of _ msg]) auto
  next
    case False
    with assms b s have mw': "mw' = mw2"
      by (auto simp: send_email_func_def split: sum.splits exn.splits)
    have succ: "\<exists>x. r2 = Inr x \<and> res = Success to (or_empty cc) (or_empty bcc) subject (length (or_empty attachments))"
      if "r = Inr res" "is_success res" for res
      using that False assms b s
      by (auto simp: send_email_func_def split: sum.splits exn.splits)
    show ?thesis
    proof (intro exI [of _ "cs1 @ cs2"] exI [of _ msg] conjI)
      show "mail_calls mw' = mail_calls mw @ cs1 @ cs2" using mw' cs1(1) cs2(1) by simp
      show "msg = fst (build_message formataddr srv client to subject body cc attachments mw)"
        using b by simp
      show "out_headers msg = expected_headers formataddr client to subject cc" by (rule cs1(3))
      show "length (filter is_attachment (out_parts msg)) \<le> length (or_empty attachments)" by (rule cs1(4))
      show "\<forall>ca\<in>set (cs1 @ cs2). is_send (fst ca) \<longrightarrow>
            fst ca = Send_message msg (username client) (to @ or_empty cc @ or_empty bcc)"
        using cs1(2) cs2(2) by auto
      show "\<forall>res. r = Inr res \<and> is_success res \<longrightarrow>
            attachment_count res = Some (length (or_empty attachments))
            \<and> (\<exists>x. (Send_message msg (username client) (to @ or_empty cc @ or_empty bcc), Inr x) \<in> set (cs1 @ cs2))"
        using succ cs2(3) by fastforce
    qed
  qed
qed

lemma send_email_run:
  assumes "send_email formataddr srv client to subject body cc bcc attachments (initial mw) = (r, st')"
  shows "send_email_func formataddr srv client to subject body cc bcc attachments mw = (r, world st')
         \<and> sleeps st' = [] \<and> invocations st' = 1"
proof -
  let ?f = "send_email_func formataddr srv client to subject body cc bcc attachments"
  from send_email_func_returns [of formataddr srv client to subject body cc bcc attachments mw]
  obtain res mw' where f: "?f mw = (Inr res, mw')" by blast
  from communication_first_success [of ?f mw, OF f, of 2 "PyInt 2"] assms f show ?thesis
    by (auto simp: send_email_def)
qed

text \<open>
  Claim C8.  Every \<open>send_message\<close> call that a run of \<open>send_email\<close> issues carries, as envelope
  recipients, the list \<open>to\<close> followed by \<open>cc\<close> and by \<open>bcc\<close> (an absent list counting as empty),
  and carries the message built from the other arguments: \<open>build_message\<close> does not read
  \<open>bcc\<close>.  The header lines of that message are the two that \<open>MIMEMultipart()\<close> sets, then
  \<open>From\<close>, \<open>To\<close>, \<open>Subject\<close>, and \<open>Cc\<close> when \<open>cc\<close> is not empty; there is no \<open>Bcc\<close> line, and
  no header value is computed from \<open>bcc\<close> (an address of \<open>bcc\<close> shows in a header only when
  the caller has also put it in \<open>to\<close> or \<open>cc\<close>).  A run that reports success has issued such
  a call.
\<close>

theorem send_email_envelope:
  assumes "send_email formataddr srv client to subject body cc bcc attachments (initial mw) = (r, st')"
  shows "(\<forall>msg from_addr to_addrs answer.
            (Send_message msg from_addr to_addrs, answer) \<in> set (issued mw (world st')) \<longrightarrow>
              to_addrs = to @ or_empty cc @ or_empty bcc
              \<and> msg = fst (build_message formataddr srv client to subject body cc attachments mw)
              \<and> out_headers msg =
                  [(''Content-Type'', ''multipart/mixed''), (''MIME-Version'', ''1.0''),
                   (''From'', get_formatted_sender formataddr client),
                   (''To'', str_join '', '' to),
                   (''Subject'', subject)] @
                  (if or_empty cc \<noteq> [] then [(''Cc'', str_join '', '' (or_empty cc))] else [])
              \<and> ''Bcc'' \<notin> fst ` set (out_headers msg))
       \<and> (\<forall>res. r = Inr res \<and> is_success res \<longrightarrow>
            (\<exists>msg answer. (Send_message msg (username client) (to @ or_empty cc @ or_empty bcc), Inr answer)
                \<in> set (issued mw (world st'))))"
proof -
  from send_email_run [OF assms]
  have f: "send_email_func formataddr srv client to subject body cc bcc attachments mw = (r, world st')"
    by simp
  from send_email_func_log [OF f] obtain cs msg where
    cs: "mail_calls (world st') = mail_calls mw @ cs"
    and msg: "msg = fst (build_message formataddr srv client to subject body cc attachments mw)"
    and hs: "out_headers msg = expected_headers formataddr client to subject cc"
    and send: "\<forall>ca\<in>set cs. is_send (fst ca) \<longrightarrow>
            fst ca = Send_message msg (username client) (to @ or_empty cc @ or_empty bcc)"
    and succ: "\<forall>res. r = Inr res \<and> is_success res \<longrightarrow>
            attachment_count res = Some (length (or_empty attachments))
            \<and> (\<exists>x. (Send_message msg (username client) (to @ or_empty cc @ or_empty bcc), Inr x) \<in> set cs)"
    by blast
  have i: "issued mw (world st') = cs" by (simp add: issued_def cs)
  have nobcc: "''Bcc'' \<notin> fst ` set (expected_headers formataddr client to subject cc)"
    by (auto simp: expected_headers_def)
  show ?thesis
  proof (intro conjI allI impI)
    fix m from_addr to_addrs answer
    assume "(Send_message m from_addr to_addrs, answer) \<in> set (issued mw (world st'))"
    with i send have eq: "Send_message m from_addr to_addrs =
        Send_message msg (username client) (to @ or_empty cc @ or_empty bcc)"
      by force
    then show "to_addrs = to @ or_empty cc @ or_empty bcc" by simp
    from eq msg show "m = fst (build_message formataddr srv client to subject body cc attachments mw)"
      by simp
    from eq hs show "out_headers m =
                  [(''Content-Type'', ''multipart/mixed''), (''MIME-Version'', ''1.0''),
                   (''From'', get_formatted_sender formataddr client),
                   (''To'', str_join '', '' to),
                   (''Subject'', subject)] @
                  (if or_empty cc \<noteq> [] then [(''Cc'', str_join '', '' (or_empty cc))] else [])"
      by (simp add: expected_headers_def)
    from eq hs nobcc show "''Bcc'' \<notin> fst ` set (out_headers m)" by simp
  next
    fix res assume "r = Inr res \<and> is_success res"
    with succ i show "\<exists>msg answer. (Send_message msg (username client) (to @ or_empty cc @ or_empty bcc), Inr answer)
                \<in> set (issued mw (world st'))"
      by auto
  qed
qed

lemma example_run:
  "send_email (\<lambda>name address. address) file_service example_client [''a@example.org''] ''Hi'' ''hello''
       (Some [''c@example.org'']) (Some [''b@example.org'']) None
       (initial \<lparr>server = [], mail_calls = []\<rparr>) =
     (Inr (Success [''a@example.org''] [''c@example.org''] [''b@example.org''] ''Hi'' 0),
      \<lparr>world = \<lparr>server = [],
         mail_calls =
           [(Connect_SSL ''smtp.example.org'' 465, Inr JNone),
            (Login ''me@example.org'' ''secret'', Inr JNone),
            (Send_message
               \<lparr>out_headers = [(''Content-Type'', ''multipart/mixed''), (''MIME-Version'', ''1.0''),
                   (''From'', ''me@example.org''), (''To'', ''a@example.org''), (''Subject'', ''Hi''),
                   (''Cc'', ''c@example.org'')],
                out_parts = [MIMEText ''hello'' ''plain'']\<rparr>
               ''me@example.org'' [''a@example.org'', ''c@example.org'', ''b@example.org''], Inr JNone),
            (Quit, Inr JNone)]\<rparr>,
       sleeps = [], invocations = 1\<rparr>)"
  by (simp add: send_email_def communication_with_retry_def communication_retry_loop.simps
      send_email_func_def build_message_def smtp_session_def smtp_block_def perform_def
      example_client_def MIMEMultipart_def set_header_def attach_def or_empty_def
      get_formatted_sender_def lower_def lower_char_def initial_def invoked_def)

theorem send_email_envelope_witness:
  "(Send_message
       \<lparr>out_headers = [(''Content-Type'', ''multipart/mixed''), (''MIME-Version'', ''1.0''),
           (''From'', ''me@example.org''), (''To'', ''a@example.org''), (''Subject'', ''Hi''),
           (''Cc'', ''c@example.org'')],
        out_parts = [MIMEText ''hello'' ''plain'']\<rparr>
       ''me@example.org'' [''a@example.org'', ''c@example.org'', ''b@example.org''], Inr JNone)
     \<in> set (issued \<lparr>server = [], mail_calls = []\<rparr>
         (world (snd (send_email (\<lambda>name address. address) file_service example_client
            [''a@example.org''] ''Hi'' ''hello'' (Some [''c@example.org'']) (Some [''b@example.org'']) None
            (initial \<lparr>server = [], mail_calls = []\<rparr>)))))
   \<and> [''a@example.org'', ''c@example.org'', ''b@example.org''] =
       [''a@example.org''] @ or_empty (Some [''c@example.org'']) @ or_empty (Some [''b@example.org''])
   \<and> ''Bcc'' \<notin> fst ` set [(''Content-Type'', ''multipart/mixed''), (''MIME-Version'', ''1.0''),
           (''From'', ''me@example.org''), (''To'', ''a@example.org''), (''Subject'', ''Hi''),
           (''Cc'', ''c@example.org'')]
   \<and> is_success (Success [''a@example.org''] [''c@example.org''] [''b@example.org''] ''Hi'' 0)"
  using send_email_envelope [OF example_run] example_run
  by (simp add: issued_def or_empty_def)

text \<open>
  Claim C10.  A success result of \<open>send_email\<close> reports as \<open>attachment_count\<close> the length
  of the \<open>attachments\<close> argument (zero when it is absent), not the number of parts attached.
  The message sent never holds more attachments than that; it can hold fewer: with two
  paths of which one does not exist, the count reported is 2 and one part is attached.
\<close>

theorem send_email_attachment_count:
  assumes "send_email formataddr srv client to subject body cc bcc attachments (initial mw) = (r, st')"
  shows "(\<forall>res. r = Inr res \<and> is_success res \<longrightarrow>
            attachment_count res = Some (length (or_empty attachments)))
       \<and> (\<forall>msg from_addr to_addrs answer.
            (Send_message msg from_addr to_addrs, answer) \<in> set (issued mw (world st')) \<longrightarrow>
              length (filter is_attachment (out_parts msg)) \<le> length (or_empty attachments))
       \<and> (\<exists>msg. send_email (\<lambda>name address. address) file_service example_client [''a@example.org'']
                   ''Hi'' ''hello'' None None (Some [''/tmp/a.pdf'', ''/tmp/missing.pdf''])
                   (initial \<lparr>server = [''/tmp/a.pdf''], mail_calls = []\<rparr>) =
                 (Inr (Success [''a@example.org''] [] [] ''Hi'' 2),
                  \<lparr>world = \<lparr>server = [''/tmp/a.pdf''],
                     mail_calls =
                       [(Path_exists ''/tmp/a.pdf'', Inr (JBool True)),
                        (Read_file ''/tmp/a.pdf'', Inr (JStr ''data'')),
                        (Path_exists ''/tmp/missing.pdf'', Inr (JBool False)),
                        (Connect_SSL ''smtp.example.org'' 465, Inr JNone),
                        (Login ''me@example.org'' ''secret'', Inr JNone),
                        (Send_message msg ''me@example.org'' [''a@example.org''], Inr JNone),
                        (Quit, Inr JNone)]\<rparr>,
                   sleeps = [], invocations = 1\<rparr>)
               \<and> length (filter is_attachment (out_parts msg)) = 1)"
proof (intro conjI)
  from send_email_run [OF assms]
  have f: "send_email_func formataddr srv client to subject body cc bcc attachments mw = (r, world st')"
    by simp
  from send_email_func_log [OF f] obtain cs msg where
    cs: "mail_calls (world st') = mail_calls mw @ cs"
    and n: "length (filter is_attachment (out_parts msg)) \<le> length (or_empty attachments)"
    and send: "\<forall>ca\<in>set cs. is_send (fst ca) \<longrightarrow>
            fst ca = Send_message msg (username client) (to @ or_empty cc @ or_empty bcc)"
    and succ: "\<forall>res. r = Inr res \<and> is_success res \<longrightarrow>
            attachment_count res = Some (length (or_empty attachments))
            \<and> (\<exists>x. (Send_message msg (username client) (to @ or_empty cc @ or_empty bcc), Inr x) \<in> set cs)"
    by blast
  have i: "issued mw (world st') = cs" by (simp add: issued_def cs)
  show "\<forall>res. r = Inr res \<and> is_success res \<longrightarrow>
            attachment_count res = Some (length (or_empty attachments))"
    using succ by blast
  show "\<forall>msg from_addr to_addrs answer.
            (Send_message msg from_addr to_addrs, answer) \<in> set (issued mw (world st')) \<longrightarrow>
              length (filter is_attachment (out_parts msg)) \<le> length (or_empty attachments)"
  proof (intro allI impI)
    fix m from_addr to_addrs answer
    assume "(Send_message m from_addr to_addrs, answer) \<in> set (issued mw (world st'))"
    with i send have "Send_message m from_addr to_addrs =
        Send_message msg (username client) (to @ or_empty cc @ or_empty bcc)"
      by force
    with n show "length (filter is_attachment (out_parts m)) \<le> length (or_empty attachments)"
      by simp
  qed
  show "\<exists>msg. send_email (\<lambda>name address. address) file_service example_client [''a@example.org'']
                   ''Hi'' ''hello'' None None (Some [''/tmp/a.pdf'', ''/tmp/missing.pdf''])
                   (initial \<lparr>server = [''/tmp/a.pdf''], mail_calls = []\<rparr>) =
                 (Inr (Success [''a@example.org''] [] [] ''Hi'' 2),
                  \<lparr>world = \<lparr>server = [''/tmp/a.pdf''],
                     mail_calls =
                       [(Path_exists ''/tmp/a.pdf'', Inr (JBool True)),
                        (Read_file ''/tmp/a.pdf'', Inr (JStr ''data'')),
                        (Path_exists ''/tmp/missing.pdf'', Inr (JBool False)),
                        (Connect_SSL ''smtp.example.org'' 465, Inr JNone),
                        (Login ''me@example.org'' ''secret'', Inr JNone),
                        (Send_message msg ''me@example.org'' [''a@example.org''], Inr JNone),
                        (Quit, Inr JNone)]\<rparr>,
                   sleeps = [], invocations = 1\<rparr>)
               \<and> length (filter is_attachment (out_parts msg)) = 1"
    by (simp add: send_email_def communication_with_retry_def communication_retry_loop.simps
      send_email_func_def build_message_def smtp_session_def smtp_block_def perform_def
      example_client_def MIMEMultipart_def set_header_def attach_def or_empty_def
      get_formatted_sender_def lower_def lower_char_def initial_def invoked_def basename_def
      str_split_def)
qed

lemma example_run_missing:
  "send_email (\<lambda>name address. address) file_service example_client [''a@example.org'']
       ''Hi'' ''hello'' None None (Some [''/tmp/a.pdf'', ''/tmp/missing.pdf''])
       (initial \<lparr>server = [''/tmp/a.pdf''], mail_calls = []\<rparr>) =
     (Inr (Success [''a@example.org''] [] [] ''Hi'' 2),
      \<lparr>world = \<lparr>server = [''/tmp/a.pdf''],
         mail_calls =
           [(Path_exists ''/tmp/a.pdf'', Inr (JBool True)),
            (Read_file ''/tmp/a.pdf'', Inr (JStr ''data'')),
            (Path_exists ''/tmp/missing.pdf'', Inr (JBool False)),
            (Connect_SSL ''smtp.example.org'' 465, Inr JNone),
            (Login ''me@example.org'' ''secret'', Inr JNone),
            (Send_message
               \<lparr>out_headers = [(''Content-Type'', ''multipart/mixed''), (''MIME-Version'', ''1.0''),
                   (''From'', ''me@example.org''), (''To'', ''a@example.org''), (''Subject'', ''Hi'')],
                out_parts = [MIMEText ''hello'' ''plain'',
                   MIMEApplication ''data'' ''a.pdf'' (''attachment; filename='' @ [CHR 0x22] @ ''a.pdf'' @ [CHR 0x22])]\<rparr>
               ''me@example.org'' [''a@example.org''], Inr JNone),
            (Quit, Inr JNone)]\<rparr>,
       sleeps = [], invocations = 1\<rparr>)"
  by (simp add: send_email_def communication_with_retry_def communication_retry_loop.simps
      send_email_func_def build_message_def smtp_session_def smtp_block_def perform_def
      example_client_def MIMEMultipart_def set_header_def attach_def or_empty_def
      get_formatted_sender_def lower_def lower_char_def initial_def invoked_def basename_def
      str_split_def)

theorem send_email_attachment_count_witness:
  "is_success (Success [''a@example.org''] [] [] ''Hi'' 2)
   \<and> attachment_count (Success [''a@example.org''] [] [] ''Hi'' 2) =
       Some (length (or_empty (Some [''/tmp/a.pdf'', ''/tmp/missing.pdf''])))
   \<and> (Send_message
        \<lparr>out_headers = [(''Content-Type'', ''multipart/mixed''), (''MIME-Version'', ''1.0''),
            (''From'', ''me@example.org''), (''To'', ''a@example.org''), (''Subject'', ''Hi'')],
         out_parts = [MIMEText ''hello'' ''plain'',
            MIMEApplication ''data'' ''a.pdf'' (''attachment; filename='' @ [CHR 0x22] @ ''a.pdf'' @ [CHR 0x22])]\<rparr>
        ''me@example.org'' [''a@example.org''], Inr JNone)
      \<in> set (issued \<lparr>server = [''/tmp/a.pdf''], mail_calls = []\<rparr>
          (world (snd (send_email (\<lambda>name address. address) file_service example_client [''a@example.org'']
             ''Hi'' ''hello'' None None (Some [''/tmp/a.pdf'', ''/tmp/missing.pdf''])
             (initial \<lparr>server = [''/tmp/a.pdf''], mail_calls = []\<rparr>)))))
   \<and> length (filter is_attachment
        [MIMEText ''hello'' ''plain'',
         MIMEApplication ''data'' ''a.pdf'' (''attachment; filename='' @ [CHR 0x22] @ ''a.pdf'' @ [CHR 0x22])])
       \<le> length (or_empty (Some [''/tmp/a.pdf'', ''/tmp/missing.pdf'']))"
  using send_email_attachment_count [OF example_run_missing] example_run_missing
  by (simp add: issued_def or_empty_def)

section \<open>Properties of the tool boundary\<close>

lemma catch_cases:
  obtains (returned) v w' where "body w = (Inr v, w')" and "catch body handler w = (Inr v, w')"
  | (raised) e w' where "body w = (Inl e, w')" and "catch body handler w = (Inr (handler e), w')"
proof (cases "body w")
  case (Pair r w')
  then show ?thesis
    by (cases r) (auto simp: catch_def intro: returned raised)
qed

lemma marker_whatsapp_send: "has_error_marker (envoyer_message_whatsapp_except e)"
  by (cases e) (simp_all add: has_error_marker_def error_marker_def)

lemma marker_whatsapp_reply: "has_error_marker (repondre_chat_whatsapp_except e)"
  by (cases e) (simp_all add: has_error_marker_def error_marker_def)

lemma marker_email_send: "has_error_marker (envoyer_email_except e)"
  by (cases e) (simp_all add: has_error_marker_def error_marker_def)

lemma marker_email_retrieve: "has_error_marker (recuperer_emails_except e)"
  by (cases e) (simp_all add: has_error_marker_def error_marker_def)

lemma marker_list: "has_error_marker (lister_evenements_calendrier_except e)"
  by (simp add: has_error_marker_def error_marker_def lister_evenements_calendrier_except_def)

lemma marker_create: "has_error_marker (creer_evenement_calendrier_except e)"
  by (simp add: has_error_marker_def error_marker_def creer_evenement_calendrier_except_def)

lemma marker_delete: "has_error_marker (supprimer_evenement_calendrier_except event_id e)"
  by (simp add: has_error_marker_def error_marker_def supprimer_evenement_calendrier_except_def)

lemma marker_update:
  "(\<exists>m. e = ValueError m \<and> mettre_a_jour_evenement_calendrier_except event_id e = m)
   \<or> has_error_marker (mettre_a_jour_evenement_calendrier_except event_id e)"
  by (cases e) (simp_all add: has_error_marker_def error_marker_def)

lemma marker_transcript: "has_error_marker (get_transcript_except e)"
  by (cases e) (simp_all add: has_error_marker_def error_marker_def)

subsection \<open>What a returning \<open>try\<close> block says about the core calls\<close>

lemma whatsapp_send_returned:
  "envoyer_message_whatsapp_try fmt gc sm cleaned_phone message w = (Inr text, w') \<Longrightarrow>
   \<exists>client w1 result. gc w = (Inr client, w1) \<and> sm client cleaned_phone message w1 = (Inr result, w')"
  by (auto simp: envoyer_message_whatsapp_try_def split: prod.splits sum.splits)

lemma whatsapp_reply_returned:
  "repondre_chat_whatsapp_try fmt gc sm chat_id message w = (Inr text, w') \<Longrightarrow>
   \<exists>client w1 result. gc w = (Inr client, w1) \<and> sm client chat_id message w1 = (Inr result, w')"
  by (auto simp: repondre_chat_whatsapp_try_def split: prod.splits sum.splits)

lemma email_send_returned:
  "envoyer_email_try gc send to subject body cc bcc attachments w = (Inr text, w') \<Longrightarrow>
   \<exists>client w1. gc w = (Inr client, w1)
     \<and> ((\<exists>rto rcc rbcc rsubject n.
            send client to subject body cc bcc attachments w1 = (Inr (Success rto rcc rbcc rsubject n), w'))
         \<or> (\<exists>error. send client to subject body cc bcc attachments w1 = (Inr (Failure error), w')
               \<and> text = ([CHR 0xC9] @ ''chec de l'' @ [CHR 0x27] @ ''envoi de l'' @ [CHR 0x27] @ ''email: '') @ error))"
  by (auto simp: envoyer_email_try_def Let_def split: prod.splits sum.splits send_result.splits)

lemma email_retrieve_returned:
  "recuperer_emails_try gc retrieve folder limit unread_only search_query w = (Inr text, w') \<Longrightarrow>
   \<exists>client w1 emails. gc w = (Inr client, w1)
     \<and> retrieve client folder limit unread_only search_query w1 = (Inr emails, w')"
  by (auto simp: recuperer_emails_try_def split: prod.splits sum.splits if_splits)

lemma list_returned:
  "lister_evenements_calendrier_try fmt strf core_list count cid w = (Inr text, w') \<Longrightarrow>
   \<exists>events. core_list count cid w = (Inr events, w')"
  by (auto simp: lister_evenements_calendrier_try_def split: prod.splits sum.splits)

lemma create_returned:
  "creer_evenement_calendrier_try fmt core_create summary start_time end_time description location
       attendees cid w = (Inr text, w') \<Longrightarrow>
   \<exists>created. core_create summary start_time end_time description location attendees cid w
                = (Inr created, w')"
  by (auto simp: creer_evenement_calendrier_try_def split: prod.splits sum.splits)

lemma update_returned:
  "mettre_a_jour_evenement_calendrier_try fmt core_update event_id cid updates w = (Inr text, w') \<Longrightarrow>
   \<exists>updated. core_update event_id cid updates w = (Inr updated, w')"
  by (auto simp: mettre_a_jour_evenement_calendrier_try_def split: prod.splits sum.splits)

lemma update_raised_ValueError:
  "mettre_a_jour_evenement_calendrier_try fmt core_update event_id cid updates w
     = (Inl (ValueError m), w') \<Longrightarrow>
   core_update event_id cid updates w = (Inl (ValueError m), w')"
proof -
  have "dict_get v k d \<noteq> Inl (ValueError m)" for v k d
    by (cases v) simp_all
  then show "mettre_a_jour_evenement_calendrier_try fmt core_update event_id cid updates w
     = (Inl (ValueError m), w') \<Longrightarrow>
   core_update event_id cid updates w = (Inl (ValueError m), w')"
    by (auto simp: mettre_a_jour_evenement_calendrier_try_def try_bind_def
        split: prod.splits sum.splits)
qed

lemma delete_returned:
  "supprimer_evenement_calendrier_try core_delete event_id cid w = (Inr text, w') \<Longrightarrow>
   (core_delete event_id cid w = (Inr True, w')
      \<and> text = ([CHR 0xC9] @ ''v'' @ [CHR 0xE9] @ ''nement '') @ event_id @ ('' supprim'' @ [CHR 0xE9] @ '' avec succ'' @ [CHR 0xE8] @ ''s.''))
   \<or> (core_delete event_id cid w = (Inr False, w')
      \<and> text = ([CHR 0xC9] @ ''v'' @ [CHR 0xE9] @ ''nement '') @ event_id @ ('' non trouv'' @ [CHR 0xE9] @ '' ou d'' @ [CHR 0xE9] @ ''j'' @ [CHR 0xE0] @ '' supprim'' @ [CHR 0xE9] @ ''.''))"
  by (auto simp: supprimer_evenement_calendrier_try_def split: prod.splits sum.splits if_splits)

lemma transcript_returned:
  "get_transcript_try make_api_request url w = (Inr t, w') \<Longrightarrow>
   \<exists>video_id data. extract_video_id url = Inr video_id
     \<and> make_api_request ''video/subtitles'' [(''video_id'', video_id)] w = (Inr data, w')"
  by (auto simp: get_transcript_try_def split: prod.splits sum.splits)

lemma unmarked_reports:
  "\<not> has_error_marker (([CHR 0xC9] @ ''chec de l'' @ [CHR 0x27] @ ''envoi de l'' @ [CHR 0x27] @ ''email: '') @ error)"
  "\<not> has_error_marker (([CHR 0xC9] @ ''v'' @ [CHR 0xE9] @ ''nement '') @ event_id @ rest)"
  "\<not> has_error_marker (''Aucune information de mise '' @ [CHR 0xE0] @ '' jour fournie.'')"
  by (simp_all add: has_error_marker_def error_marker_def)

subsection \<open>Each tool\<close>

lemma tool_whatsapp_send:
  "\<exists>text w'. envoyer_message_whatsapp aid fmt gc sm phone_number message account w = (Inr text, w')
      \<and> (has_error_marker text
          \<or> (\<exists>client w1 result. gc w = (Inr client, w1)
                \<and> sm client (format_phone_number phone_number) message w1 = (Inr result, w')
                \<and> envoyer_message_whatsapp_try fmt gc sm (format_phone_number phone_number) message w
                     = (Inr text, w')))"
proof -
  let ?body = "envoyer_message_whatsapp_try fmt gc sm (format_phone_number phone_number) message"
  show ?thesis
  proof (cases rule: catch_cases [of ?body w envoyer_message_whatsapp_except])
    case (returned v w')
    from whatsapp_send_returned [OF returned(1)] returned show ?thesis
      by (auto simp: envoyer_message_whatsapp_def Let_def has_error_marker_def error_marker_def)
  next
    case (raised e w')
    then show ?thesis
      using marker_whatsapp_send [of e]
      by (auto simp: envoyer_message_whatsapp_def Let_def has_error_marker_def error_marker_def)
  qed
qed

lemma tool_whatsapp_reply:
  "\<exists>text w'. repondre_chat_whatsapp aid fmt gc sm chat_id message w = (Inr text, w')
      \<and> (has_error_marker text
          \<or> (\<exists>client w1 result. gc w = (Inr client, w1)
                \<and> sm client chat_id message w1 = (Inr result, w')
                \<and> repondre_chat_whatsapp_try fmt gc sm chat_id message w = (Inr text, w')))"
proof (cases rule: catch_cases [of "repondre_chat_whatsapp_try fmt gc sm chat_id message" w
      repondre_chat_whatsapp_except])
  case (returned v w')
  from whatsapp_reply_returned [OF returned(1)] returned show ?thesis
    by (auto simp: repondre_chat_whatsapp_def has_error_marker_def error_marker_def)
next
  case (raised e w')
  then show ?thesis
    using marker_whatsapp_reply [of e]
    by (auto simp: repondre_chat_whatsapp_def has_error_marker_def error_marker_def)
qed

lemma tool_email_send:
  "\<exists>text w'. envoyer_email gc send to subject body cc bcc attachments w = (Inr text, w')
      \<and> (has_error_marker text
          \<or> (\<exists>client w1 rto rcc rbcc rsubject n. gc w = (Inr client, w1)
                \<and> send client to subject body cc bcc attachments w1
                     = (Inr (Success rto rcc rbcc rsubject n), w')
                \<and> envoyer_email_try gc send to subject body cc bcc attachments w = (Inr text, w'))
          \<or> (\<exists>client w1 error. gc w = (Inr client, w1)
                \<and> send client to subject body cc bcc attachments w1 = (Inr (Failure error), w')
                \<and> text = ([CHR 0xC9] @ ''chec de l'' @ [CHR 0x27] @ ''envoi de l'' @ [CHR 0x27] @ ''email: '') @ error
                \<and> \<not> has_error_marker text))"
proof (cases rule: catch_cases [of "envoyer_email_try gc send to subject body cc bcc attachments" w
      envoyer_email_except])
  case (returned v w')
  from email_send_returned [OF returned(1)] returned unmarked_reports(1) show ?thesis
    by (auto simp: envoyer_email_def has_error_marker_def error_marker_def)
next
  case (raised e w')
  then show ?thesis
    using marker_email_send [of e]
    by (auto simp: envoyer_email_def has_error_marker_def error_marker_def)
qed

lemma tool_email_retrieve:
  "\<exists>text w'. recuperer_emails gc retrieve folder limit unread_only search_query w = (Inr text, w')
      \<and> (has_error_marker text
          \<or> (\<exists>client w1 emails. gc w = (Inr client, w1)
                \<and> retrieve client folder limit unread_only search_query w1 = (Inr emails, w')
                \<and> recuperer_emails_try gc retrieve folder limit unread_only search_query w
                     = (Inr text, w')))"
proof (cases rule: catch_cases [of "recuperer_emails_try gc retrieve folder limit unread_only search_query" w
      recuperer_emails_except])
  case (returned v w')
  from email_retrieve_returned [OF returned(1)] returned show ?thesis
    by (auto simp: recuperer_emails_def)
next
  case (raised e w')
  then show ?thesis
    using marker_email_retrieve [of e] by (auto simp: recuperer_emails_def)
qed

lemma tool_list:
  "\<exists>text w'. lister_evenements_calendrier fmt strf core_list count cid w = (Inr text, w')
      \<and> (has_error_marker text
          \<or> (\<exists>events. core_list count cid w = (Inr events, w')
                \<and> lister_evenements_calendrier_try fmt strf core_list count cid w = (Inr text, w')))"
proof (cases rule: catch_cases [of "lister_evenements_calendrier_try fmt strf core_list count cid" w
      lister_evenements_calendrier_except])
  case (returned v w')
  from list_returned [OF returned(1)] returned show ?thesis
    by (auto simp: lister_evenements_calendrier_def)
next
  case (raised e w')
  then show ?thesis
    using marker_list [of e] by (auto simp: lister_evenements_calendrier_def)
qed

lemma tool_create:
  "\<exists>text w'. creer_evenement_calendrier fmt core_create summary start_time end_time description
                 location attendees cid w = (Inr text, w')
      \<and> (has_error_marker text
          \<or> (\<exists>created. core_create summary start_time end_time description location attendees cid w
                           = (Inr created, w')
                \<and> creer_evenement_calendrier_try fmt core_create summary start_time end_time
                     description location attendees cid w = (Inr text, w')))"
proof (cases rule: catch_cases [of "creer_evenement_calendrier_try fmt core_create summary start_time
      end_time description location attendees cid" w creer_evenement_calendrier_except])
  case (returned v w')
  from create_returned [OF returned(1)] returned show ?thesis
    by (auto simp: creer_evenement_calendrier_def)
next
  case (raised e w')
  then show ?thesis
    using marker_create [of e] by (auto simp: creer_evenement_calendrier_def)
qed

lemma tool_update:
  "\<exists>text w'. mettre_a_jour_evenement_calendrier fmt core_update event_id cid summary start_time
                 end_time description location attendees w = (Inr text, w')
      \<and> (has_error_marker text
          \<or> (\<exists>updated. core_update event_id cid
                 (update_request summary start_time end_time description location attendees) w
                   = (Inr updated, w')
                \<and> mettre_a_jour_evenement_calendrier_try fmt core_update event_id cid
                     (update_request summary start_time end_time description location attendees) w
                     = (Inr text, w'))
          \<or> core_update event_id cid
               (update_request summary start_time end_time description location attendees) w
               = (Inl (ValueError text), w')
          \<or> (update_request summary start_time end_time description location attendees = []
                \<and> text = (''Aucune information de mise '' @ [CHR 0xE0] @ '' jour fournie.'') \<and> w' = w
                \<and> \<not> has_error_marker text))"
proof (cases "update_request summary start_time end_time description location attendees = []")
  case True
  then show ?thesis
    using unmarked_reports(3) by (simp add: mettre_a_jour_evenement_calendrier_def)
next
  case False
  let ?u = "update_request summary start_time end_time description location attendees"
  show ?thesis
  proof (cases rule: catch_cases [of "mettre_a_jour_evenement_calendrier_try fmt core_update event_id cid ?u"
        w "mettre_a_jour_evenement_calendrier_except event_id"])
    case (returned v w')
    from update_returned [OF returned(1)] returned False show ?thesis
      by (auto simp: mettre_a_jour_evenement_calendrier_def)
  next
    case (raised e w')
    show ?thesis
    proof (cases "\<exists>m. e = ValueError m")
      case True
      then obtain m where m: "e = ValueError m" by blast
      from raised(1) have "core_update event_id cid ?u w = (Inl (ValueError m), w')"
        unfolding m by (rule update_raised_ValueError)
      with raised m False show ?thesis
        by (auto simp: mettre_a_jour_evenement_calendrier_def)
    next
      case notValue: False
      with marker_update [of e event_id]
      have "has_error_marker (mettre_a_jour_evenement_calendrier_except event_id e)" by blast
      with raised False show ?thesis
        by (auto simp: mettre_a_jour_evenement_calendrier_def)
    qed
  qed
qed

lemma tool_delete:
  "\<exists>text w'. supprimer_evenement_calendrier core_delete event_id cid w = (Inr text, w')
      \<and> (has_error_marker text
          \<or> (core_delete event_id cid w = (Inr True, w')
                \<and> text = ([CHR 0xC9] @ ''v'' @ [CHR 0xE9] @ ''nement '') @ event_id @ ('' supprim'' @ [CHR 0xE9] @ '' avec succ'' @ [CHR 0xE8] @ ''s.''))
          \<or> (core_delete event_id cid w = (Inr False, w')
                \<and> text = ([CHR 0xC9] @ ''v'' @ [CHR 0xE9] @ ''nement '') @ event_id @ ('' non trouv'' @ [CHR 0xE9] @ '' ou d'' @ [CHR 0xE9] @ ''j'' @ [CHR 0xE0] @ '' supprim'' @ [CHR 0xE9] @ ''.'')
                \<and> \<not> has_error_marker text))"
proof (cases rule: catch_cases [of "supprimer_evenement_calendrier_try core_delete event_id cid" w
      "supprimer_evenement_calendrier_except event_id"])
  case (returned v w')
  from delete_returned [OF returned(1)] returned
    unmarked_reports(2) [of event_id]
  show ?thesis
    by (auto simp: supprimer_evenement_calendrier_def)
next
  case (raised e w')
  then show ?thesis
    using marker_delete [of event_id e] by (auto simp: supprimer_evenement_calendrier_def)
qed

lemma tool_transcript:
  "\<exists>resp w'. get_video_transcript make_api_request url w = (Inr resp, w')
      \<and> ((\<exists>e. get_transcript_try make_api_request url w = (Inl e, w')
              \<and> has_error_marker (get_transcript_except e)
              \<and> resp = \<lparr>resp_success = False, resp_transcript = None,
                        resp_error = Some (get_transcript_except e)\<rparr>)
          \<or> (\<exists>t video_id data.
                extract_video_id url = Inr video_id
                \<and> make_api_request ''video/subtitles'' [(''video_id'', video_id)] w = (Inr data, w')
                \<and> get_transcript_try make_api_request url w = (Inr t, w')
                \<and> resp = (if has_error_marker t
                          then \<lparr>resp_success = False, resp_transcript = None, resp_error = Some t\<rparr>
                          else \<lparr>resp_success = True, resp_transcript = Some t, resp_error = None\<rparr>)))"
proof (cases rule: catch_cases [of "get_transcript_try make_api_request url" w get_transcript_except])
  case (returned t w')
  from returned(2) have "get_video_transcript make_api_request url w =
      (Inr (if has_error_marker t
           then \<lparr>resp_success = False, resp_transcript = None, resp_error = Some t\<rparr>
           else \<lparr>resp_success = True, resp_transcript = Some t, resp_error = None\<rparr>), w')"
    by (simp add: get_video_transcript_def catch_def get_video_transcript_try_def get_transcript_def
        has_error_marker_def error_marker_def)
  with transcript_returned [OF returned(1)] returned(1) show ?thesis by auto
next
  case (raised e w')
  from marker_transcript [of e] have "prefix ''Erreur'' (get_transcript_except e)"
    by (simp add: has_error_marker_def error_marker_def)
  with raised(2) have "get_video_transcript make_api_request url w =
      (Inr \<lparr>resp_success = False, resp_transcript = None,
            resp_error = Some (get_transcript_except e)\<rparr>, w')"
    by (simp add: get_video_transcript_def catch_def get_video_transcript_try_def get_transcript_def)
  with raised(1) marker_transcript [of e] show ?thesis by auto
qed

subsection \<open>Failures that are reported without the marker\<close>

text \<open>
  Claim C9, as stated, fails in its second half: three failures come back as a text that
  does not begin with the error marker.

  \<^item> The update tool has a handler of its own for \<open>ValueError\<close>, which returns the bare
    message of the exception.  Updating an event that the provider does not hold makes
    \<open>core_update_event\<close> raise \<open>ValueError\<close> (after the three retries of the decorator); the
    tool then returns the sentence saying that the event was not found.
  \<^item> \<open>send_email\<close> reports a failure by its return value.  When the SMTP server refuses the
    login, the email tool returns a sentence that begins with the word for failure, not with the marker.
  \<^item> \<open>core_delete_event\<close> returns \<open>False\<close> for an event that the provider does not hold;
    the delete tool then returns the sentence saying that the event was not found or was
    deleted already.
\<close>

theorem tool_error_marker_counterexample:
  "mettre_a_jour_evenement_calendrier example_fmt (core_update_event example_settings store_service)
       ''e9'' None (Some ''New title'') None None None None None
       (initial \<lparr>provider = [], calls = []\<rparr>) =
     (Inr (([CHR 0xC9] @ ''v'' @ [CHR 0xE9] @ ''nement e9 non trouv'' @ [CHR 0xE9] @ ''.'')),
      \<lparr>world = \<lparr>provider = [],
         calls = [(Build False, Inr JNone),
                  (Events_get ''primary'' ''e9'', Inl (HttpError 404 ''Not Found'')),
                  (Build False, Inr JNone),
                  (Events_get ''primary'' ''e9'', Inl (HttpError 404 ''Not Found'')),
                  (Build False, Inr JNone),
                  (Events_get ''primary'' ''e9'', Inl (HttpError 404 ''Not Found'')),
                  (Build False, Inr JNone),
                  (Events_get ''primary'' ''e9'', Inl (HttpError 404 ''Not Found''))]\<rparr>,
       sleeps = [1, 1, 1], invocations = 4\<rparr>)
   \<and> \<not> has_error_marker (([CHR 0xC9] @ ''v'' @ [CHR 0xE9] @ ''nement e9 non trouv'' @ [CHR 0xE9] @ ''.''))
   \<and> envoyer_email (\<lambda>w. (Inr example_client, w)) (send_email (\<lambda>name address. address) refusing_service)
       [''a@example.org''] ''Hi'' ''hello'' None None None
       (initial \<lparr>server = (), mail_calls = []\<rparr>) =
     (Inr (([CHR 0xC9] @ ''chec de l'' @ [CHR 0x27] @ ''envoi de l'' @ [CHR 0x27] @ ''email: Authentification SMTP '' @ [CHR 0xE9] @ ''chou'' @ [CHR 0xE9] @ ''e pour me@example.org: 535 denied'')),
      \<lparr>world = \<lparr>server = (),
         mail_calls = [(Connect_SSL ''smtp.example.org'' 465, Inr JNone),
                       (Login ''me@example.org'' ''secret'', Inl (SMTPAuthenticationError ''535 denied'')),
                       (Quit, Inr JNone)]\<rparr>,
       sleeps = [], invocations = 1\<rparr>)
   \<and> \<not> has_error_marker
         (([CHR 0xC9] @ ''chec de l'' @ [CHR 0x27] @ ''envoi de l'' @ [CHR 0x27] @ ''email: Authentification SMTP '' @ [CHR 0xE9] @ ''chou'' @ [CHR 0xE9] @ ''e pour me@example.org: 535 denied''))
   \<and> supprimer_evenement_calendrier (core_delete_event example_settings store_service) ''e9'' None
       (initial \<lparr>provider = [], calls = []\<rparr>) =
     (Inr (([CHR 0xC9] @ ''v'' @ [CHR 0xE9] @ ''nement e9 non trouv'' @ [CHR 0xE9] @ '' ou d'' @ [CHR 0xE9] @ ''j'' @ [CHR 0xE0] @ '' supprim'' @ [CHR 0xE9] @ ''.'')),
      \<lparr>world = \<lparr>provider = [],
         calls = [(Build False, Inr JNone),
                  (Events_delete ''primary'' ''e9'', Inl (HttpError 404 ''Not Found''))]\<rparr>,
       sleeps = [], invocations = 1\<rparr>)
   \<and> \<not> has_error_marker (([CHR 0xC9] @ ''v'' @ [CHR 0xE9] @ ''nement e9 non trouv'' @ [CHR 0xE9] @ '' ou d'' @ [CHR 0xE9] @ ''j'' @ [CHR 0xE0] @ '' supprim'' @ [CHR 0xE9] @ ''.''))"
proof -
  have update: "mettre_a_jour_evenement_calendrier example_fmt (core_update_event example_settings store_service)
       ''e9'' None (Some ''New title'') None None None None None
       (initial \<lparr>provider = [], calls = []\<rparr>) =
     (Inr (([CHR 0xC9] @ ''v'' @ [CHR 0xE9] @ ''nement e9 non trouv'' @ [CHR 0xE9] @ ''.'')),
      \<lparr>world = \<lparr>provider = [],
         calls = [(Build False, Inr JNone),
                  (Events_get ''primary'' ''e9'', Inl (HttpError 404 ''Not Found'')),
                  (Build False, Inr JNone),
                  (Events_get ''primary'' ''e9'', Inl (HttpError 404 ''Not Found'')),
                  (Build False, Inr JNone),
                  (Events_get ''primary'' ''e9'', Inl (HttpError 404 ''Not Found'')),
                  (Build False, Inr JNone),
                  (Events_get ''primary'' ''e9'', Inl (HttpError 404 ''Not Found''))]\<rparr>,
       sleeps = [1, 1, 1], invocations = 4\<rparr>)"
    by (simp add: mettre_a_jour_evenement_calendrier_def update_request_def List.map_filter_simps
        catch_def mettre_a_jour_evenement_calendrier_try_def
        core_update_event_def calendar_with_retry_def calendar_retry_loop.simps
        core_update_event_func_def execute_def effective_calendar_id_def example_settings_def
        not_found_message_def initial_def invoked_def time_sleep_def sleep_min_def sleep_max_def)
  have email: "envoyer_email (\<lambda>w. (Inr example_client, w)) (send_email (\<lambda>name address. address) refusing_service)
       [''a@example.org''] ''Hi'' ''hello'' None None None
       (initial \<lparr>server = (), mail_calls = []\<rparr>) =
     (Inr (([CHR 0xC9] @ ''chec de l'' @ [CHR 0x27] @ ''envoi de l'' @ [CHR 0x27] @ ''email: Authentification SMTP '' @ [CHR 0xE9] @ ''chou'' @ [CHR 0xE9] @ ''e pour me@example.org: 535 denied'')),
      \<lparr>world = \<lparr>server = (),
         mail_calls = [(Connect_SSL ''smtp.example.org'' 465, Inr JNone),
                       (Login ''me@example.org'' ''secret'', Inl (SMTPAuthenticationError ''535 denied'')),
                       (Quit, Inr JNone)]\<rparr>,
       sleeps = [], invocations = 1\<rparr>)"
    by (simp add: envoyer_email_def catch_def envoyer_email_try_def
        send_email_def communication_with_retry_def communication_retry_loop.simps
        send_email_func_def build_message_def smtp_session_def smtp_block_def perform_def
        example_client_def MIMEMultipart_def set_header_def attach_def or_empty_def
        get_formatted_sender_def lower_def lower_char_def initial_def invoked_def)
  have delete: "supprimer_evenement_calendrier (core_delete_event example_settings store_service) ''e9'' None
       (initial \<lparr>provider = [], calls = []\<rparr>) =
     (Inr (([CHR 0xC9] @ ''v'' @ [CHR 0xE9] @ ''nement e9 non trouv'' @ [CHR 0xE9] @ '' ou d'' @ [CHR 0xE9] @ ''j'' @ [CHR 0xE0] @ '' supprim'' @ [CHR 0xE9] @ ''.'')),
      \<lparr>world = \<lparr>provider = [],
         calls = [(Build False, Inr JNone),
                  (Events_delete ''primary'' ''e9'', Inl (HttpError 404 ''Not Found''))]\<rparr>,
       sleeps = [], invocations = 1\<rparr>)"
    by (simp add: supprimer_evenement_calendrier_def catch_def supprimer_evenement_calendrier_try_def
        core_delete_event_def calendar_with_retry_def calendar_retry_loop.simps
        core_delete_event_func_def execute_def effective_calendar_id_def example_settings_def
        initial_def invoked_def)
  show ?thesis
    by (simp only: update email delete simp_thms)
       (simp add: has_error_marker_def error_marker_def)
qed

subsection \<open>The contract of the tool boundary\<close>

text \<open>
  Claim C9, amended.  Whatever the core functions do, every tool returns: no exception
  (of the class \<open>Exception\<close>) leaves a tool.  For the eight text tools, the text returned
  begins with the marker \<open>Erreur\<close> whenever an argument is rejected or an exception is
  raised in the \<open>try\<close> block, by a core function or by the formatting of its result, with
  the exceptions listed below.  A text without the marker is returned only in these cases:

  \<^item> every core function called has returned a value, and the text is the report that the
    \<open>try\<close> block makes of it (for the email tool: \<open>send_email\<close> has returned a result whose
    \<open>success\<close> entry is true; for the delete tool: \<open>core_delete_event\<close> has returned \<open>True\<close>);
  \<^item> email tool: \<open>send_email\<close> has returned a result whose \<open>success\<close> entry is false; the
    text is the sentence announcing the failure of the sending, followed by the \<open>error\<close> entry;
  \<^item> delete tool: \<open>core_delete_event\<close> has returned \<open>False\<close>; the text says that the event
    was not found or was deleted already;
  \<^item> update tool: \<open>core_update_event\<close> has raised \<open>ValueError\<close>; the text is the bare message
    of the exception;
  \<^item> update tool: no field is given; the text is the notice saying so.

  The transcript tool returns a structured result.  When the \<open>try\<close> block of
  \<open>get_transcript\<close> raises (an invalid address, a failed request, an answer of an unexpected
  shape), \<open>success\<close> is false and \<open>error\<close> is the message that \<open>get_transcript\<close> makes of the
  exception, which begins with \<open>Erreur\<close>.  When it returns a text (the request has returned
  data), \<open>success\<close> is false and \<open>error\<close> is that text if it begins with \<open>Erreur\<close>; otherwise
  \<open>success\<close> is true and \<open>transcript\<close> is that text.
\<close>

theorem tools_convert_failures:
  "(\<exists>text w'. envoyer_message_whatsapp aid fmt get_whatsapp_client send_message phone_number message
                  account w = (Inr text, w')
      \<and> (has_error_marker text
          \<or> (\<exists>client w1 result. get_whatsapp_client w = (Inr client, w1)
                \<and> send_message client (format_phone_number phone_number) message w1 = (Inr result, w')
                \<and> envoyer_message_whatsapp_try fmt get_whatsapp_client send_message
                     (format_phone_number phone_number) message w = (Inr text, w'))))
   \<and> (\<exists>text w'. repondre_chat_whatsapp aid fmt get_whatsapp_client send_message_to_existing_chat
                  chat_id message w = (Inr text, w')
      \<and> (has_error_marker text
          \<or> (\<exists>client w1 result. get_whatsapp_client w = (Inr client, w1)
                \<and> send_message_to_existing_chat client chat_id message w1 = (Inr result, w')
                \<and> repondre_chat_whatsapp_try fmt get_whatsapp_client send_message_to_existing_chat
                     chat_id message w = (Inr text, w'))))
   \<and> (\<exists>text w'. envoyer_email get_email_client send to subject body cc bcc attachments w = (Inr text, w')
      \<and> (has_error_marker text
          \<or> (\<exists>client w1 rto rcc rbcc rsubject n. get_email_client w = (Inr client, w1)
                \<and> send client to subject body cc bcc attachments w1
                     = (Inr (Success rto rcc rbcc rsubject n), w')
                \<and> envoyer_email_try get_email_client send to subject body cc bcc attachments w
                     = (Inr text, w'))
          \<or> (\<exists>client w1 error. get_email_client w = (Inr client, w1)
                \<and> send client to subject body cc bcc attachments w1 = (Inr (Failure error), w')
                \<and> text = ([CHR 0xC9] @ ''chec de l'' @ [CHR 0x27] @ ''envoi de l'' @ [CHR 0x27] @ ''email: '') @ error
                \<and> \<not> has_error_marker text)))
   \<and> (\<exists>text w'. recuperer_emails get_email_client retrieve folder limit unread_only search_query w
                  = (Inr text, w')
      \<and> (has_error_marker text
          \<or> (\<exists>client w1 emails. get_email_client w = (Inr client, w1)
                \<and> retrieve client folder limit unread_only search_query w1 = (Inr emails, w')
                \<and> recuperer_emails_try get_email_client retrieve folder limit unread_only search_query w
                     = (Inr text, w'))))
   \<and> (\<exists>text w'. lister_evenements_calendrier fmt strf core_list count cid w = (Inr text, w')
      \<and> (has_error_marker text
          \<or> (\<exists>events. core_list count cid w = (Inr events, w')
                \<and> lister_evenements_calendrier_try fmt strf core_list count cid w = (Inr text, w'))))
   \<and> (\<exists>text w'. creer_evenement_calendrier fmt core_create summary start_time end_time description
                 location attendees cid w = (Inr text, w')
      \<and> (has_error_marker text
          \<or> (\<exists>created. core_create summary start_time end_time description location attendees cid w
                           = (Inr created, w')
                \<and> creer_evenement_calendrier_try fmt core_create summary start_time end_time
                     description location attendees cid w = (Inr text, w'))))
   \<and> (\<exists>text w'. mettre_a_jour_evenement_calendrier fmt core_update event_id cid new_summary new_start
                 new_end new_description new_location new_attendees w = (Inr text, w')
      \<and> (has_error_marker text
          \<or> (\<exists>updated. core_update event_id cid
                 (update_request new_summary new_start new_end new_description new_location new_attendees) w
                   = (Inr updated, w')
                \<and> mettre_a_jour_evenement_calendrier_try fmt core_update event_id cid
                     (update_request new_summary new_start new_end new_description new_location
                        new_attendees) w
                     = (Inr text, w'))
          \<or> core_update event_id cid
               (update_request new_summary new_start new_end new_description new_location new_attendees) w
               = (Inl (ValueError text), w')
          \<or> (update_request new_summary new_start new_end new_description new_location new_attendees = []
                \<and> text = (''Aucune information de mise '' @ [CHR 0xE0] @ '' jour fournie.'') \<and> w' = w
                \<and> \<not> has_error_marker text)))
   \<and> (\<exists>text w'. supprimer_evenement_calendrier core_delete event_id cid w = (Inr text, w')
      \<and> (has_error_marker text
          \<or> (core_delete event_id cid w = (Inr True, w')
                \<and> text = ([CHR 0xC9] @ ''v'' @ [CHR 0xE9] @ ''nement '') @ event_id @ ('' supprim'' @ [CHR 0xE9] @ '' avec succ'' @ [CHR 0xE8] @ ''s.''))
          \<or> (core_delete event_id cid w = (Inr False, w')
                \<and> text = ([CHR 0xC9] @ ''v'' @ [CHR 0xE9] @ ''nement '') @ event_id @ ('' non trouv'' @ [CHR 0xE9] @ '' ou d'' @ [CHR 0xE9] @ ''j'' @ [CHR 0xE0] @ '' supprim'' @ [CHR 0xE9] @ ''.'')
                \<and> \<not> has_error_marker text)))
   \<and> (\<exists>resp w'. get_video_transcript make_api_request url w = (Inr resp, w')
      \<and> ((\<exists>e. get_transcript_try make_api_request url w = (Inl e, w')
              \<and> has_error_marker (get_transcript_except e)
              \<and> resp = \<lparr>resp_success = False, resp_transcript = None,
                        resp_error = Some (get_transcript_except e)\<rparr>)
          \<or> (\<exists>t video_id data.
                extract_video_id url = Inr video_id
                \<and> make_api_request ''video/subtitles'' [(''video_id'', video_id)] w = (Inr data, w')
                \<and> get_transcript_try make_api_request url w = (Inr t, w')
                \<and> resp = (if has_error_marker t
                          then \<lparr>resp_success = False, resp_transcript = None, resp_error = Some t\<rparr>
                          else \<lparr>resp_success = True, resp_transcript = Some t, resp_error = None\<rparr>))))"
  by (intro conjI tool_whatsapp_send tool_whatsapp_reply tool_email_send tool_email_retrieve
      tool_list tool_create tool_update tool_delete tool_transcript)

theorem tools_convert_failures_witness:
  "(\<exists>text w'. envoyer_email (\<lambda>w. (Inr example_client, w))
                 (send_email (\<lambda>name address. address) refusing_service)
                 [''a@example.org''] ''Hi'' ''hello'' None None None
                 (initial \<lparr>server = (), mail_calls = []\<rparr>) = (Inr text, w')
      \<and> (has_error_marker text
          \<or> (\<exists>client w1 rto rcc rbcc rsubject n.
                (Inr example_client :: exn + email_client, initial \<lparr>server = (), mail_calls = []\<rparr>)
                  = (Inr client, w1)
                \<and> send_email (\<lambda>name address. address) refusing_service client
                     [''a@example.org''] ''Hi'' ''hello'' None None None w1
                     = (Inr (Success rto rcc rbcc rsubject n), w')
                \<and> envoyer_email_try (\<lambda>w. (Inr example_client, w))
                     (send_email (\<lambda>name address. address) refusing_service)
                     [''a@example.org''] ''Hi'' ''hello'' None None None
                     (initial \<lparr>server = (), mail_calls = []\<rparr>) = (Inr text, w'))
          \<or> (\<exists>client w1 error.
                (Inr example_client :: exn + email_client, initial \<lparr>server = (), mail_calls = []\<rparr>)
                  = (Inr client, w1)
                \<and> send_email (\<lambda>name address. address) refusing_service client
                     [''a@example.org''] ''Hi'' ''hello'' None None None w1 = (Inr (Failure error), w')
                \<and> text = ([CHR 0xC9] @ ''chec de l'' @ [CHR 0x27] @ ''envoi de l'' @ [CHR 0x27] @ ''email: '') @ error
                \<and> \<not> has_error_marker text)))
   \<and> (\<exists>text w'. mettre_a_jour_evenement_calendrier example_fmt
                 (core_update_event example_settings store_service)
                 ''e9'' None (Some ''New title'') None None None None None
                 (initial \<lparr>provider = [], calls = []\<rparr>) = (Inr text, w')
      \<and> (has_error_marker text
          \<or> (\<exists>updated. core_update_event example_settings store_service ''e9'' None
                 (update_request (Some ''New title'') None None None None None)
                 (initial \<lparr>provider = [], calls = []\<rparr>) = (Inr updated, w')
                \<and> mettre_a_jour_evenement_calendrier_try example_fmt
                     (core_update_event example_settings store_service) ''e9'' None
                     (update_request (Some ''New title'') None None None None None)
                     (initial \<lparr>provider = [], calls = []\<rparr>) = (Inr text, w'))
          \<or> core_update_event example_settings store_service ''e9'' None
               (update_request (Some ''New title'') None None None None None)
               (initial \<lparr>provider = [], calls = []\<rparr>) = (Inl (ValueError text), w')
          \<or> (update_request (Some ''New title'') None None None None None = []
                \<and> text = (''Aucune information de mise '' @ [CHR 0xE0] @ '' jour fournie.'')
                \<and> w' = initial \<lparr>provider = [], calls = []\<rparr>
                \<and> \<not> has_error_marker text)))
   \<and> (\<exists>text w'. supprimer_evenement_calendrier (core_delete_event example_settings store_service)
                 ''e9'' None (initial \<lparr>provider = [], calls = []\<rparr>) = (Inr text, w')
      \<and> (has_error_marker text
          \<or> (core_delete_event example_settings store_service ''e9'' None
                 (initial \<lparr>provider = [], calls = []\<rparr>) = (Inr True, w')
                \<and> text = ([CHR 0xC9] @ ''v'' @ [CHR 0xE9] @ ''nement '') @ ''e9'' @ ('' supprim'' @ [CHR 0xE9] @ '' avec succ'' @ [CHR 0xE8] @ ''s.''))
          \<or> (core_delete_event example_settings store_service ''e9'' None
                 (initial \<lparr>provider = [], calls = []\<rparr>) = (Inr False, w')
                \<and> text = ([CHR 0xC9] @ ''v'' @ [CHR 0xE9] @ ''nement '') @ ''e9'' @ ('' non trouv'' @ [CHR 0xE9] @ '' ou d'' @ [CHR 0xE9] @ ''j'' @ [CHR 0xE0] @ '' supprim'' @ [CHR 0xE9] @ ''.'')
                \<and> \<not> has_error_marker text)))
   \<and> (\<exists>resp w'. get_video_transcript (\<lambda>endpoint params w. (Inl (YouTubeAPIError ''down''), w))
                 ''https://youtu.be/abc'' () = (Inr resp, w')
      \<and> ((\<exists>e. get_transcript_try (\<lambda>endpoint params w. (Inl (YouTubeAPIError ''down''), w))
                 ''https://youtu.be/abc'' () = (Inl e, w')
              \<and> has_error_marker (get_transcript_except e)
              \<and> resp = \<lparr>resp_success = False, resp_transcript = None,
                        resp_error = Some (get_transcript_except e)\<rparr>)
          \<or> (\<exists>t video_id data.
                extract_video_id ''https://youtu.be/abc'' = Inr video_id
                \<and> (Inl (YouTubeAPIError ''down'') :: exn + json, ()) = (Inr data, w')
                \<and> get_transcript_try (\<lambda>endpoint params w. (Inl (YouTubeAPIError ''down''), w))
                     ''https://youtu.be/abc'' () = (Inr t, w')
                \<and> resp = (if has_error_marker t
                          then \<lparr>resp_success = False, resp_transcript = None, resp_error = Some t\<rparr>
                          else \<lparr>resp_success = True, resp_transcript = Some t, resp_error = None\<rparr>))))"
proof -
  note mail = tools_convert_failures [where get_email_client = "\<lambda>w. (Inr example_client, w)"
      and send = "send_email (\<lambda>name address. address) refusing_service"
      and to = "[''a@example.org'']" and subject = "''Hi''" and body = "''hello''"
      and cc = None and bcc = None and attachments = None
      and w = "initial \<lparr>server = (), mail_calls = []\<rparr>"]
  note calendar = tools_convert_failures [where fmt = example_fmt
      and core_update = "core_update_event example_settings store_service"
      and core_delete = "core_delete_event example_settings store_service"
      and event_id = "''e9''" and cid = None and new_summary = "Some ''New title''"
      and new_start = None and new_end = None and new_description = None and new_location = None
      and new_attendees = None and w = "initial \<lparr>provider = [], calls = []\<rparr>"]
  note video = tools_convert_failures [where make_api_request = "\<lambda>endpoint params w. (Inl (YouTubeAPIError ''down''), w)"
      and url = "''https://youtu.be/abc''" and w = "()"]
  note 1 = mail [THEN conjunct2, THEN conjunct2, THEN conjunct1]
  note 2 = calendar [THEN conjunct2, THEN conjunct2, THEN conjunct2, THEN conjunct2, THEN conjunct2,
      THEN conjunct2, THEN conjunct1]
  note 3 = calendar [THEN conjunct2, THEN conjunct2, THEN conjunct2, THEN conjunct2, THEN conjunct2,
      THEN conjunct2, THEN conjunct2, THEN conjunct1]
  note 4 = video [THEN conjunct2, THEN conjunct2, THEN conjunct2, THEN conjunct2, THEN conjunct2,
      THEN conjunct2, THEN conjunct2, THEN conjunct2]
  show ?thesis
    by (rule conjI [OF 1 conjI [OF 2 conjI [OF 3 4]]])
qed

end
